(* ===== verification/Prelude.thy ===== *)
theory Prelude
  imports Main "HOL-Library.Sublist" "HOL-Library.Monad_Syntax"
begin

text \<open>
  Shared vocabulary of the development: the Python exceptions the modelled code can raise,
  the names of the model's types, the collections of rewrite rules the component theories
  register their evaluation equations in, and generic facts on lists and options that several
  components use.
\<close>

section \<open>Collections\<close>

named_theorems pystr_simps "equations that evaluate the Python string primitives"
named_theorems report_simps "equations that evaluate the report parser on a concrete input"

section \<open>Python exceptions and the model's types\<close>

text \<open>
  The exceptions the modelled code raises.  \<open>IndexError\<close> is a list read out of range,
  \<open>ValueError\<close> a failed conversion (\<^verbatim>\<open>int()\<close>, tuple unpacking, the date parser),
  \<open>KeyError\<close> a missing dictionary key, \<open>NameError\<close> a name that is not bound, \<open>FileNotFoundError\<close> and
  \<open>PermissionError\<close> failed file operations, \<open>TypeError\<close> a call with arguments of the wrong
  shape.
\<close>

datatype py_error =
    IndexError | KeyError | ValueError | NameError | FileNotFoundError | PermissionError | TypeError
  | OverflowError

text \<open>\<^verbatim>\<open>xs[i]\<close> for a non-negative index: \<open>IndexError\<close> out of range.\<close>

definition py_index :: "'a list \<Rightarrow> nat \<Rightarrow> py_error + 'a" where
  "py_index xs i = (if i < length xs then Inr (xs ! i) else Inl IndexError)"

type_synonym row = "string list"
type_synonym path = string

section \<open>Generic facts\<close>

lemma takeWhile_append_stop:
  assumes "\<forall>x\<in>set xs. P x" and "\<not> P c"
  shows "takeWhile P (xs @ c # ys) = xs"
  using assms by (induction xs) auto

lemma dropWhile_append_stop:
  assumes "\<forall>x\<in>set xs. P x" and "\<not> P c"
  shows "dropWhile P (xs @ c # ys) = c # ys"
  using assms by (induction xs) auto

lemma dropWhile_all_false [simp]:
  "\<forall>x\<in>set xs. \<not> P x \<Longrightarrow> dropWhile P xs = xs"
  by (cases xs) auto

lemma prefix_append_self [intro]: "prefix xs (xs @ ys)"
  by simp

lemma drop_length_append [simp]: "drop (length xs) (xs @ ys) = ys"
  by simp

lemma sorted_wrt_less_map_fst_filter:
  "sorted_wrt (<) (map f xs) \<Longrightarrow> sorted_wrt (<) (map f (filter P xs))"
  by (induction xs) auto

lemma py_index_Inr [simp]: "i < length xs \<Longrightarrow> py_index xs i = Inr (xs ! i)"
  by (simp add: py_index_def)

lemma py_index_Inl [simp]: "length xs \<le> i \<Longrightarrow> py_index xs i = Inl IndexError"
  by (simp add: py_index_def)

lemma mod_eq_close_le:
  fixes a b :: nat
  assumes "a mod m = b mod m" and "a < b + m" and "b \<le> a"
  shows "a = b"
proof -
  have "m dvd a - b" using assms(1,3) by (simp add: mod_eq_dvd_iff_nat)
  moreover have "a - b < m" using assms(2,3) by arith
  ultimately have "a - b = 0" by (meson dvd_imp_le not_le neq0_conv)
  with assms(3) show ?thesis by simp
qed

lemma mod_eq_close:
  fixes a b :: nat
  assumes "a mod m = b mod m" and "a < b + m" and "b < a + m"
  shows "a = b"
  using mod_eq_close_le [OF assms(1,2)] mod_eq_close_le [OF assms(1)[symmetric] assms(3)]
  by linarith

lemma find_append:
  "List.find P (xs @ ys) = (case List.find P xs of None \<Rightarrow> List.find P ys | Some x \<Rightarrow> Some x)"
  by (induction xs) auto

lemma find_SomeD: "List.find P xs = Some x \<Longrightarrow> x \<in> set xs \<and> P x"
  by (induction xs) (auto split: if_splits)

end
