(* ===== verification/PyStr.thy ===== *)
theory PyStr
  imports Prelude
begin

text \<open>
  The Python string primitives the parser is built from, as the CPython builtins behave on
  text whose code points are below 256 (a Python \<open>str\<close> is a sequence of code points; an
  Isabelle \<open>char\<close> is one of the 256 code points of Latin-1, so a report is modelled as a
  Latin-1 text):
  \<^item> \<^verbatim>\<open>str.isspace\<close>, \<^verbatim>\<open>str.strip\<close> (written \<^verbatim>\<open>lstrip().rstrip()\<close> in the code);
  \<^item> \<^verbatim>\<open>str.split(sep)\<close> for a non-empty separator, and \<^verbatim>\<open>str.split()\<close>;
  \<^item> \<^verbatim>\<open>int(s)\<close> on a decimal literal and \<^verbatim>\<open>str(i)\<close> of an integer, as f-strings render it.
  These are library semantics, not code of the repository; they carry no source lines.
\<close>

section \<open>Whitespace and strip\<close>

text \<open>
  The characters below 256 for which \<^verbatim>\<open>str.isspace\<close> holds: tab, line feed, vertical tab,
  form feed, carriage return, the separators 0x1c--0x1f, space, NEL (0x85) and NBSP (0xa0).
\<close>

definition py_whitespace :: "char list" where
  "py_whitespace = [CHR 0x09, CHR 0x0A, CHR 0x0B, CHR 0x0C, CHR 0x0D, CHR 0x1C, CHR 0x1D,
     CHR 0x1E, CHR 0x1F, CHR 0x20, CHR 0x85, CHR 0xA0]"

definition py_isspace :: "char \<Rightarrow> bool" where
  "py_isspace c \<longleftrightarrow> c \<in> set py_whitespace"

definition py_strip :: "string \<Rightarrow> string" where
  "py_strip s = rev (dropWhile py_isspace (rev (dropWhile py_isspace s)))"

section \<open>str.split(sep)\<close>

text \<open>
  \<^verbatim>\<open>s.split(sep)\<close> scans left to right and cuts at every non-overlapping occurrence of
  \<open>sep\<close>; it returns one more piece than it found occurrences.  The accumulator holds the
  current piece reversed.  The code only splits on the literals \<^verbatim>\<open>"Hourly"\<close> and
  \<^verbatim>\<open>'\n'\<close>, \<^verbatim>\<open>'\t'\<close>; an empty separator, which Python refuses with
  \<open>ValueError\<close>, never cuts here.
\<close>

function split_sep_aux :: "string \<Rightarrow> string \<Rightarrow> string \<Rightarrow> string list" where
  "split_sep_aux sep acc [] = [rev acc]"
| "split_sep_aux sep acc (c # cs) =
     (if sep \<noteq> [] \<and> prefix sep (c # cs)
      then rev acc # split_sep_aux sep [] (drop (length sep) (c # cs))
      else split_sep_aux sep (c # acc) cs)"
  by pat_completeness auto
termination
  by (relation "measure (\<lambda>(sep, acc, s). length s)") auto

definition py_split :: "string \<Rightarrow> string \<Rightarrow> string list" where
  "py_split sep s = split_sep_aux sep [] s"

text \<open>\<^verbatim>\<open>sep.join(xs)\<close>, the inverse of \<^verbatim>\<open>split\<close>.\<close>

fun py_join :: "string \<Rightarrow> string list \<Rightarrow> string" where
  "py_join sep [] = []"
| "py_join sep [x] = x"
| "py_join sep (x # y # zs) = x @ sep @ py_join sep (y # zs)"

section \<open>str.split()\<close>

text \<open>
  Without an argument, \<^verbatim>\<open>split\<close> cuts at runs of whitespace and drops empty pieces.
\<close>

fun split_ws_aux :: "string \<Rightarrow> string \<Rightarrow> string list" where
  "split_ws_aux acc [] = (if acc = [] then [] else [rev acc])"
| "split_ws_aux acc (c # cs) =
     (if py_isspace c
      then (if acc = [] then split_ws_aux [] cs else rev acc # split_ws_aux [] cs)
      else split_ws_aux (c # acc) cs)"

definition py_split_ws :: "string \<Rightarrow> string list" where
  "py_split_ws s = split_ws_aux [] s"

text \<open>\<^verbatim>\<open>s.replace(a, b)\<close> for one-character \<open>a\<close> and \<open>b\<close>.\<close>

definition py_replace_char :: "char \<Rightarrow> char \<Rightarrow> string \<Rightarrow> string" where
  "py_replace_char a b s = map (\<lambda>c. if c = a then b else c) s"

section \<open>int() and str() of integers\<close>

definition is_digit :: "char \<Rightarrow> bool" where
  "is_digit c \<longleftrightarrow> c \<in> set ''0123456789''"

definition digit_val :: "char \<Rightarrow> int" where
  "digit_val c = int (of_char c) - 48"

text \<open>
  The digits after the first one of a decimal literal: \<^verbatim>\<open>int()\<close> allows a single underscore
  between two digits (\<^verbatim>\<open>int("1_000") == 1000\<close>), nothing else.
\<close>

fun py_digits :: "int \<Rightarrow> string \<Rightarrow> int option" where
  "py_digits n [] = Some n"
| "py_digits n (c # cs) =
     (if is_digit c then py_digits (10 * n + digit_val c) cs
      else if c = CHR ''_'' then
        (case cs of
          d # ds \<Rightarrow> (if is_digit d then py_digits (10 * n + digit_val d) ds else None)
        | [] \<Rightarrow> None)
      else None)"

definition py_unsigned :: "string \<Rightarrow> int option" where
  "py_unsigned s =
     (case s of d # ds \<Rightarrow> (if is_digit d then py_digits (digit_val d) ds else None) | [] \<Rightarrow> None)"

text \<open>
  \<^verbatim>\<open>int(s)\<close> strips surrounding whitespace, takes an optional sign and a decimal literal;
  anything else raises \<open>ValueError\<close>, modelled as \<open>None\<close>.
\<close>

definition py_int :: "string \<Rightarrow> int option" where
  "py_int s =
     (case py_strip s of
       [] \<Rightarrow> None
     | c # cs \<Rightarrow>
         (if c = CHR ''-'' then map_option uminus (py_unsigned cs)
          else if c = CHR ''+'' then py_unsigned cs
          else py_unsigned (c # cs)))"

definition digit_char :: "nat \<Rightarrow> char" where
  "digit_char d =
     (if d = 0 then CHR ''0'' else if d = 1 then CHR ''1'' else if d = 2 then CHR ''2''
      else if d = 3 then CHR ''3'' else if d = 4 then CHR ''4'' else if d = 5 then CHR ''5''
      else if d = 6 then CHR ''6'' else if d = 7 then CHR ''7'' else if d = 8 then CHR ''8''
      else CHR ''9'')"

fun show_nat :: "nat \<Rightarrow> string" where
  "show_nat n =
     (if n < 10 then [digit_char n] else show_nat (n div 10) @ [digit_char (n mod 10)])"

declare show_nat.simps [simp del]

text \<open>\<^verbatim>\<open>str(i)\<close> (and \<^verbatim>\<open>f"{i}"\<close>) of a Python integer.\<close>

definition py_str_int :: "int \<Rightarrow> string" where
  "py_str_int i = (if i < 0 then CHR ''-'' # show_nat (nat (- i)) else show_nat (nat i))"

text \<open>\<^verbatim>\<open>f"{v}"\<close> of a value that is an integer or \<^verbatim>\<open>None\<close>.\<close>

fun py_str_opt :: "int option \<Rightarrow> string" where
  "py_str_opt None = ''None''"
| "py_str_opt (Some i) = py_str_int i"

text \<open>The value of a digit string, one digit at a time.\<close>

definition digits_step :: "int \<Rightarrow> char \<Rightarrow> int" where
  "digits_step a c = 10 * a + digit_val c"

text \<open>A field of \<^verbatim>\<open>split()\<close>: non-empty, without whitespace.\<close>

definition ws_free :: "string \<Rightarrow> bool" where
  "ws_free w \<longleftrightarrow> w \<noteq> [] \<and> (\<forall>c\<in>set w. \<not> py_isspace c)"

section \<open>Evaluation rules\<close>

text \<open>The equations \<open>simp\<close> evaluates the primitives with on concrete text.\<close>

declare py_int_def [pystr_simps] py_strip_def [pystr_simps] py_isspace_def [pystr_simps]
  py_whitespace_def [pystr_simps] py_unsigned_def [pystr_simps] is_digit_def [pystr_simps]
  digit_val_def [pystr_simps] py_split_def [pystr_simps] py_split_ws_def [pystr_simps]
  py_str_int_def [pystr_simps] show_nat.simps [pystr_simps] digit_char_def [pystr_simps]
  py_replace_char_def [pystr_simps]

section \<open>Facts on the primitives\<close>

subsection \<open>Characters\<close>

lemma digit_not_space [simp]: "is_digit c \<Longrightarrow> \<not> py_isspace c"
  by (auto simp: is_digit_def py_isspace_def py_whitespace_def)

lemma digit_not_sign [simp]:
  "is_digit c \<Longrightarrow> c \<noteq> CHR ''-''" "is_digit c \<Longrightarrow> c \<noteq> CHR ''+''"
  "is_digit c \<Longrightarrow> c \<noteq> CHR ''_''" "is_digit c \<Longrightarrow> c \<noteq> CHR '',''"
  by (auto simp: is_digit_def)

lemma minus_not_space [simp]: "\<not> py_isspace CHR ''-''"
  by (simp add: py_isspace_def py_whitespace_def)

lemma digit_char_of:
  assumes "d < 10"
  shows "is_digit (digit_char d)" and "digit_val (digit_char d) = int d"
proof -
  from assms have "d \<in> {0, 1, 2, 3, 4, 5, 6, 7, 8, 9}" by auto
  then show "is_digit (digit_char d)" and "digit_val (digit_char d) = int d"
    by (auto simp: is_digit_def digit_char_def digit_val_def)
qed

subsection \<open>str() of an integer reads back with int()\<close>

lemma show_nat_nonempty [simp]: "show_nat n \<noteq> []"
  by (subst show_nat.simps) simp

lemma show_nat_digits: "\<forall>c\<in>set (show_nat n). is_digit c"
proof (induction n rule: show_nat.induct)
  case (1 n)
  then show ?case
    by (subst show_nat.simps) (auto simp: digit_char_of)
qed

lemma py_digits_foldl:
  "\<forall>c\<in>set ds. is_digit c \<Longrightarrow> py_digits n ds = Some (foldl digits_step n ds)"
  by (induction ds arbitrary: n) (auto simp: digits_step_def)

lemma foldl_show_nat: "foldl digits_step 0 (show_nat n) = int n"
proof (induction n rule: show_nat.induct)
  case (1 n)
  show ?case
  proof (cases "n < 10")
    case True
    then show ?thesis
      by (subst show_nat.simps) (simp add: digits_step_def digit_char_of)
  next
    case False
    then have "foldl digits_step 0 (show_nat n)
        = 10 * foldl digits_step 0 (show_nat (n div 10)) + int (n mod 10)"
      by (subst show_nat.simps) (simp add: digits_step_def digit_char_of)
    moreover have "10 * int (n div 10) + int (n mod 10) = int n"
      by (simp add: zdiv_int zmod_int)
    ultimately show ?thesis using "1" False by simp
  qed
qed

lemma py_unsigned_show_nat [simp]: "py_unsigned (show_nat n) = Some (int n)"
proof -
  obtain d ds where ds: "show_nat n = d # ds"
    by (cases "show_nat n") auto
  with show_nat_digits have d: "is_digit d" and dd: "\<forall>c\<in>set ds. is_digit c"
    by (metis list.set_intros)+
  have "foldl digits_step 0 (d # ds) = int n"
    using ds foldl_show_nat by metis
  with d dd ds show ?thesis
    by (simp add: py_unsigned_def py_digits_foldl digits_step_def)
qed

lemma py_str_int_chars: "\<forall>c\<in>set (py_str_int i). is_digit c \<or> c = CHR ''-''"
  using show_nat_digits by (auto simp: py_str_int_def)

lemma py_strip_no_space:
  "\<forall>c\<in>set s. \<not> py_isspace c \<Longrightarrow> py_strip s = s"
  by (simp add: py_strip_def)

lemma py_strip_pad:
  assumes "\<forall>c\<in>set ws. py_isspace c" and "\<forall>c\<in>set ws'. py_isspace c"
    and "\<forall>c\<in>set x. \<not> py_isspace c"
  shows "py_strip (ws @ x @ ws') = x"
proof (cases "x = []")
  case True
  have "dropWhile py_isspace ws' = []" using assms(2) by (induction ws') auto
  then show ?thesis using assms(1) True
    by (simp add: py_strip_def dropWhile_append2 del: dropWhile_eq_Nil_conv)
next
  case False
  then obtain a xs where x: "x = a # xs" by (cases x) auto
  obtain b ys where rx: "rev x = b # ys" using False by (cases "rev x") auto
  have a: "\<not> py_isspace a" using assms(3) x by simp
  have "b \<in> set x" using rx by (metis list.set_intros(1) set_rev)
  then have b: "\<not> py_isspace b" using assms(3) by blast
  have "dropWhile py_isspace (ws @ x @ ws') = x @ ws'"
    using assms(1) x a by (simp add: dropWhile_append2)
  moreover have "dropWhile py_isspace (rev ws' @ rev x) = rev x"
    using dropWhile_append_stop [of "rev ws'" py_isspace b ys] assms(2) rx b by simp
  ultimately show ?thesis by (simp add: py_strip_def)
qed

lemma py_str_int_no_space: "\<forall>c\<in>set (py_str_int i). \<not> py_isspace c"
  using py_str_int_chars by fastforce

theorem py_int_py_str_int [simp]: "py_int (py_str_int i) = Some i"
proof -
  have strip: "py_strip (py_str_int i) = py_str_int i"
    by (rule py_strip_no_space[OF py_str_int_no_space])
  show ?thesis
  proof (cases "i < 0")
    case True
    then have "py_str_int i = CHR ''-'' # show_nat (nat (- i))"
      by (simp add: py_str_int_def)
    with True strip show ?thesis by (simp add: py_int_def)
  next
    case False
    obtain d ds where ds: "show_nat (nat i) = d # ds"
      by (cases "show_nat (nat i)") auto
    with show_nat_digits have "is_digit d" by (metis list.set_intros(1))
    then have "d \<noteq> CHR ''-''" and "d \<noteq> CHR ''+''" by simp_all
    moreover have "py_str_int i = d # ds" using False ds by (simp add: py_str_int_def)
    moreover have "py_unsigned (d # ds) = Some i"
      using False py_unsigned_show_nat [of "nat i"] by (simp only: ds) simp
    ultimately show ?thesis using strip by (simp add: py_int_def)
  qed
qed

lemma py_str_int_inj: "py_str_int i = py_str_int j \<Longrightarrow> i = j"
  by (metis option.inject py_int_py_str_int)

subsection \<open>split(sep) and join\<close>

lemma split_sep_aux_nonempty [simp]: "split_sep_aux sep acc s \<noteq> []"
  by (induction sep acc s rule: split_sep_aux.induct) auto

lemma py_join_Cons: "xs \<noteq> [] \<Longrightarrow> py_join sep (x # xs) = x @ sep @ py_join sep xs"
  by (cases xs) auto

lemma py_join_split_sep_aux: "py_join sep (split_sep_aux sep acc s) = rev acc @ s"
proof (induction sep acc s rule: split_sep_aux.induct)
  case (2 sep acc c cs)
  show ?case
  proof (cases "sep \<noteq> [] \<and> prefix sep (c # cs)")
    case True
    then obtain r where r: "c # cs = sep @ r"
      by (auto simp: prefix_def)
    then have d: "drop (length sep) (c # cs) = r" by simp
    have "split_sep_aux sep acc (c # cs) = rev acc # split_sep_aux sep [] r"
      using True d by simp
    then have "py_join sep (split_sep_aux sep acc (c # cs))
        = rev acc @ sep @ py_join sep (split_sep_aux sep [] r)"
      by (simp add: py_join_Cons)
    also have "py_join sep (split_sep_aux sep [] r) = r"
      using "2.IH"(1) True d by simp
    finally show ?thesis using r by simp
  next
    case False
    then have "split_sep_aux sep acc (c # cs) = split_sep_aux sep (c # acc) cs"
      by (simp only: split_sep_aux.simps(2) if_False simp_thms)
    with "2.IH"(2) False show ?thesis by simp
  qed
qed simp

text \<open>Joining the pieces of a split gives the text back.\<close>

theorem py_join_py_split [simp]: "py_join sep (py_split sep s) = s"
  by (simp add: py_split_def py_join_split_sep_aux)

lemma split_sep_aux_skip:
  "sep \<noteq> [] \<Longrightarrow> hd sep \<notin> set x \<Longrightarrow>
     split_sep_aux sep acc (x @ s) = split_sep_aux sep (rev x @ acc) s"
proof (induction x arbitrary: acc)
  case (Cons c x)
  then have "\<not> prefix sep (c # x @ s)"
    by (cases sep) auto
  with Cons show ?case by simp
qed simp

lemma split_sep_aux_cut:
  "sep \<noteq> [] \<Longrightarrow> split_sep_aux sep acc (sep @ s) = rev acc # split_sep_aux sep [] s"
  by (cases sep) auto

lemma split_sep_aux_join:
  "sep \<noteq> [] \<Longrightarrow> xs \<noteq> [] \<Longrightarrow> \<forall>x\<in>set xs. hd sep \<notin> set x \<Longrightarrow>
     split_sep_aux sep [] (py_join sep xs) = xs"
proof (induction xs rule: induct_list012)
  case (2 x)
  then have "split_sep_aux sep [] (x @ []) = split_sep_aux sep (rev x @ []) []"
    by (intro split_sep_aux_skip) simp_all
  then show ?case by simp
next
  case (3 x y zs)
  let ?r = "py_join sep (y # zs)"
  have "split_sep_aux sep [] (py_join sep (x # y # zs)) = split_sep_aux sep (rev x) (sep @ ?r)"
    using split_sep_aux_skip [of sep x "[]" "sep @ ?r"] "3.prems" by simp
  also have "\<dots> = x # split_sep_aux sep [] ?r"
    using split_sep_aux_cut [of sep "rev x" ?r] "3.prems"(1) by simp
  also have "split_sep_aux sep [] ?r = y # zs"
    using "3.prems" by (intro "3.IH"(2)) simp_all
  finally show ?case .
qed simp

text \<open>Splitting a join gives the pieces back when no piece holds the separator's first
  character.\<close>

theorem py_split_py_join:
  "sep \<noteq> [] \<Longrightarrow> xs \<noteq> [] \<Longrightarrow> \<forall>x\<in>set xs. hd sep \<notin> set x \<Longrightarrow>
     py_split sep (py_join sep xs) = xs"
  by (simp add: py_split_def split_sep_aux_join)

lemma set_py_join: "set (py_join sep xs) \<subseteq> set sep \<union> (\<Union>x\<in>set xs. set x)"
  by (induction sep xs rule: py_join.induct) auto

subsection \<open>split()\<close>

lemma split_ws_aux_fields:
  "\<forall>c\<in>set acc. \<not> py_isspace c \<Longrightarrow> \<forall>w\<in>set (split_ws_aux acc s). ws_free w"
proof (induction acc s rule: split_ws_aux.induct)
  case (1 acc)
  then show ?case by (simp add: ws_free_def)
next
  case (2 acc c cs)
  show ?case
  proof (cases "py_isspace c")
    case True
    have rest: "\<forall>w\<in>set (split_ws_aux [] cs). ws_free w"
      using "2.IH"(1) "2.IH"(2) True by (cases "acc = []") simp_all
    show ?thesis
    proof (cases "acc = []")
      case True
      with \<open>py_isspace c\<close> rest show ?thesis by simp
    next
      case False
      with \<open>py_isspace c\<close> rest "2.prems" show ?thesis by (simp add: ws_free_def)
    qed
  next
    case False
    with "2.IH"(3) "2.prems" show ?thesis by simp
  qed
qed

text \<open>Every field of \<^verbatim>\<open>split()\<close> is non-empty and holds no whitespace.\<close>

theorem py_split_ws_fields: "\<forall>w\<in>set (py_split_ws s). ws_free w"
  using split_ws_aux_fields [of "[]" s] by (simp add: py_split_ws_def)

lemma split_ws_aux_word:
  "\<forall>c\<in>set w. \<not> py_isspace c \<Longrightarrow> split_ws_aux acc (w @ s) = split_ws_aux (rev w @ acc) s"
  by (induction w arbitrary: acc) auto

lemma space_isspace [simp]: "py_isspace CHR '' ''"
  by (simp add: py_isspace_def py_whitespace_def)

theorem py_split_ws_join:
  "\<forall>w\<in>set ws. ws_free w \<Longrightarrow> py_split_ws (py_join '' '' ws) = ws"
  unfolding py_split_ws_def
proof (induction ws rule: induct_list012)
  case (2 x)
  then have "\<forall>c\<in>set x. \<not> py_isspace c" and "x \<noteq> []" by (simp_all add: ws_free_def)
  from split_ws_aux_word [OF this(1), of "[]" "[]"] this(2) show ?case by simp
next
  case (3 x y zs)
  then have x: "\<forall>c\<in>set x. \<not> py_isspace c" "x \<noteq> []" by (simp_all add: ws_free_def)
  let ?r = "py_join '' '' (y # zs)"
  have "split_ws_aux [] (py_join '' '' (x # y # zs)) = split_ws_aux (rev x) (CHR '' '' # ?r)"
    using split_ws_aux_word [OF x(1), of "[]" "CHR '' '' # ?r"] by simp
  also have "\<dots> = x # split_ws_aux [] ?r"
    using x(2) by simp
  finally show ?case using "3.IH"(2) "3.prems" by simp
qed simp

end
