(* ===== verification/Dates.thy ===== *)
theory Dates
  imports PyStr
begin

text \<open>
  The date of a report.  \<^verbatim>\<open>extract_date\<close> (src/src/30_pars.py) strips the date segment and
  hands it to \<^verbatim>\<open>dateutil.parser.parse\<close>; the value is a \<^verbatim>\<open>datetime\<close> at midnight, and
  the SQL emitter renders it with \<^verbatim>\<open>str()\<close>.  dateutil is a library the code calls, so its
  parser is modelled from the spec and from dateutil's documented rules, for the numeric form
  the reports use: three decimal fields separated by \<^verbatim>\<open>/\<close>.  The model returns a date only
  where dateutil returns the same date; dateutil accepts other forms (month names, ISO dates)
  for which the model returns \<open>None\<close>.
\<close>

section \<open>Dates\<close>

record py_date =
  year :: nat
  month :: nat
  day :: nat

definition is_leap :: "nat \<Rightarrow> bool" where
  "is_leap y \<longleftrightarrow> (4 dvd y \<and> \<not> 100 dvd y) \<or> 400 dvd y"

definition days_in_month :: "nat \<Rightarrow> nat \<Rightarrow> nat" where
  "days_in_month y m =
     (if m = 2 then (if is_leap y then 29 else 28)
      else if m \<in> {4, 6, 9, 11} then 30 else 31)"

text \<open>The dates \<^verbatim>\<open>datetime\<close> accepts: years 1 to 9999, months 1 to 12, days in range.\<close>

definition valid_date :: "py_date \<Rightarrow> bool" where
  "valid_date d \<longleftrightarrow>
     1 \<le> year d \<and> year d \<le> 9999 \<and> 1 \<le> month d \<and> month d \<le> 12 \<and>
     1 \<le> day d \<and> day d \<le> days_in_month (year d) (month d)"

section \<open>dateutil.parser.parse on D/D/D\<close>

text \<open>
  dateutil reads a two-digit year relative to the current year \<open>now\<close>: it adds the current
  century and moves the result by a hundred years so that it lies in
  \<open>[now - 50, now + 50)\<close> (\<^verbatim>\<open>parser._convertyear\<close>).  A year field of more than two
  digits marks the century as given and is kept as it is.
\<close>

definition convert_year :: "nat \<Rightarrow> bool \<Rightarrow> nat \<Rightarrow> nat" where
  "convert_year now century_specified y =
     (if y < 100 \<and> \<not> century_specified then
        (let y1 = y + now div 100 * 100 in
         if now + 50 \<le> y1 then y1 - 100 else if y1 + 50 < now then y1 + 100 else y1)
      else y)"

definition digits_nat :: "string \<Rightarrow> nat" where
  "digits_nat t = nat (foldl digits_step 0 t)"

definition all_digits :: "string \<Rightarrow> bool" where
  "all_digits t \<longleftrightarrow> t \<noteq> [] \<and> (\<forall>c\<in>set t. is_digit c)"

text \<open>
  Three numbers \<open>a/b/c\<close> without a month name are resolved as dateutil's \<^verbatim>\<open>_ymd.resolve_ymd\<close>
  does with its defaults (\<^verbatim>\<open>dayfirst=False\<close>, \<^verbatim>\<open>yearfirst=False\<close>): year first when
  \<open>a > 31\<close> or \<open>a\<close> has more than two digits, day first when \<open>a > 12\<close>, otherwise
  month/day/year.  A second field of more than two digits is refused
  (\<^verbatim>\<open>Year is already set\<close>), and so is a date \<^verbatim>\<open>datetime\<close> refuses.
\<close>

definition resolve_ymd :: "nat \<Rightarrow> string \<Rightarrow> string \<Rightarrow> string \<Rightarrow> py_date" where
  "resolve_ymd now a b c =
     (let va = digits_nat a; vb = digits_nat b; vc = digits_nat c;
          cs = (2 < length a \<or> 2 < length b \<or> 2 < length c)
      in if 31 < va \<or> 2 < length a then \<lparr>year = convert_year now cs va, month = vb, day = vc\<rparr>
         else if 12 < va then \<lparr>year = convert_year now cs vc, month = vb, day = va\<rparr>
         else \<lparr>year = convert_year now cs vc, month = va, day = vb\<rparr>)"

definition dateutil_parse :: "nat \<Rightarrow> string \<Rightarrow> py_date option" where
  "dateutil_parse now s =
     (case py_split ''/'' s of
       [a, b, c] \<Rightarrow>
         (if all_digits a \<and> all_digits b \<and> all_digits c \<and>
             length (filter (\<lambda>t. 2 < length t) [a, b, c]) \<le> 1
          then (let d = resolve_ymd now a b c in if valid_date d then Some d else None)
          else None)
     | _ \<Rightarrow> None)"

section \<open>extract_date\<close>

text \<open>
  \<^verbatim>\<open>extract_date(s)\<close>: \<^verbatim>\<open>s.lstrip().rstrip()\<close>, then \<^verbatim>\<open>parser.parse\<close>, whose failure is
  a \<open>ValueError\<close> that aborts the file.
\<close>

definition extract_date :: "nat \<Rightarrow> string \<Rightarrow> py_error + py_date" where
  "extract_date now s =
     (case dateutil_parse now (py_strip s) of None \<Rightarrow> Inl ValueError | Some d \<Rightarrow> Inr d)"

section \<open>str() of the datetime\<close>

text \<open>\<^verbatim>\<open>"%0kd"\<close>: the decimal digits padded with zeros to \<open>k\<close> places.\<close>

definition zpad :: "nat \<Rightarrow> nat \<Rightarrow> string" where
  "zpad k n = replicate (k - length (show_nat n)) CHR ''0'' @ show_nat n"

text \<open>
  \<^verbatim>\<open>str(datetime)\<close> is \<^verbatim>\<open>YYYY-MM-DD HH:MM:SS\<close>; the parsed value is at midnight.
\<close>

definition py_str_datetime :: "py_date \<Rightarrow> string" where
  "py_str_datetime d =
     zpad 4 (year d) @ ''-'' @ zpad 2 (month d) @ ''-'' @ zpad 2 (day d) @ '' 00:00:00''"

text \<open>The \<open>MM/DD/YY\<close> text of a date, the form of the reports.\<close>

definition mdy_text :: "py_date \<Rightarrow> string" where
  "mdy_text d = zpad 2 (month d) @ ''/'' @ zpad 2 (day d) @ ''/'' @ zpad 2 (year d mod 100)"
text \<open>The characters of a rendered date: digits, \<open>-\<close>, space and \<open>:\<close>.\<close>

definition date_char :: "char \<Rightarrow> bool" where
  "date_char c \<longleftrightarrow> is_digit c \<or> c \<in> set ''- :''"

section \<open>Facts\<close>

lemma dateutil_parse_valid: "dateutil_parse now s = Some d \<Longrightarrow> valid_date d"
  by (auto simp: dateutil_parse_def Let_def split: list.splits if_splits)

lemma extract_date_valid: "extract_date now s = Inr d \<Longrightarrow> valid_date d"
  by (auto simp: extract_date_def dateutil_parse_valid split: option.splits)

subsection \<open>The two-digit year window\<close>

lemma convert_year_window:
  assumes "y < 100" and "100 \<le> now"
  shows "now - 50 \<le> convert_year now False y \<and> convert_year now False y < now + 50
         \<and> convert_year now False y mod 100 = y"
proof -
  obtain q r where now: "now = 100 * q + r" and r: "r < 100"
    using div_mult_mod_eq [of now 100] mod_less_divisor [of 100 now] by (metis mult.commute zero_less_numeral)
  then have c: "now div 100 * 100 = 100 * q" by simp
  have m: "(y + 100 * k) mod 100 = y" for k using assms(1) by simp
  consider (hi) "now + 50 \<le> y + 100 * q" | (lo) "y + 100 * q + 50 < now"
    | (mid) "\<not> now + 50 \<le> y + 100 * q" "\<not> y + 100 * q + 50 < now" by linarith
  then show ?thesis
  proof cases
    case hi
    then have "1 \<le> q" using now r assms by linarith
    then have "y + 100 * q - 100 = y + 100 * (q - 1)" by (simp add: algebra_simps)
    with hi assms(1) have "convert_year now False y = y + 100 * (q - 1)"
      by (simp add: convert_year_def c)
    moreover have "now - 50 \<le> y + 100 * (q - 1)" "y + 100 * (q - 1) < now + 50"
      using hi \<open>1 \<le> q\<close> now r assms(1) by (simp_all add: right_diff_distrib')
    ultimately show ?thesis using m [of "q - 1"] by simp
  next
    case lo
    with assms(1) have "convert_year now False y = y + 100 * (q + 1)"
      by (simp add: convert_year_def c)
    with lo show ?thesis using now r m [of "q + 1"] by simp
  next
    case mid
    with assms(1) have "convert_year now False y = y + 100 * q"
      by (simp add: convert_year_def c)
    with mid show ?thesis using now r m [of q] by simp
  qed
qed

subsection \<open>The rendered date\<close>

lemma zero_digit: "is_digit CHR ''0''"
  by (simp add: is_digit_def)
lemma zpad_digits: "\<forall>c\<in>set (zpad k n). is_digit c"
  using show_nat_digits [of n] zero_digit by (auto simp: zpad_def)
lemma convert_year_unique:
  assumes "100 \<le> now" and "now - 50 \<le> y" and "y < now + 50"
  shows "convert_year now False (y mod 100) = y"
proof -
  have w: "now - 50 \<le> convert_year now False (y mod 100)"
    "convert_year now False (y mod 100) < now + 50"
    "convert_year now False (y mod 100) mod 100 = y mod 100"
    using convert_year_window [of "y mod 100" now] assms(1) by simp_all
  show ?thesis
    by (rule mod_eq_close [OF w(3)]) (use w assms in linarith)+
qed
lemma day_le_31: "valid_date d \<Longrightarrow> day d \<le> 31"
  by (auto simp: valid_date_def days_in_month_def split: if_splits)
lemma length_show_nat_le: "n < 10 ^ k \<Longrightarrow> 0 < k \<Longrightarrow> length (show_nat n) \<le> k"
proof (induction n arbitrary: k rule: show_nat.induct)
  case (1 n)
  show ?case
  proof (cases "n < 10")
    case True
    with "1.prems" show ?thesis by (subst show_nat.simps) simp
  next
    case False
    with "1.prems" obtain k' where k: "k = Suc k'" and "0 < k'"
      by (cases k; cases "k - 1") auto
    with "1.prems" have "n div 10 < 10 ^ k'" by (simp add: less_mult_imp_div_less mult.commute)
    with "1.IH" False \<open>0 < k'\<close> have "length (show_nat (n div 10)) \<le> k'" by simp
    with False k show ?thesis by (subst show_nat.simps) simp
  qed
qed
lemma length_zpad: "n < 10 ^ k \<Longrightarrow> 0 < k \<Longrightarrow> length (zpad k n) = k"
  using length_show_nat_le [of n k] by (simp add: zpad_def)
lemma py_str_datetime_length:
  "valid_date d \<Longrightarrow> length (py_str_datetime d) = 19"
  using day_le_31 [of d] by (simp add: py_str_datetime_def length_zpad valid_date_def)
lemma foldl_zeros: "foldl digits_step 0 (replicate j CHR ''0'') = 0"
  by (induction j) (simp_all add: digits_step_def digit_val_def)
lemma digits_nat_zpad [simp]: "digits_nat (zpad k n) = n"
  by (simp add: digits_nat_def zpad_def foldl_zeros foldl_show_nat)
lemma all_digits_zpad [simp]: "all_digits (zpad k n)"
  using zpad_digits [of k n] by (simp add: all_digits_def zpad_def)
lemma slash_not_digit: "is_digit c \<Longrightarrow> c \<noteq> CHR ''/''"
  by (auto simp: is_digit_def)
lemma py_split_mdy_text:
  "py_split ''/'' (mdy_text d) = [zpad 2 (month d), zpad 2 (day d), zpad 2 (year d mod 100)]"
proof -
  have "\<forall>x\<in>set [zpad 2 (month d), zpad 2 (day d), zpad 2 (year d mod 100)]. hd ''/'' \<notin> set x"
    using zpad_digits slash_not_digit by fastforce
  then have "py_split ''/'' (py_join ''/'' [zpad 2 (month d), zpad 2 (day d), zpad 2 (year d mod 100)])
      = [zpad 2 (month d), zpad 2 (day d), zpad 2 (year d mod 100)]"
    by (intro py_split_py_join) simp_all
  then show ?thesis by (simp add: mdy_text_def)
qed
theorem dateutil_parse_mdy:
  assumes "valid_date d" and "100 \<le> now" and "now - 50 \<le> year d" and "year d < now + 50"
  shows "dateutil_parse now (mdy_text d) = Some d"
proof -
  have m: "month d \<le> 12" and dd: "day d \<le> 31" using assms(1) day_le_31 by (simp_all add: valid_date_def)
  then have l: "length (zpad 2 (month d)) = 2" "length (zpad 2 (day d)) = 2"
      "length (zpad 2 (year d mod 100)) = 2"
    by (simp_all add: length_zpad)
  have "resolve_ymd now (zpad 2 (month d)) (zpad 2 (day d)) (zpad 2 (year d mod 100)) = d"
    using m l convert_year_unique [OF assms(2-4)] by (simp add: resolve_ymd_def)
  with assms(1) l show ?thesis by (simp add: dateutil_parse_def py_split_mdy_text)
qed

lemma py_str_datetime_chars: "\<forall>c\<in>set (py_str_datetime d). date_char c"
  using zpad_digits by (auto simp: py_str_datetime_def date_char_def zero_digit)

lemma mdy_text_no_space: "\<forall>c\<in>set (mdy_text d). \<not> py_isspace c"
proof -
  have "\<not> py_isspace CHR ''/''" by (simp add: py_isspace_def py_whitespace_def)
  then show ?thesis using zpad_digits digit_not_space by (auto simp: mdy_text_def)
qed

text \<open>
  C24: \<^verbatim>\<open>extract_date\<close> reads back the date line the reports carry: a valid date written
  \<open>MM/DD/YY\<close>, with any whitespace around it, is parsed to that date when its year lies in
  dateutil's window of fifty years around the current year.
\<close>

theorem extract_date_mdy:
  assumes "valid_date d" and "100 \<le> now" and "now - 50 \<le> year d" and "year d < now + 50"
    and "\<forall>c\<in>set ws. py_isspace c" and "\<forall>c\<in>set ws'. py_isspace c"
  shows "extract_date now (ws @ mdy_text d @ ws') = Inr d"
  using assms dateutil_parse_mdy [OF assms(1-4)] py_strip_pad [OF assms(5,6) mdy_text_no_space]
  by (simp add: extract_date_def)

theorem extract_date_mdy_witness:
  "valid_date \<lparr>year = 2019, month = 10, day = 30\<rparr> \<and>
   extract_date 2026 ([CHR 0x0A] @ ''10/30/19'' @ [CHR 0x09, CHR 0x09, CHR 0x09]) =
     Inr \<lparr>year = 2019, month = 10, day = 30\<rparr>"
proof -
  have v: "valid_date \<lparr>year = 2019, month = 10, day = 30\<rparr>"
    by (simp add: valid_date_def days_in_month_def)
  have t: "mdy_text \<lparr>year = 2019, month = 10, day = 30\<rparr> = ''10/30/19''"
    by (simp add: mdy_text_def zpad_def pystr_simps)
  have "extract_date 2026 ([CHR 0x0A] @ mdy_text \<lparr>year = 2019, month = 10, day = 30\<rparr> @
          [CHR 0x09, CHR 0x09, CHR 0x09]) = Inr \<lparr>year = 2019, month = 10, day = 30\<rparr>"
    by (rule extract_date_mdy [OF v]) (simp_all add: py_isspace_def py_whitespace_def)
  then show ?thesis using v t by simp
qed

end
