(* ===== verification/Table.thy ===== *)
theory Table
  imports Dates
begin

text \<open>
  The table extractor of src/src/30_pars.py: \<^verbatim>\<open>chunk\<close> cuts a report at the word
  \<^verbatim>\<open>Hourly\<close>, \<^verbatim>\<open>extract_table\<close> reads one table segment into a header, the column names
  and a dictionary from hour to the row's fields, and \<^verbatim>\<open>read_data\<close> composes them with
  \<^verbatim>\<open>extract_date\<close>.  The dictionary is a map \<open>int \<rightharpoonup> row\<close>.  What the code logs is
  returned as a list of events, in the order the code logs them.
\<close>

section \<open>Tables and log events\<close>

text \<open>The dictionary \<^verbatim>\<open>{'date', 'header', 'columns', 'data'}\<close> that \<^verbatim>\<open>extract_table\<close>
  returns.\<close>

record table =
  tdate :: py_date
  header :: string
  columns :: "string list"
  data :: "int \<rightharpoonup> row"

text \<open>
  The \<^verbatim>\<open>log.error\<close> calls: a row dropped by \<^verbatim>\<open>extract_table\<close>, an hour skipped by an
  SQL generator (the method's name and the hour), a file abandoned by
  \<^verbatim>\<open>parse_text_files\<close> (its path and the exception).
\<close>

datatype log_event =
    RowDropped row
  | InsertSkipped string int
  | FileFailed path py_error

section \<open>chunk\<close>

definition chunk :: "string \<Rightarrow> string list" where
  "chunk s = py_split ''Hourly'' s"

section \<open>The hour of a row\<close>

text \<open>
  \<^verbatim>\<open>idx = int(row[0])\<close>: an empty row raises \<open>IndexError\<close>, a first field that is not
  a decimal literal \<open>ValueError\<close>.
\<close>

definition row_int_index :: "row \<Rightarrow> py_error + int" where
  "row_int_index row =
     (case py_index row 0 of
       Inl e \<Rightarrow> Inl e
     | Inr h \<Rightarrow> (case py_int h of Some i \<Rightarrow> Inr i | None \<Rightarrow> Inl ValueError))"

text \<open>
  The fallback \<^verbatim>\<open>idx = int(rount(float(row[0])))\<close>.  Python evaluates the callee of a
  call before its arguments, and the name \<^verbatim>\<open>rount\<close> is bound nowhere in the module, so the
  fallback raises \<open>NameError\<close> before \<^verbatim>\<open>float\<close> is called, whatever the row.
\<close>

definition row_float_index :: "row \<Rightarrow> py_error + int" where
  "row_float_index row = Inl NameError"

definition row_index :: "row \<Rightarrow> py_error + int" where
  "row_index row = (case row_int_index row of Inr i \<Rightarrow> Inr i | Inl _ \<Rightarrow> row_float_index row)"

section \<open>The data loop\<close>

text \<open>
  \<^verbatim>\<open>for row in data: ... datamap[idx] = row\<close>: a row whose index raises is logged and
  left out, the others are stored under their own index, a later row overwriting an earlier
  one with the same index.
\<close>

fun build_datamap :: "(int \<rightharpoonup> row) \<Rightarrow> row list \<Rightarrow> (int \<rightharpoonup> row) \<times> log_event list" where
  "build_datamap m [] = (m, [])"
| "build_datamap m (row # rows) =
     (case row_index row of
       Inr idx \<Rightarrow> build_datamap (m(idx \<mapsto> row)) rows
     | Inl _ \<Rightarrow> (let (m', l) = build_datamap m rows in (m', RowDropped row # l)))"

section \<open>extract_table\<close>

text \<open>\<^verbatim>\<open>s.replace(' ', '_')\<close> on a column name.\<close>

definition normalize_column :: "string \<Rightarrow> string" where
  "normalize_column c = py_replace_char CHR '' '' CHR ''_'' c"

text \<open>\<^verbatim>\<open>data = [x.split() for x in lines[2:]][:24]\<close>\<close>

definition data_rows :: "string list \<Rightarrow> row list" where
  "data_rows lines = take 24 (map py_split_ws (drop 2 lines))"

text \<open>
  \<^verbatim>\<open>lines = s.split('\n')\<close>; \<^verbatim>\<open>lines[0]\<close> stripped is the header, \<^verbatim>\<open>lines[1]\<close>
  split at tabs gives the column names (\<open>IndexError\<close> when the segment has a single line),
  and the first 24 of the remaining lines, split at whitespace, are the rows.
\<close>

definition extract_table :: "py_date \<Rightarrow> string \<Rightarrow> py_error + table \<times> log_event list" where
  "extract_table date s =
     (let lines = py_split ''\<newline>'' s in
      case lines of
       l0 # l1 # _ \<Rightarrow>
         (let hdr = py_strip l0;
              cols = map normalize_column (filter (\<lambda>x. 0 < length x) (py_split [CHR 0x09] l1));
              (datamap, dropped) = build_datamap Map.empty (data_rows lines)
          in Inr (\<lparr>tdate = date, header = hdr, columns = cols, data = datamap\<rparr>, dropped))
     | _ \<Rightarrow> Inl IndexError)"

section \<open>read_data\<close>

text \<open>
  \<^verbatim>\<open>(s_date, s_renewable, s_total) = chunk(s)\<close> raises \<open>ValueError\<close> unless there are
  exactly three segments; then the date and the two tables are read in this order, each
  failure ending the file.  The rows the renewable table dropped are logged before the total
  table is read, so they stay in the log when that table fails.
\<close>

definition read_data :: "nat \<Rightarrow> string \<Rightarrow> log_event list \<times> (py_error + table \<times> table)" where
  "read_data now s =
     (case chunk s of
       [s_date, s_renewable, s_total] \<Rightarrow>
         (case extract_date now s_date of
           Inl e \<Rightarrow> ([], Inl e)
         | Inr date \<Rightarrow>
             (case extract_table date s_renewable of
               Inl e \<Rightarrow> ([], Inl e)
             | Inr (t_renewable, l1) \<Rightarrow>
                 (case extract_table date s_total of
                   Inl e \<Rightarrow> (l1, Inl e)
                 | Inr (t_total, l2) \<Rightarrow> (l1 @ l2, Inr (t_renewable, t_total)))))
     | _ \<Rightarrow> ([], Inl ValueError))"

section \<open>Well-formed tables\<close>

text \<open>
  What \<^verbatim>\<open>extract_table\<close> guarantees of its dictionary: every row is stored under the
  hour its own first field states, and there are at most 24 of them.
\<close>

definition wf_table :: "table \<Rightarrow> bool" where
  "wf_table t \<longleftrightarrow>
     (\<forall>i r. data t i = Some r \<longrightarrow> row_index r = Inr i) \<and>
     finite (dom (data t)) \<and> card (dom (data t)) \<le> 24"

section \<open>A sample segment\<close>

text \<open>
  A table segment as \<^verbatim>\<open>chunk\<close> leaves it: the rest of the title line, the column line,
  and three data lines, the second with a decimal point in its hour, the third repeating the
  first one's hour.
\<close>

definition sample_segment :: string where
  "sample_segment =
     '' Breakdown\<newline>'' @ [CHR 0x09] @ ''Hour'' @ [CHR 0x09] @ ''SMALL HYDRO\<newline>'' @
     '' 9 264\<newline> 9.0 1\<newline> 9 265''"

section \<open>Facts\<close>

subsection \<open>The hour of a row\<close>

text \<open>A row gets an hour exactly when its first field is a decimal literal.\<close>

lemma row_index_Inr: "row_index row = Inr i \<longleftrightarrow> row \<noteq> [] \<and> py_int (hd row) = Some i"
  by (cases row)
     (auto simp: row_index_def row_int_index_def row_float_index_def py_index_def
           split: option.splits)

lemma row_index_Inl: "row_index row = Inl e \<Longrightarrow> e = NameError"
  by (auto simp: row_index_def row_float_index_def split: sum.splits)

lemma row_index_isl: "isl (row_index row) \<longleftrightarrow> (\<forall>i. row_index row \<noteq> Inr i)"
  by (cases "row_index row") auto

subsection \<open>The data loop\<close>

lemma build_datamap_Inl:
  "row_index row = Inl e \<Longrightarrow>
     build_datamap m (row # rows) =
       (fst (build_datamap m rows), RowDropped row # snd (build_datamap m rows))"
  by (simp add: split_def Let_def)

lemma build_datamap_lookup:
  "fst (build_datamap m rows) i =
     (case List.find (\<lambda>r. row_index r = Inr i) (rev rows) of None \<Rightarrow> m i | Some r \<Rightarrow> Some r)"
proof (induction rows arbitrary: m)
  case (Cons row rows)
  show ?case
  proof (cases "row_index row")
    case (Inl e)
    then show ?thesis
      using Cons.IH [of m] by (simp add: split_def Let_def find_append split: option.splits)
  next
    case (Inr j)
    let ?P = "\<lambda>r. row_index r = Inr i"
    have "fst (build_datamap m (row # rows)) i = fst (build_datamap (m(j \<mapsto> row)) rows) i"
      using Inr by simp
    also have "\<dots> = (case List.find ?P (rev rows) of None \<Rightarrow> (m(j \<mapsto> row)) i | Some r \<Rightarrow> Some r)"
      by (rule Cons.IH)
    also have "\<dots> = (case List.find ?P (rev (row # rows)) of None \<Rightarrow> m i | Some r \<Rightarrow> Some r)"
      using Inr by (simp add: find_append split: option.split)
    finally show ?thesis .
  qed
qed simp

lemma build_datamap_log:
  "snd (build_datamap m rows) = map RowDropped (filter (\<lambda>r. isl (row_index r)) rows)"
proof (induction rows arbitrary: m)
  case (Cons row rows)
  then show ?case
    by (cases "row_index row") (simp_all add: split_def Let_def)
qed simp

lemma build_datamap_dom:
  "dom (fst (build_datamap m rows)) = dom m \<union> {i. \<exists>r\<in>set rows. row_index r = Inr i}"
proof -
  have iff: "i \<in> dom (fst (build_datamap m rows)) \<longleftrightarrow>
      i \<in> dom m \<or> (\<exists>r\<in>set rows. row_index r = Inr i)" for i
  proof (cases "List.find (\<lambda>r. row_index r = Inr i) (rev rows)")
    case None
    then have "fst (build_datamap m rows) i = m i" by (simp add: build_datamap_lookup)
    moreover have "\<not> (\<exists>r\<in>set rows. row_index r = Inr i)"
      using None by (simp add: find_None_iff)
    ultimately show ?thesis by (simp add: domIff)
  next
    case (Some r)
    then show ?thesis using find_SomeD [OF Some] by (auto simp: build_datamap_lookup)
  qed
  show ?thesis using iff by (intro set_eqI) (simp only: Un_iff mem_Collect_eq)
qed

lemma build_datamap_wf:
  "\<forall>i r. m i = Some r \<longrightarrow> row_index r = Inr i \<Longrightarrow>
     fst (build_datamap m rows) i = Some r \<Longrightarrow> row_index r = Inr i"
  by (auto simp: build_datamap_lookup split: option.splits dest!: find_SomeD)

lemma card_dom_build_datamap:
  "finite (dom (fst (build_datamap Map.empty rows))) \<and>
     card (dom (fst (build_datamap Map.empty rows))) \<le> length rows"
proof -
  have "\<forall>i\<in>dom (fst (build_datamap Map.empty rows)). \<exists>r\<in>set rows. i = projr (row_index r)"
    by (auto simp: build_datamap_dom) (metis sum.sel(2))
  then have "dom (fst (build_datamap Map.empty rows)) \<subseteq> (\<lambda>r. projr (row_index r)) ` set rows"
    by blast
  then show ?thesis
    by (meson card_image_le card_length card_mono finite_imageI finite_set finite_subset
        order_trans)
qed

subsection \<open>Lines of a segment\<close>

lemma length_split_sep_aux_single:
  "length (split_sep_aux [c] acc s) = Suc (count_list s c)"
proof (induction "[c]" acc s rule: split_sep_aux.induct)
  case (2 acc c' cs)
  then show ?case by (cases "c' = c") simp_all
qed simp

lemma length_py_split_single: "length (py_split [c] s) = Suc (count_list s c)"
  by (simp add: py_split_def length_split_sep_aux_single)

subsection \<open>extract_table\<close>

lemma extract_table_eq:
  "extract_table d s =
     (let lines = py_split ''\<newline>'' s in
      if 2 \<le> length lines then
        Inr (\<lparr>tdate = d, header = py_strip (lines ! 0),
               columns = map normalize_column
                 (filter (\<lambda>x. 0 < length x) (py_split [CHR 0x09] (lines ! 1))),
               data = fst (build_datamap Map.empty (data_rows lines))\<rparr>,
             snd (build_datamap Map.empty (data_rows lines)))
      else Inl IndexError)"
  by (simp add: extract_table_def Let_def split_def split: list.split)

lemma extract_table_Inr_D:
  assumes "extract_table d s = Inr (t, log)"
  shows "tdate t = d" and "data t = fst (build_datamap Map.empty (data_rows (py_split ''\<newline>'' s)))"
    and "log = snd (build_datamap Map.empty (data_rows (py_split ''\<newline>'' s)))"
  using assms by (auto simp: extract_table_eq Let_def split: if_splits)

lemma length_data_rows: "length (data_rows lines) \<le> 24"
  by (simp add: data_rows_def)

lemma two_lines_iff: "2 \<le> length (py_split ''\<newline>'' s) \<longleftrightarrow> CHR ''\<newline>'' \<in> set s"
proof -
  have "count_list s CHR ''\<newline>'' = 0 \<longleftrightarrow> CHR ''\<newline>'' \<notin> set s"
    by (rule count_list_0_iff)
  then show ?thesis by (auto simp: length_py_split_single)
qed

subsection \<open>Properties of extract_table\<close>

text \<open>
  C7: \<^verbatim>\<open>extract_table\<close> stores under hour \<open>i\<close> the last of the (at most 24) data lines
  whose first field is the integer \<open>i\<close>, keyed by the row's own stated hour, not by its
  position; every data line whose first field is not an integer is left out and logged, in
  order.
\<close>

theorem extract_table_rows:
  assumes "extract_table d s = Inr (t, log)"
  shows "data t i = List.find (\<lambda>r. row_index r = Inr i) (rev (data_rows (py_split ''\<newline>'' s)))
     \<and> log = map RowDropped (filter (\<lambda>r. isl (row_index r)) (data_rows (py_split ''\<newline>'' s)))"
  using extract_table_Inr_D [OF assms]
  by (simp add: build_datamap_lookup build_datamap_log split: option.split)

lemma sample_segment_Inr: "\<exists>r. extract_table d sample_segment = Inr r"
  by (simp add: extract_table_eq sample_segment_def Let_def pystr_simps)

lemma sample_rows:
  "data_rows (py_split ''\<newline>'' sample_segment) = [[''9'', ''264''], [''9.0'', ''1''], [''9'', ''265'']]"
  by (simp add: data_rows_def sample_segment_def pystr_simps)

lemma sample_row_index:
  "row_index [''9'', ''264''] = Inr 9" "row_index [''9'', ''265''] = Inr 9"
  "row_index [''9.0'', ''1''] = Inl NameError"
  by (simp_all add: row_index_def row_int_index_def row_float_index_def pystr_simps)

theorem extract_table_rows_witness:
  "\<exists>t log. extract_table \<lparr>year = 2019, month = 10, day = 30\<rparr> sample_segment = Inr (t, log)
     \<and> data t 9 = Some [''9'', ''265''] \<and> log = [RowDropped [''9.0'', ''1'']]"
proof -
  obtain t log where h: "extract_table \<lparr>year = 2019, month = 10, day = 30\<rparr> sample_segment = Inr (t, log)"
    using sample_segment_Inr by fastforce
  show ?thesis
    using extract_table_rows [OF h, of 9] h by (simp add: sample_rows sample_row_index)
qed

text \<open>
  C23: \<^verbatim>\<open>extract_table\<close> fails exactly when the segment has no line break (so that
  \<^verbatim>\<open>lines[1]\<close> does not exist), and then with \<open>IndexError\<close>.
\<close>

theorem extract_table_error:
  "extract_table d s = Inl e \<longleftrightarrow> e = IndexError \<and> CHR ''\<newline>'' \<notin> set s"
  by (auto simp: extract_table_eq Let_def two_lines_iff split: if_splits)

text \<open>
  C18: a table \<^verbatim>\<open>extract_table\<close> returns is well formed: every stored row states the hour
  it is stored under, there are at most 24 hours, and the table carries the date it was
  given.
\<close>

lemma extract_table_wf_aux:
  assumes "extract_table d s = Inr (t, log)"
  shows "wf_table t \<and> tdate t = d"
proof -
  note D = extract_table_Inr_D [OF assms]
  have "data t i = Some r \<Longrightarrow> row_index r = Inr i" for i r
    using build_datamap_wf [of Map.empty] D(2) by simp
  moreover have "finite (dom (data t))" and "card (dom (data t)) \<le> 24"
    using card_dom_build_datamap [of "data_rows (py_split ''\<newline>'' s)"]
      length_data_rows [of "py_split ''\<newline>'' s"] D(2) by simp_all
  ultimately show ?thesis using D(1) by (simp add: wf_table_def)
qed

theorem extract_table_wf:
  "extract_table d s = Inr (t, log) \<Longrightarrow> wf_table t \<and> tdate t = d"
  by (rule extract_table_wf_aux)

theorem extract_table_wf_witness:
  "\<exists>t log. extract_table \<lparr>year = 2019, month = 10, day = 30\<rparr> sample_segment = Inr (t, log)
     \<and> wf_table t"
proof -
  obtain t log where h: "extract_table \<lparr>year = 2019, month = 10, day = 30\<rparr> sample_segment = Inr (t, log)"
    using sample_segment_Inr by fastforce
  show ?thesis using extract_table_wf [OF h] h by blast
qed

text \<open>
  C21: the float fallback of the row index never succeeds: a row whose first field is not an
  integer literal (\<^verbatim>\<open>9.0\<close>, \<^verbatim>\<open>1e1\<close>) raises \<open>NameError\<close> on the unbound name
  \<^verbatim>\<open>rount\<close>, so it is dropped rather than rounded to an hour.
\<close>

theorem row_index_non_int:
  "py_int h = None \<Longrightarrow> row_index (h # rest) = Inl NameError"
  by (simp add: row_index_def row_int_index_def row_float_index_def)

theorem row_index_non_int_witness:
  "py_int ''9.0'' = None \<and> row_index [''9.0'', ''264''] = Inl NameError"
proof -
  have h: "py_int ''9.0'' = None" by (simp add: pystr_simps)
  show ?thesis using row_index_non_int [OF h, of "[''264'']"] h by simp
qed

text \<open>
  C22: \<^verbatim>\<open>read_data\<close> fails with \<open>ValueError\<close>, logging nothing, unless the text splits
  at \<^verbatim>\<open>Hourly\<close> into exactly three segments: a missing section and a surplus marker
  are both fatal for the file.
\<close>

theorem read_data_segments:
  "length (chunk s) \<noteq> 3 \<Longrightarrow> read_data now s = ([], Inl ValueError)"
  by (auto simp: read_data_def split: list.split)

theorem read_data_segments_witness:
  "length (chunk ''Hourly'') \<noteq> 3 \<and> read_data 2026 ''Hourly'' = ([], Inl ValueError)"
proof -
  have c: "length (chunk ''Hourly'') \<noteq> 3" by (simp add: chunk_def pystr_simps)
  show ?thesis using read_data_segments [OF c] c by simp
qed

end
