(* ===== verification/SqlEmit.thy ===== *)
theory SqlEmit
  imports Table
begin

text \<open>
  The SQL emitter of src/src/30_pars.py: \<^verbatim>\<open>gen_renewable_sql\<close> and \<^verbatim>\<open>gen_total_sql\<close>
  turn a table into its \<^verbatim>\<open>CREATE TABLE IF NOT EXISTS\<close> statement followed by one
  \<^verbatim>\<open>INSERT\<close> per hour 1 to 25 present in the table's dictionary; \<^verbatim>\<open>int_or_none\<close>
  converts each value field.  Both generators run the same loop, \<open>gen_rows\<close> below, with a
  different renderer for one row; an exception inside the loop body logs the hour and
  skips it.  The statements are strings, rendered as the f-strings of the code render them.
\<close>

section \<open>int_or_none\<close>

definition int_or_none :: "string \<Rightarrow> int option" where
  "int_or_none v = py_int v"

section \<open>The loop of both generators\<close>

text \<open>
  \<^verbatim>\<open>for idx in range(1,26): try: if idx in t['data']: ... res.append(sql)
  except Exception: log.error(...)\<close>, with the loop body given as a renderer \<open>f\<close> of one
  row and \<open>m\<close> the method name the log carries.
\<close>

fun gen_rows ::
  "(py_date \<Rightarrow> row \<Rightarrow> py_error + string) \<Rightarrow> string \<Rightarrow> table \<Rightarrow> int list
     \<Rightarrow> string list \<times> log_event list" where
  "gen_rows f m t [] = ([], [])"
| "gen_rows f m t (idx # idxs) =
     (let (sqls, logs) = gen_rows f m t idxs in
      case data t idx of
        None \<Rightarrow> (sqls, logs)
      | Some row \<Rightarrow>
          (case f (tdate t) row of
            Inr sql \<Rightarrow> (sql # sqls, logs)
          | Inl _ \<Rightarrow> (sqls, InsertSkipped m idx # logs)))"

text \<open>\<^verbatim>\<open>range(1,26)\<close>: the hours 1 to 25.\<close>

definition hour_range :: "int list" where
  "hour_range = [1..25]"

section \<open>gen_renewable_sql\<close>

definition renewable_ddl :: string where
  "renewable_ddl = ''CREATE TABLE IF NOT EXISTS renewable (id PRIMARY KEY ASC, date TEXT, hour INT, geothermal INT, biomass INT, biogas INT, small_hydro INT, wind_total INT, solar_pv INT, solar_thermal INT, solar INT, UNIQUE(date, hour));''"

text \<open>The INSERT of a row of 8 fields: solar power split into \<^verbatim>\<open>solar_pv\<close> and
  \<^verbatim>\<open>solar_thermal\<close>.\<close>

definition renewable_insert_split ::
  "py_date \<Rightarrow> int \<Rightarrow> int option \<Rightarrow> int option \<Rightarrow> int option \<Rightarrow> int option \<Rightarrow> int option
     \<Rightarrow> int option \<Rightarrow> int option \<Rightarrow> string" where
  \<open>renewable_insert_split date hour geothermal biomass biogas small_hydro wind_total solar_pv
     solar_thermal =
     ''INSERT INTO renewable (date, hour, geothermal, biomass, biogas, small_hydro, wind_total, solar_pv, solar_thermal) VALUES ("'' @
     py_str_datetime date @ ''", '' @ py_str_int hour @ '', '' @ py_str_opt geothermal @ '', '' @
     py_str_opt biomass @ '', '' @ py_str_opt biogas @ '', '' @ py_str_opt small_hydro @ '', '' @
     py_str_opt wind_total @ '', '' @ py_str_opt solar_pv @ '', '' @ py_str_opt solar_thermal @
     '');''\<close>

text \<open>The INSERT of any other row: one \<^verbatim>\<open>solar\<close> column.\<close>

definition renewable_insert_combined ::
  "py_date \<Rightarrow> int \<Rightarrow> int option \<Rightarrow> int option \<Rightarrow> int option \<Rightarrow> int option \<Rightarrow> int option
     \<Rightarrow> int option \<Rightarrow> string" where
  \<open>renewable_insert_combined date hour geothermal biomass biogas small_hydro wind_total solar =
     ''INSERT INTO renewable (date, hour, geothermal, biomass, biogas, small_hydro, wind_total, solar) VALUES ("'' @
     py_str_datetime date @ ''", '' @ py_str_int hour @ '', '' @ py_str_opt geothermal @ '', '' @
     py_str_opt biomass @ '', '' @ py_str_opt biogas @ '', '' @ py_str_opt small_hydro @ '', '' @
     py_str_opt wind_total @ '', '' @ py_str_opt solar @ '');''\<close>

text \<open>
  The body of the loop for one row: \<^verbatim>\<open>hour = int(row[0])\<close>, the five value fields
  \<^verbatim>\<open>row[1]\<close> to \<^verbatim>\<open>row[5]\<close>, then the schema chosen by \<^verbatim>\<open>len(row) == 8\<close>; a field
  read past the end of the row raises \<open>IndexError\<close>.
\<close>

definition renewable_row_sql :: "py_date \<Rightarrow> row \<Rightarrow> py_error + string" where
  "renewable_row_sql date row =
     (case py_index row 0 of
       Inl e \<Rightarrow> Inl e
     | Inr h \<Rightarrow>
         (case py_int h of
           None \<Rightarrow> Inl ValueError
         | Some hour \<Rightarrow>
             (if length row < 6 then Inl IndexError
              else
                (let geothermal = int_or_none (row ! 1); biomass = int_or_none (row ! 2);
                     biogas = int_or_none (row ! 3); small_hydro = int_or_none (row ! 4);
                     wind_total = int_or_none (row ! 5)
                 in if length row = 8 then
                      Inr (renewable_insert_split date hour geothermal biomass biogas small_hydro
                             wind_total (int_or_none (row ! 6)) (int_or_none (row ! 7)))
                    else if length row < 7 then Inl IndexError
                    else
                      Inr (renewable_insert_combined date hour geothermal biomass biogas small_hydro
                             wind_total (int_or_none (row ! 6)))))))"

definition gen_renewable_sql :: "table \<Rightarrow> string list \<times> log_event list" where
  "gen_renewable_sql t =
     (let (sqls, logs) = gen_rows renewable_row_sql ''gen_renewable_sql'' t hour_range
      in (renewable_ddl # sqls, logs))"

section \<open>gen_total_sql\<close>

definition total_ddl :: string where
  "total_ddl = ''CREATE TABLE IF NOT EXISTS total (id PRIMARY KEY ASC, date TEXT, hour INT, renewables INT, nuclear INT, thermal INT, imports INT, hydro INT, UNIQUE(date, hour));''"

definition total_insert ::
  "py_date \<Rightarrow> int \<Rightarrow> int option \<Rightarrow> int option \<Rightarrow> int option \<Rightarrow> int option \<Rightarrow> int option
     \<Rightarrow> string" where
  \<open>total_insert date hour renewables nuclear thermal imports hydro =
     ''INSERT INTO total (date, hour, renewables, nuclear, thermal, imports, hydro) VALUES ("'' @
     py_str_datetime date @ ''", '' @ py_str_int hour @ '', '' @ py_str_opt renewables @ '', '' @
     py_str_opt nuclear @ '', '' @ py_str_opt thermal @ '', '' @ py_str_opt imports @ '', '' @
     py_str_opt hydro @ '');''\<close>

definition total_row_sql :: "py_date \<Rightarrow> row \<Rightarrow> py_error + string" where
  "total_row_sql date row =
     (case py_index row 0 of
       Inl e \<Rightarrow> Inl e
     | Inr h \<Rightarrow>
         (case py_int h of
           None \<Rightarrow> Inl ValueError
         | Some hour \<Rightarrow>
             (if length row < 6 then Inl IndexError
              else
                Inr (total_insert date hour (int_or_none (row ! 1)) (int_or_none (row ! 2))
                       (int_or_none (row ! 3)) (int_or_none (row ! 4)) (int_or_none (row ! 5))))))"

definition gen_total_sql :: "table \<Rightarrow> string list \<times> log_event list" where
  "gen_total_sql t =
     (let (sqls, logs) = gen_rows total_row_sql ''gen_total_sql'' t hour_range
      in (total_ddl # sqls, logs))"

section \<open>Reading the statements back\<close>

text \<open>
  An abstract reading of an emitted \<^verbatim>\<open>INSERT\<close>: the literals of its \<^verbatim>\<open>VALUES (...)\<close>
  tuple, cut at \<^verbatim>\<open>", "\<close>; its key is the pair of the first two, the date and the hour,
  the columns of the tables' \<^verbatim>\<open>UNIQUE(date, hour)\<close> constraint.
\<close>

definition sql_values :: "string \<Rightarrow> string list option" where
  "sql_values stmt =
     (case py_split ''VALUES ('' stmt of
       [_, rest] \<Rightarrow>
         (if suffix '');'' rest then Some (py_split '', '' (take (length rest - 2) rest)) else None)
     | _ \<Rightarrow> None)"

definition sql_key :: "string \<Rightarrow> (string \<times> string) option" where
  "sql_key stmt = (case sql_values stmt of Some (d # h # _) \<Rightarrow> Some (d, h) | _ \<Rightarrow> None)"

text \<open>The date literal of the statements: \<^verbatim>\<open>"{date}"\<close>.\<close>

definition sql_date :: "py_date \<Rightarrow> string" where
  \<open>sql_date d = ''"'' @ py_str_datetime d @ ''"''\<close>

text \<open>
  The hours the loop emits a statement for, with the statement: the reference the loop
  \<open>gen_rows\<close> is compared with.
\<close>

definition emitted ::
  "(py_date \<Rightarrow> row \<Rightarrow> py_error + string) \<Rightarrow> table \<Rightarrow> int list \<Rightarrow> (int \<times> string) list" where
  "emitted f t idxs =
     concat (map (\<lambda>i. case data t i of
                        None \<Rightarrow> []
                      | Some row \<Rightarrow> (case f (tdate t) row of Inr s \<Rightarrow> [(i, s)] | Inl _ \<Rightarrow> []))
                 idxs)"

definition skipped ::
  "(py_date \<Rightarrow> row \<Rightarrow> py_error + string) \<Rightarrow> table \<Rightarrow> int list \<Rightarrow> int list" where
  "skipped f t idxs =
     concat (map (\<lambda>i. case data t i of
                        None \<Rightarrow> []
                      | Some row \<Rightarrow> (case f (tdate t) row of Inr _ \<Rightarrow> [] | Inl _ \<Rightarrow> [i]))
                 idxs)"

text \<open>
  The part of \<open>wf_table\<close> the emitter relies on, checkable on the 25 hours it probes:
  a row stored under hour \<open>i\<close> states hour \<open>i\<close>.
\<close>

definition keys_match :: "table \<Rightarrow> bool" where
  "keys_match t \<longleftrightarrow>
     list_all (\<lambda>i. case data t i of None \<Rightarrow> True | Some row \<Rightarrow> row_index row = Inr i) hour_range"

text \<open>A literal the emitter writes: no comma, no \<open>V\<close>, no line break.\<close>

definition plain_literal :: "string \<Rightarrow> bool" where
  "plain_literal v \<longleftrightarrow> CHR '','' \<notin> set v \<and> CHR ''V'' \<notin> set v \<and> CHR ''\<newline>'' \<notin> set v"

text \<open>A line of the \<^verbatim>\<open>.sql\<close> file: one statement, ended by a semicolon, with no line
  break inside.\<close>

definition sql_line :: "string \<Rightarrow> bool" where
  "sql_line l \<longleftrightarrow> CHR ''\<newline>'' \<notin> set l \<and> suffix '';'' l"

text \<open>Hours of the table whose row has at least \<open>n\<close> fields, and fewer than \<open>n\<close>.\<close>

definition has_fields :: "nat \<Rightarrow> table \<Rightarrow> int \<Rightarrow> bool" where
  "has_fields n t i \<longleftrightarrow> (case data t i of None \<Rightarrow> False | Some row \<Rightarrow> n \<le> length row)"

definition short_row :: "nat \<Rightarrow> table \<Rightarrow> int \<Rightarrow> bool" where
  "short_row n t i \<longleftrightarrow> (case data t i of None \<Rightarrow> False | Some row \<Rightarrow> length row < n)"

section \<open>Reference statements\<close>

text \<open>
  What the loop body produces for hour \<open>i\<close>, written directly from the schema rule: no
  statement when the hour is absent or its row is too short for the code's field reads,
  otherwise the \<^verbatim>\<open>INSERT\<close> of the schema the row's width selects.
\<close>

definition renewable_spec :: "table \<Rightarrow> int \<Rightarrow> string list" where
  "renewable_spec t i =
     (case data t i of
       None \<Rightarrow> []
     | Some row \<Rightarrow>
         (let v = (\<lambda>k. int_or_none (row ! k)) in
          if length row = 8 then
            [renewable_insert_split (tdate t) i (v 1) (v 2) (v 3) (v 4) (v 5) (v 6) (v 7)]
          else if length row < 7 then []
          else [renewable_insert_combined (tdate t) i (v 1) (v 2) (v 3) (v 4) (v 5) (v 6)]))"

definition total_spec :: "table \<Rightarrow> int \<Rightarrow> string list" where
  "total_spec t i =
     (case data t i of
       None \<Rightarrow> []
     | Some row \<Rightarrow>
         (let v = (\<lambda>k. int_or_none (row ! k)) in
          if length row < 6 then []
          else [total_insert (tdate t) i (v 1) (v 2) (v 3) (v 4) (v 5)]))"

text \<open>A table with the hour-9 row of \<^verbatim>\<open>EXAMPLE\<close> and a truncated hour-10 row.\<close>

definition sample_table :: table where
  "sample_table =
     \<lparr>tdate = \<lparr>year = 2019, month = 10, day = 30\<rparr>, header = [], columns = [],
      data = [9 \<mapsto> [''9'', ''264'', ''267'', ''212'', ''170'', ''1182'', ''3999'', ''93''],
              10 \<mapsto> [''10'', ''264'']]\<rparr>"

section \<open>Facts\<close>

subsection \<open>The loop\<close>

lemma gen_rows_eq:
  "gen_rows f m t idxs = (map snd (emitted f t idxs), map (InsertSkipped m) (skipped f t idxs))"
  by (induction idxs) (auto simp: emitted_def skipped_def split: option.splits sum.splits)

lemma map_fst_emitted: "map fst (emitted f t idxs) = filter (\<lambda>i. \<exists>row. data t i = Some row \<and> \<not> isl (f (tdate t) row)) idxs"
  by (induction idxs) (auto simp: emitted_def split: option.splits sum.splits)

lemma keys_match_wf: "wf_table t \<Longrightarrow> keys_match t"
  by (auto simp: keys_match_def wf_table_def list_all_iff split: option.splits)

subsection \<open>Reading the statements\<close>

lemma plain_py_str_int: "plain_literal (py_str_int i)"
  using py_str_int_chars [of i] by (fastforce simp: plain_literal_def is_digit_def)

lemma plain_py_str_opt: "plain_literal (py_str_opt v)"
  by (cases v) (simp_all add: plain_py_str_int, simp add: plain_literal_def)

lemma plain_sql_date: "plain_literal (sql_date d)"
  using py_str_datetime_chars [of d] by (fastforce simp: plain_literal_def sql_date_def date_char_def is_digit_def)

lemma sql_values_intro:
  assumes "CHR ''V'' \<notin> set P" and "list_all plain_literal vs" and "vs \<noteq> []"
  shows "sql_values (P @ ''VALUES ('' @ py_join '', '' vs @ '');'') = Some vs"
proof -
  let ?R = "py_join '', '' vs @ '');''"
  have R: "CHR ''V'' \<notin> set ?R"
    using set_py_join [of "'', ''" vs] assms(2) by (auto simp: list_all_iff plain_literal_def)
  have "py_split ''VALUES ('' (py_join ''VALUES ('' [P, ?R]) = [P, ?R]"
    using assms(1) R by (intro py_split_py_join) simp_all
  then have split: "py_split ''VALUES ('' (P @ ''VALUES ('' @ ?R) = [P, ?R]" by simp
  have vs: "py_split '', '' (py_join '', '' vs) = vs"
    using assms(2,3) by (intro py_split_py_join) (auto simp: list_all_iff plain_literal_def)
  show ?thesis
    using split vs by (simp add: sql_values_def suffix_def)
qed

lemma sql_line_intro:
  assumes "CHR ''\<newline>'' \<notin> set P" and "list_all plain_literal vs"
  shows "sql_line (P @ ''VALUES ('' @ py_join '', '' vs @ '');'')"
  using assms set_py_join [of "'', ''" vs]
  by (auto simp: sql_line_def list_all_iff plain_literal_def suffix_def)

lemma plain_values:
  "list_all plain_literal (sql_date d # py_str_int h # map py_str_opt vs)"
  by (simp add: plain_sql_date plain_py_str_int plain_py_str_opt list_all_iff)

lemma sql_values_shape:
  "CHR ''V'' \<notin> set P \<Longrightarrow>
   sql_values (P @ ''VALUES ('' @ py_join '', '' (sql_date d # py_str_int h # map py_str_opt vs) @ '');'') =
     Some (sql_date d # py_str_int h # map py_str_opt vs)"
  by (rule sql_values_intro) (use plain_values [of d h vs] in simp_all)

text \<open>The three \<^verbatim>\<open>INSERT\<close> f-strings are a fixed prefix, \<^verbatim>\<open>VALUES (\<close>, the literals
  joined by \<^verbatim>\<open>", "\<close>, and \<^verbatim>\<open>);\<close>.\<close>

lemma renewable_insert_split_shape:
  "renewable_insert_split d h g b bg sh w pv th =
     ''INSERT INTO renewable (date, hour, geothermal, biomass, biogas, small_hydro, wind_total, solar_pv, solar_thermal) ''
     @ ''VALUES ('' @ py_join '', '' (sql_date d # py_str_int h # map py_str_opt [g, b, bg, sh, w, pv, th]) @ '');''"
  by (simp add: renewable_insert_split_def sql_date_def)

lemma renewable_insert_combined_shape:
  "renewable_insert_combined d h g b bg sh w so =
     ''INSERT INTO renewable (date, hour, geothermal, biomass, biogas, small_hydro, wind_total, solar) ''
     @ ''VALUES ('' @ py_join '', '' (sql_date d # py_str_int h # map py_str_opt [g, b, bg, sh, w, so]) @ '');''"
  by (simp add: renewable_insert_combined_def sql_date_def)

lemma total_insert_shape:
  "total_insert d h r n th im hy =
     ''INSERT INTO total (date, hour, renewables, nuclear, thermal, imports, hydro) ''
     @ ''VALUES ('' @ py_join '', '' (sql_date d # py_str_int h # map py_str_opt [r, n, th, im, hy]) @ '');''"
  by (simp add: total_insert_def sql_date_def)

lemma sql_values_renewable_split:
  "sql_values (renewable_insert_split d h g b bg sh w pv th) =
     Some [sql_date d, py_str_int h, py_str_opt g, py_str_opt b, py_str_opt bg, py_str_opt sh,
           py_str_opt w, py_str_opt pv, py_str_opt th]"
  unfolding renewable_insert_split_shape
  by (subst sql_values_shape) simp_all

lemma sql_values_renewable_combined:
  "sql_values (renewable_insert_combined d h g b bg sh w so) =
     Some [sql_date d, py_str_int h, py_str_opt g, py_str_opt b, py_str_opt bg, py_str_opt sh,
           py_str_opt w, py_str_opt so]"
  unfolding renewable_insert_combined_shape
  by (subst sql_values_shape) simp_all

lemma sql_values_total:
  "sql_values (total_insert d h r n th im hy) =
     Some [sql_date d, py_str_int h, py_str_opt r, py_str_opt n, py_str_opt th, py_str_opt im,
           py_str_opt hy]"
  unfolding total_insert_shape
  by (subst sql_values_shape) simp_all

lemma sql_line_inserts:
  "sql_line (renewable_insert_split d h g b bg sh w pv th)"
  "sql_line (renewable_insert_combined d h g b bg sh w so)"
  "sql_line (total_insert d h r n th im hy)"
  unfolding renewable_insert_split_shape renewable_insert_combined_shape total_insert_shape
  by (rule sql_line_intro, simp, rule plain_values)+

lemma renewable_row_sql_indexed:
  assumes "row_index row = Inr i"
  shows "renewable_row_sql d row =
    (if length row = 8 then
       Inr (renewable_insert_split d i (int_or_none (row ! 1)) (int_or_none (row ! 2))
              (int_or_none (row ! 3)) (int_or_none (row ! 4)) (int_or_none (row ! 5))
              (int_or_none (row ! 6)) (int_or_none (row ! 7)))
     else if length row < 7 then Inl IndexError
     else Inr (renewable_insert_combined d i (int_or_none (row ! 1)) (int_or_none (row ! 2))
              (int_or_none (row ! 3)) (int_or_none (row ! 4)) (int_or_none (row ! 5))
              (int_or_none (row ! 6))))"
proof -
  from assms obtain h rest where row: "row = h # rest" and h: "py_int h = Some i"
    by (cases row) (auto simp: row_index_Inr)
  then show ?thesis by (simp add: renewable_row_sql_def Let_def)
qed

lemma total_row_sql_indexed:
  assumes "row_index row = Inr i"
  shows "total_row_sql d row =
    (if length row < 6 then Inl IndexError
     else Inr (total_insert d i (int_or_none (row ! 1)) (int_or_none (row ! 2))
              (int_or_none (row ! 3)) (int_or_none (row ! 4)) (int_or_none (row ! 5))))"
proof -
  from assms obtain h rest where row: "row = h # rest" and h: "py_int h = Some i"
    by (cases row) (auto simp: row_index_Inr)
  then show ?thesis by (simp add: total_row_sql_def)
qed


lemma emitted_renewable_keys:
  "list_all (\<lambda>i. case data t i of None \<Rightarrow> True | Some row \<Rightarrow> row_index row = Inr i) idxs \<Longrightarrow>
   map (sql_key \<circ> snd) (emitted renewable_row_sql t idxs) =
   map (\<lambda>i. Some (sql_date (tdate t), py_str_int i)) (filter (has_fields 7 t) idxs)"
  by (induction idxs)
     (auto simp: emitted_def renewable_row_sql_indexed sql_key_def has_fields_def
        sql_values_renewable_split sql_values_renewable_combined split: option.splits)

lemma skipped_renewable:
  "list_all (\<lambda>i. case data t i of None \<Rightarrow> True | Some row \<Rightarrow> row_index row = Inr i) idxs \<Longrightarrow>
   skipped renewable_row_sql t idxs = filter (short_row 7 t) idxs"
  by (induction idxs)
     (auto simp: skipped_def renewable_row_sql_indexed short_row_def split: option.splits)

lemma emitted_total_keys:
  "list_all (\<lambda>i. case data t i of None \<Rightarrow> True | Some row \<Rightarrow> row_index row = Inr i) idxs \<Longrightarrow>
   map (sql_key \<circ> snd) (emitted total_row_sql t idxs) =
   map (\<lambda>i. Some (sql_date (tdate t), py_str_int i)) (filter (has_fields 6 t) idxs)"
  by (induction idxs)
     (auto simp: emitted_def total_row_sql_indexed sql_key_def has_fields_def sql_values_total
        split: option.splits)

lemma skipped_total:
  "list_all (\<lambda>i. case data t i of None \<Rightarrow> True | Some row \<Rightarrow> row_index row = Inr i) idxs \<Longrightarrow>
   skipped total_row_sql t idxs = filter (short_row 6 t) idxs"
  by (induction idxs)
     (auto simp: skipped_def total_row_sql_indexed short_row_def split: option.splits)

lemma gen_renewable_sql_eq:
  "gen_renewable_sql t =
     (renewable_ddl # map snd (emitted renewable_row_sql t hour_range),
      map (InsertSkipped ''gen_renewable_sql'') (skipped renewable_row_sql t hour_range))"
  by (simp add: gen_renewable_sql_def gen_rows_eq)

lemma gen_total_sql_eq:
  "gen_total_sql t =
     (total_ddl # map snd (emitted total_row_sql t hour_range),
      map (InsertSkipped ''gen_total_sql'') (skipped total_row_sql t hour_range))"
  by (simp add: gen_total_sql_def gen_rows_eq)

text \<open>
  C15: the statements \<^verbatim>\<open>gen_renewable_sql\<close> emits after its DDL are keyed, in order, by
  the table's date and the hours 1 to 25 whose row has at least 7 fields; the rows with
  fewer fields are skipped and logged (when every stored row states its own hour).
\<close>

theorem gen_renewable_sql_keys:
  assumes "keys_match t"
  shows "map sql_key (tl (fst (gen_renewable_sql t))) =
           map (\<lambda>i. Some (sql_date (tdate t), py_str_int i)) (filter (has_fields 7 t) hour_range)
         \<and> snd (gen_renewable_sql t) =
           map (InsertSkipped ''gen_renewable_sql'') (filter (short_row 7 t) hour_range)"
  using assms emitted_renewable_keys [of t hour_range] skipped_renewable [of t hour_range]
  by (simp add: gen_renewable_sql_eq keys_match_def)

lemma distinct_keys:
  "distinct (map (\<lambda>i. Some (c, py_str_int i)) (filter P hour_range))"
proof -
  have "inj_on (\<lambda>i. Some (c, py_str_int i)) (set (filter P hour_range))"
    by (auto intro!: inj_onI dest: py_str_int_inj)
  then show ?thesis by (simp add: distinct_map hour_range_def)
qed

text \<open>
  C4: no two \<^verbatim>\<open>INSERT\<close> statements of one renewable table share the key
  \<open>(date, hour)\<close> of the schema's \<^verbatim>\<open>UNIQUE(date, hour)\<close> constraint.
\<close>

theorem gen_renewable_sql_unique:
  "keys_match t \<Longrightarrow> distinct (map sql_key (tl (fst (gen_renewable_sql t))))"
  using emitted_renewable_keys [of t hour_range] distinct_keys
  by (simp add: gen_renewable_sql_eq keys_match_def)

text \<open>
  C17: the statements \<^verbatim>\<open>gen_total_sql\<close> emits are keyed, in order, by the date and
  the hours whose row has at least 6 fields; shorter rows are skipped and logged.
\<close>

theorem gen_total_sql_keys:
  assumes "keys_match t"
  shows "map sql_key (tl (fst (gen_total_sql t))) =
           map (\<lambda>i. Some (sql_date (tdate t), py_str_int i)) (filter (has_fields 6 t) hour_range)
         \<and> snd (gen_total_sql t) =
           map (InsertSkipped ''gen_total_sql'') (filter (short_row 6 t) hour_range)"
  using assms emitted_total_keys [of t hour_range] skipped_total [of t hour_range]
  by (simp add: gen_total_sql_eq keys_match_def)

lemma emitted_renewable_spec:
  "list_all (\<lambda>i. case data t i of None \<Rightarrow> True | Some row \<Rightarrow> row_index row = Inr i) idxs \<Longrightarrow>
   map snd (emitted renewable_row_sql t idxs) = concat (map (renewable_spec t) idxs)"
  by (induction idxs)
     (auto simp: emitted_def renewable_spec_def renewable_row_sql_indexed Let_def split: option.splits)

lemma emitted_total_spec:
  "list_all (\<lambda>i. case data t i of None \<Rightarrow> True | Some row \<Rightarrow> row_index row = Inr i) idxs \<Longrightarrow>
   map snd (emitted total_row_sql t idxs) = concat (map (total_spec t) idxs)"
  by (induction idxs)
     (auto simp: emitted_def total_spec_def total_row_sql_indexed Let_def split: option.splits)

text \<open>
  C8: \<^verbatim>\<open>gen_renewable_sql\<close> equals the reference: its DDL, then for each hour 1 to 25 the
  statement of the schema the row's width selects (8 fields: \<^verbatim>\<open>solar_pv\<close> and
  \<^verbatim>\<open>solar_thermal\<close>; 7 or more than 8: \<^verbatim>\<open>solar\<close>; fewer than 7: none).
\<close>

theorem gen_renewable_sql_equiv:
  "keys_match t \<Longrightarrow>
   fst (gen_renewable_sql t) = renewable_ddl # concat (map (renewable_spec t) hour_range)"
  using emitted_renewable_spec [of t hour_range] by (simp add: gen_renewable_sql_eq keys_match_def)

text \<open>C16: \<^verbatim>\<open>gen_total_sql\<close> equals its reference: the DDL, then one \<^verbatim>\<open>INSERT\<close> per
  hour 1 to 25 whose row has at least 6 fields.\<close>

theorem gen_total_sql_equiv:
  "keys_match t \<Longrightarrow> fst (gen_total_sql t) = total_ddl # concat (map (total_spec t) hour_range)"
  using emitted_total_spec [of t hour_range] by (simp add: gen_total_sql_eq keys_match_def)

text \<open>
  \<^verbatim>\<open>int_or_none\<close> reads back every value the emitter renders: an integer from
  its decimal text, and the null marker \<^verbatim>\<open>None\<close> as \<^verbatim>\<open>None\<close>.
\<close>

lemma int_or_none_roundtrip: "int_or_none (py_str_opt v) = v"
proof (cases v)
  case None
  have "py_int ''None'' = None" by (simp add: pystr_simps)
  then show ?thesis using None by (simp add: int_or_none_def)
qed (simp add: int_or_none_def)

subsection \<open>Bounds on the output\<close>

lemma gen_rows_length:
  "length (fst (gen_rows f m t idxs)) + length (snd (gen_rows f m t idxs)) =
     length (filter (\<lambda>i. data t i \<noteq> None) idxs)"
  by (induction idxs) (auto split: prod.split option.split sum.split)

lemma gen_rows_lines:
  "(\<And>d row s. f d row = Inr s \<Longrightarrow> P s) \<Longrightarrow> list_all P (fst (gen_rows f m t idxs))"
  by (induction idxs) (auto split: prod.split option.split sum.split)

lemma length_hour_range: "length hour_range = 25"
  by (simp add: hour_range_def)

lemma hour_range_present:
  "length (filter (\<lambda>i. data t i \<noteq> None) hour_range) \<le> 25"
  using length_filter_le [of _ hour_range] by (simp add: length_hour_range)

lemma renewable_row_sql_line: "renewable_row_sql d row = Inr s \<Longrightarrow> sql_line s"
  by (auto simp: renewable_row_sql_def Let_def sql_line_inserts
        split: sum.splits option.splits if_splits)

lemma total_row_sql_line: "total_row_sql d row = Inr s \<Longrightarrow> sql_line s"
  by (auto simp: total_row_sql_def sql_line_inserts split: sum.splits option.splits if_splits)

lemma sql_line_ddl: "sql_line renewable_ddl" "sql_line total_ddl"
  by (simp_all add: sql_line_def renewable_ddl_def total_ddl_def suffix_def)

text \<open>
  Whatever the table, \<^verbatim>\<open>gen_renewable_sql\<close> returns at most 26 statements and
  logs together, one DDL and one per stored hour of \<^verbatim>\<open>range(1,26)\<close>, and every statement
  is one line ending in a semicolon, so that writing them one per line gives one statement
  per line.
\<close>

lemma gen_renewable_sql_lines:
  "length (fst (gen_renewable_sql t)) + length (snd (gen_renewable_sql t)) \<le> 26 \<and>
   list_all sql_line (fst (gen_renewable_sql t))"
proof -
  obtain sqls logs where g: "gen_rows renewable_row_sql ''gen_renewable_sql'' t hour_range = (sqls, logs)"
    by (cases "gen_rows renewable_row_sql ''gen_renewable_sql'' t hour_range") simp
  have "length sqls + length logs \<le> 25"
    using gen_rows_length [of renewable_row_sql "''gen_renewable_sql''" t hour_range] hour_range_present [of t]
    by (simp add: g)
  moreover have "list_all sql_line sqls"
    using gen_rows_lines [where f = renewable_row_sql and P = sql_line and m = "''gen_renewable_sql''" and t = t and idxs = hour_range, OF renewable_row_sql_line]
    by (simp add: g)
  ultimately show ?thesis by (simp add: gen_renewable_sql_def g sql_line_ddl)
qed

text \<open>
  The same bound for \<^verbatim>\<open>gen_total_sql\<close>: at most 26 statements and logs, each
  statement one line ending in a semicolon.
\<close>

lemma gen_total_sql_lines:
  "length (fst (gen_total_sql t)) + length (snd (gen_total_sql t)) \<le> 26 \<and>
   list_all sql_line (fst (gen_total_sql t))"
proof -
  obtain sqls logs where g: "gen_rows total_row_sql ''gen_total_sql'' t hour_range = (sqls, logs)"
    by (cases "gen_rows total_row_sql ''gen_total_sql'' t hour_range") simp
  have "length sqls + length logs \<le> 25"
    using gen_rows_length [of total_row_sql "''gen_total_sql''" t hour_range] hour_range_present [of t]
    by (simp add: g)
  moreover have "list_all sql_line sqls"
    using gen_rows_lines [where f = total_row_sql and P = sql_line and m = "''gen_total_sql''" and t = t and idxs = hour_range, OF total_row_sql_line]
    by (simp add: g)
  ultimately show ?thesis by (simp add: gen_total_sql_def g sql_line_ddl)
qed

subsection \<open>The theorems at a sample table\<close>

lemma sample_table_keys: "keys_match sample_table"
  by (simp add: keys_match_def sample_table_def hour_range_def upto.simps row_index_def
        row_int_index_def pystr_simps)

lemma sample_table_hours:
  "filter (has_fields 7 sample_table) hour_range = [9]"
  "filter (short_row 7 sample_table) hour_range = [10]"
  "filter (has_fields 6 sample_table) hour_range = [9]"
  "filter (short_row 6 sample_table) hour_range = [10]"
  by (simp_all add: sample_table_def hour_range_def upto.simps has_fields_def short_row_def)

lemma sample_table_date:
  "sql_date (tdate sample_table) = ''\"2019-10-30 00:00:00\"''"
  by (simp add: sample_table_def sql_date_def py_str_datetime_def zpad_def pystr_simps)

theorem gen_renewable_sql_keys_witness:
  "keys_match sample_table \<and>
   map sql_key (tl (fst (gen_renewable_sql sample_table))) = [Some (''\"2019-10-30 00:00:00\"'', ''9'')]
   \<and> snd (gen_renewable_sql sample_table) = [InsertSkipped ''gen_renewable_sql'' 10]"
  using gen_renewable_sql_keys [OF sample_table_keys] sample_table_keys
  by (simp add: sample_table_hours sample_table_date pystr_simps)

theorem gen_renewable_sql_unique_witness:
  "keys_match sample_table \<and> distinct (map sql_key (tl (fst (gen_renewable_sql sample_table))))"
  using gen_renewable_sql_unique [OF sample_table_keys] sample_table_keys by simp

theorem gen_total_sql_keys_witness:
  "keys_match sample_table \<and>
   map sql_key (tl (fst (gen_total_sql sample_table))) = [Some (''\"2019-10-30 00:00:00\"'', ''9'')]
   \<and> snd (gen_total_sql sample_table) = [InsertSkipped ''gen_total_sql'' 10]"
  using gen_total_sql_keys [OF sample_table_keys] sample_table_keys
  by (simp add: sample_table_hours sample_table_date pystr_simps)

theorem gen_renewable_sql_equiv_witness:
  \<open>keys_match sample_table \<and>
   fst (gen_renewable_sql sample_table) =
     [renewable_ddl, ''INSERT INTO renewable (date, hour, geothermal, biomass, biogas, small_hydro, wind_total, solar_pv, solar_thermal) VALUES ("2019-10-30 00:00:00", 9, 264, 267, 212, 170, 1182, 3999, 93);'']\<close>
  using gen_renewable_sql_equiv [OF sample_table_keys] sample_table_keys
  by (simp add: renewable_spec_def sample_table_def hour_range_def upto.simps Let_def
        renewable_insert_split_def py_str_datetime_def zpad_def int_or_none_def pystr_simps)

theorem gen_total_sql_equiv_witness:
  \<open>keys_match sample_table \<and>
   fst (gen_total_sql sample_table) =
     [total_ddl, ''INSERT INTO total (date, hour, renewables, nuclear, thermal, imports, hydro) VALUES ("2019-10-30 00:00:00", 9, 264, 267, 212, 170, 1182);'']\<close>
  using gen_total_sql_equiv [OF sample_table_keys] sample_table_keys
  by (simp add: total_spec_def sample_table_def hour_range_def upto.simps Let_def
        total_insert_def py_str_datetime_def zpad_def int_or_none_def pystr_simps)

end
