(* ===== verification/Samples.thy ===== *)
theory Samples
  imports SqlEmit
begin

text \<open>
  The report of src/src/30_pars.py (\<^verbatim>\<open>EXAMPLE\<close>, the file of 30 October 2019), and a
  shorter report made of its lines: the date and title line, the column line and the rows
  of hours 9 and 10 of the renewable table, the two blank lines, and the title, column line
  and hour-1 row of the total table.  The lemmas below evaluate the parser on the short
  report, stage by stage; they are what the witnesses of the pipeline's theorems compute
  with.  Tabs are written \<open>CHR 0x09\<close>.
\<close>

definition EXAMPLE :: string where
  "EXAMPLE =
     ''\<newline>10/30/19'' @ [CHR 0x09, CHR 0x09, CHR 0x09] @
     ''Hourly Breakdown of Renewable Resources (MW)\<newline>'' @ [CHR 0x09] @ ''Hour'' @
     [CHR 0x09, CHR 0x09] @ ''GEOTHERMAL'' @ [CHR 0x09] @ ''BIOMASS'' @ [CHR 0x09, CHR 0x09] @
     ''BIOGAS'' @ [CHR 0x09, CHR 0x09] @ ''SMALL HYDRO'' @ [CHR 0x09] @ ''WIND TOTAL'' @
     [CHR 0x09] @ ''SOLAR PV'' @ [CHR 0x09] @ ''SOLAR THERMAL\<newline>'' @ [CHR 0x09] @ ''1'' @
     [CHR 0x09, CHR 0x09] @ ''264'' @ [CHR 0x09, CHR 0x09] @ ''261'' @ [CHR 0x09, CHR 0x09] @
     ''221'' @ [CHR 0x09, CHR 0x09] @ ''166'' @ [CHR 0x09, CHR 0x09] @ ''1818'' @
     [CHR 0x09, CHR 0x09] @ ''0'' @ [CHR 0x09, CHR 0x09] @ ''0\<newline>'' @ [CHR 0x09] @ ''2'' @
     [CHR 0x09, CHR 0x09] @ ''264'' @ [CHR 0x09, CHR 0x09] @ ''261'' @ [CHR 0x09, CHR 0x09] @
     ''223'' @ [CHR 0x09, CHR 0x09] @ ''166'' @ [CHR 0x09, CHR 0x09] @ ''2018'' @
     [CHR 0x09, CHR 0x09] @ ''0'' @ [CHR 0x09, CHR 0x09] @ ''0\<newline>'' @ [CHR 0x09] @ ''3'' @
     [CHR 0x09, CHR 0x09] @ ''264'' @ [CHR 0x09, CHR 0x09] @ ''262'' @ [CHR 0x09, CHR 0x09] @
     ''222'' @ [CHR 0x09, CHR 0x09] @ ''165'' @ [CHR 0x09, CHR 0x09] @ ''1976'' @
     [CHR 0x09, CHR 0x09] @ ''0'' @ [CHR 0x09, CHR 0x09] @ ''0\<newline>'' @ [CHR 0x09] @ ''4'' @
     [CHR 0x09, CHR 0x09] @ ''264'' @ [CHR 0x09, CHR 0x09] @ ''262'' @ [CHR 0x09, CHR 0x09] @
     ''221'' @ [CHR 0x09, CHR 0x09] @ ''163'' @ [CHR 0x09, CHR 0x09] @ ''1601'' @
     [CHR 0x09, CHR 0x09] @ ''0'' @ [CHR 0x09, CHR 0x09] @ ''0\<newline>'' @ [CHR 0x09] @ ''5'' @
     [CHR 0x09, CHR 0x09] @ ''264'' @ [CHR 0x09, CHR 0x09] @ ''262'' @ [CHR 0x09, CHR 0x09] @
     ''221'' @ [CHR 0x09, CHR 0x09] @ ''161'' @ [CHR 0x09, CHR 0x09] @ ''1375'' @
     [CHR 0x09, CHR 0x09] @ ''0'' @ [CHR 0x09, CHR 0x09] @ ''0\<newline>'' @ [CHR 0x09] @ ''6'' @
     [CHR 0x09, CHR 0x09] @ ''264'' @ [CHR 0x09, CHR 0x09] @ ''265'' @ [CHR 0x09, CHR 0x09] @
     ''220'' @ [CHR 0x09, CHR 0x09] @ ''161'' @ [CHR 0x09, CHR 0x09] @ ''1313'' @
     [CHR 0x09, CHR 0x09] @ ''0'' @ [CHR 0x09, CHR 0x09] @ ''0\<newline>'' @ [CHR 0x09] @ ''7'' @
     [CHR 0x09, CHR 0x09] @ ''264'' @ [CHR 0x09, CHR 0x09] @ ''266'' @ [CHR 0x09, CHR 0x09] @
     ''217'' @ [CHR 0x09, CHR 0x09] @ ''179'' @ [CHR 0x09, CHR 0x09] @ ''1398'' @
     [CHR 0x09, CHR 0x09] @ ''0'' @ [CHR 0x09, CHR 0x09] @ ''0\<newline>'' @ [CHR 0x09] @ ''8'' @
     [CHR 0x09, CHR 0x09] @ ''264'' @ [CHR 0x09, CHR 0x09] @ ''265'' @ [CHR 0x09, CHR 0x09] @
     ''210'' @ [CHR 0x09, CHR 0x09] @ ''184'' @ [CHR 0x09, CHR 0x09] @ ''1267'' @
     [CHR 0x09, CHR 0x09] @ ''606'' @ [CHR 0x09, CHR 0x09] @ ''0\<newline>'' @ [CHR 0x09] @
     ''9'' @ [CHR 0x09, CHR 0x09] @ ''264'' @ [CHR 0x09, CHR 0x09] @ ''267'' @
     [CHR 0x09, CHR 0x09] @ ''212'' @ [CHR 0x09, CHR 0x09] @ ''170'' @ [CHR 0x09, CHR 0x09] @
     ''1182'' @ [CHR 0x09, CHR 0x09] @ ''3999'' @ [CHR 0x09, CHR 0x09] @ ''93\<newline>'' @
     [CHR 0x09] @ ''10'' @ [CHR 0x09, CHR 0x09] @ ''264'' @ [CHR 0x09, CHR 0x09] @ ''258'' @
     [CHR 0x09, CHR 0x09] @ ''215'' @ [CHR 0x09, CHR 0x09] @ ''154'' @ [CHR 0x09, CHR 0x09] @
     ''1131'' @ [CHR 0x09, CHR 0x09] @ ''7296'' @ [CHR 0x09, CHR 0x09] @ ''344\<newline>'' @
     [CHR 0x09] @ ''11'' @ [CHR 0x09, CHR 0x09] @ ''264'' @ [CHR 0x09, CHR 0x09] @ ''264'' @
     [CHR 0x09, CHR 0x09] @ ''219'' @ [CHR 0x09, CHR 0x09] @ ''135'' @ [CHR 0x09, CHR 0x09] @
     ''1148'' @ [CHR 0x09, CHR 0x09] @ ''8270'' @ [CHR 0x09, CHR 0x09] @ ''428\<newline>'' @
     [CHR 0x09] @ ''12'' @ [CHR 0x09, CHR 0x09] @ ''264'' @ [CHR 0x09, CHR 0x09] @ ''250'' @
     [CHR 0x09, CHR 0x09] @ ''220'' @ [CHR 0x09, CHR 0x09] @ ''138'' @ [CHR 0x09, CHR 0x09] @
     ''1214'' @ [CHR 0x09, CHR 0x09] @ ''8696'' @ [CHR 0x09, CHR 0x09] @ ''434\<newline>'' @
     [CHR 0x09] @ ''13'' @ [CHR 0x09, CHR 0x09] @ ''264'' @ [CHR 0x09, CHR 0x09] @ ''250'' @
     [CHR 0x09, CHR 0x09] @ ''224'' @ [CHR 0x09, CHR 0x09] @ ''143'' @ [CHR 0x09, CHR 0x09] @
     ''1297'' @ [CHR 0x09, CHR 0x09] @ ''7194'' @ [CHR 0x09, CHR 0x09] @ ''426\<newline>'' @
     [CHR 0x09] @ ''14'' @ [CHR 0x09, CHR 0x09] @ ''264'' @ [CHR 0x09, CHR 0x09] @ ''274'' @
     [CHR 0x09, CHR 0x09] @ ''229'' @ [CHR 0x09, CHR 0x09] @ ''164'' @ [CHR 0x09, CHR 0x09] @
     ''1196'' @ [CHR 0x09, CHR 0x09] @ ''7125'' @ [CHR 0x09, CHR 0x09] @ ''422\<newline>'' @
     [CHR 0x09] @ ''15'' @ [CHR 0x09, CHR 0x09] @ ''263'' @ [CHR 0x09, CHR 0x09] @ ''290'' @
     [CHR 0x09, CHR 0x09] @ ''230'' @ [CHR 0x09, CHR 0x09] @ ''142'' @ [CHR 0x09, CHR 0x09] @
     ''1105'' @ [CHR 0x09, CHR 0x09] @ ''8204'' @ [CHR 0x09, CHR 0x09] @ ''416\<newline>'' @
     [CHR 0x09] @ ''16'' @ [CHR 0x09, CHR 0x09] @ ''263'' @ [CHR 0x09, CHR 0x09] @ ''292'' @
     [CHR 0x09, CHR 0x09] @ ''231'' @ [CHR 0x09, CHR 0x09] @ ''157'' @ [CHR 0x09, CHR 0x09] @
     ''1040'' @ [CHR 0x09, CHR 0x09] @ ''8072'' @ [CHR 0x09, CHR 0x09] @ ''385\<newline>'' @
     [CHR 0x09] @ ''17'' @ [CHR 0x09, CHR 0x09] @ ''264'' @ [CHR 0x09, CHR 0x09] @ ''302'' @
     [CHR 0x09, CHR 0x09] @ ''231'' @ [CHR 0x09, CHR 0x09] @ ''172'' @ [CHR 0x09, CHR 0x09] @
     ''936'' @ [CHR 0x09, CHR 0x09] @ ''5410'' @ [CHR 0x09, CHR 0x09] @ ''285\<newline>'' @
     [CHR 0x09] @ ''18'' @ [CHR 0x09, CHR 0x09] @ ''267'' @ [CHR 0x09, CHR 0x09] @ ''315'' @
     [CHR 0x09, CHR 0x09] @ ''232'' @ [CHR 0x09, CHR 0x09] @ ''199'' @ [CHR 0x09, CHR 0x09] @
     ''778'' @ [CHR 0x09, CHR 0x09] @ ''1083'' @ [CHR 0x09, CHR 0x09] @ ''38\<newline>'' @
     [CHR 0x09] @ ''19'' @ [CHR 0x09, CHR 0x09] @ ''268'' @ [CHR 0x09, CHR 0x09] @ ''314'' @
     [CHR 0x09, CHR 0x09] @ ''236'' @ [CHR 0x09, CHR 0x09] @ ''205'' @ [CHR 0x09, CHR 0x09] @
     ''657'' @ [CHR 0x09, CHR 0x09] @ ''0'' @ [CHR 0x09, CHR 0x09] @ ''0\<newline>'' @
     [CHR 0x09] @ ''20'' @ [CHR 0x09, CHR 0x09] @ ''268'' @ [CHR 0x09, CHR 0x09] @ ''314'' @
     [CHR 0x09, CHR 0x09] @ ''218'' @ [CHR 0x09, CHR 0x09] @ ''202'' @ [CHR 0x09, CHR 0x09] @
     ''586'' @ [CHR 0x09, CHR 0x09] @ ''0'' @ [CHR 0x09, CHR 0x09] @ ''0\<newline>'' @
     [CHR 0x09] @ ''21'' @ [CHR 0x09, CHR 0x09] @ ''268'' @ [CHR 0x09, CHR 0x09] @ ''285'' @
     [CHR 0x09, CHR 0x09] @ ''211'' @ [CHR 0x09, CHR 0x09] @ ''192'' @ [CHR 0x09, CHR 0x09] @
     ''538'' @ [CHR 0x09, CHR 0x09] @ ''0'' @ [CHR 0x09, CHR 0x09] @ ''0\<newline>'' @
     [CHR 0x09] @ ''22'' @ [CHR 0x09, CHR 0x09] @ ''268'' @ [CHR 0x09, CHR 0x09] @ ''284'' @
     [CHR 0x09, CHR 0x09] @ ''215'' @ [CHR 0x09, CHR 0x09] @ ''193'' @ [CHR 0x09, CHR 0x09] @
     ''485'' @ [CHR 0x09, CHR 0x09] @ ''0'' @ [CHR 0x09, CHR 0x09] @ ''0\<newline>'' @
     [CHR 0x09] @ ''23'' @ [CHR 0x09, CHR 0x09] @ ''268'' @ [CHR 0x09, CHR 0x09] @ ''276'' @
     [CHR 0x09, CHR 0x09] @ ''227'' @ [CHR 0x09, CHR 0x09] @ ''194'' @ [CHR 0x09, CHR 0x09] @
     ''486'' @ [CHR 0x09, CHR 0x09] @ ''0'' @ [CHR 0x09, CHR 0x09] @ ''0\<newline>'' @
     [CHR 0x09] @ ''24'' @ [CHR 0x09, CHR 0x09] @ ''267'' @ [CHR 0x09, CHR 0x09] @ ''270'' @
     [CHR 0x09, CHR 0x09] @ ''233'' @ [CHR 0x09, CHR 0x09] @ ''174'' @ [CHR 0x09, CHR 0x09] @
     ''427'' @ [CHR 0x09, CHR 0x09] @ ''0'' @ [CHR 0x09, CHR 0x09] @
     ''0\<newline>\<newline>\<newline>'' @ [CHR 0x09, CHR 0x09, CHR 0x09] @
     ''Hourly Breakdown of Total Production by Resource Type (MW)\<newline>'' @ [CHR 0x09] @
     ''Hour'' @ [CHR 0x09, CHR 0x09] @ ''RENEWABLES'' @ [CHR 0x09] @ ''NUCLEAR'' @
     [CHR 0x09, CHR 0x09] @ ''THERMAL'' @ [CHR 0x09, CHR 0x09] @ ''IMPORTS'' @
     [CHR 0x09, CHR 0x09] @ ''HYDRO\<newline>'' @ [CHR 0x09] @ ''1'' @ [CHR 0x09, CHR 0x09] @
     ''2730'' @ [CHR 0x09, CHR 0x09] @ ''1129'' @ [CHR 0x09, CHR 0x09] @ ''9802'' @
     [CHR 0x09, CHR 0x09] @ ''5064'' @ [CHR 0x09, CHR 0x09] @ ''2074\<newline>'' @ [CHR 0x09] @
     ''2'' @ [CHR 0x09, CHR 0x09] @ ''2932'' @ [CHR 0x09, CHR 0x09] @ ''1127'' @
     [CHR 0x09, CHR 0x09] @ ''9280'' @ [CHR 0x09, CHR 0x09] @ ''4595'' @ [CHR 0x09, CHR 0x09] @
     ''2074\<newline>'' @ [CHR 0x09] @ ''3'' @ [CHR 0x09, CHR 0x09] @ ''2625'' @
     [CHR 0x09, CHR 0x09] @ ''1125'' @ [CHR 0x09, CHR 0x09] @ ''9507'' @ [CHR 0x09, CHR 0x09] @
     ''4375'' @ [CHR 0x09, CHR 0x09] @ ''2074\<newline>'' @ [CHR 0x09] @ ''4'' @
     [CHR 0x09, CHR 0x09] @ ''2511'' @ [CHR 0x09, CHR 0x09] @ ''1126'' @ [CHR 0x09, CHR 0x09] @
     ''9612'' @ [CHR 0x09, CHR 0x09] @ ''4337'' @ [CHR 0x09, CHR 0x09] @ ''2073\<newline>'' @
     [CHR 0x09] @ ''5'' @ [CHR 0x09, CHR 0x09] @ ''2283'' @ [CHR 0x09, CHR 0x09] @ ''1127'' @
     [CHR 0x09, CHR 0x09] @ ''10124'' @ [CHR 0x09, CHR 0x09] @ ''4554'' @ [CHR 0x09, CHR 0x09] @
     ''2038\<newline>'' @ [CHR 0x09] @ ''6'' @ [CHR 0x09, CHR 0x09] @ ''2223'' @
     [CHR 0x09, CHR 0x09] @ ''1128'' @ [CHR 0x09, CHR 0x09] @ ''11619'' @ [CHR 0x09, CHR 0x09] @
     ''4210'' @ [CHR 0x09, CHR 0x09] @ ''2038\<newline>'' @ [CHR 0x09] @ ''7'' @
     [CHR 0x09, CHR 0x09] @ ''2324'' @ [CHR 0x09, CHR 0x09] @ ''1129'' @ [CHR 0x09, CHR 0x09] @
     ''13873'' @ [CHR 0x09, CHR 0x09] @ ''4221'' @ [CHR 0x09, CHR 0x09] @ ''2038\<newline>'' @
     [CHR 0x09] @ ''8'' @ [CHR 0x09, CHR 0x09] @ ''2796'' @ [CHR 0x09, CHR 0x09] @ ''1128'' @
     [CHR 0x09, CHR 0x09] @ ''14539'' @ [CHR 0x09, CHR 0x09] @ ''4307'' @ [CHR 0x09, CHR 0x09] @
     ''2038\<newline>'' @ [CHR 0x09] @ ''9'' @ [CHR 0x09, CHR 0x09] @ ''6187'' @
     [CHR 0x09, CHR 0x09] @ ''1128'' @ [CHR 0x09, CHR 0x09] @ ''11731'' @ [CHR 0x09, CHR 0x09] @
     ''3441'' @ [CHR 0x09, CHR 0x09] @ ''2038\<newline>'' @ [CHR 0x09] @ ''10'' @
     [CHR 0x09, CHR 0x09] @ ''9662'' @ [CHR 0x09, CHR 0x09] @ ''1129'' @ [CHR 0x09, CHR 0x09] @
     ''8256'' @ [CHR 0x09, CHR 0x09] @ ''2340'' @ [CHR 0x09, CHR 0x09] @ ''2038\<newline>'' @
     [CHR 0x09] @ ''11'' @ [CHR 0x09, CHR 0x09] @ ''10728'' @ [CHR 0x09, CHR 0x09] @ ''1130'' @
     [CHR 0x09, CHR 0x09] @ ''6825'' @ [CHR 0x09, CHR 0x09] @ ''2299'' @ [CHR 0x09, CHR 0x09] @
     ''2038\<newline>'' @ [CHR 0x09] @ ''12'' @ [CHR 0x09, CHR 0x09] @ ''11216'' @
     [CHR 0x09, CHR 0x09] @ ''1130'' @ [CHR 0x09, CHR 0x09] @ ''6400'' @ [CHR 0x09, CHR 0x09] @
     ''1837'' @ [CHR 0x09, CHR 0x09] @ ''2038\<newline>'' @ [CHR 0x09] @ ''13'' @
     [CHR 0x09, CHR 0x09] @ ''9798'' @ [CHR 0x09, CHR 0x09] @ ''1130'' @ [CHR 0x09, CHR 0x09] @
     ''6327'' @ [CHR 0x09, CHR 0x09] @ ''2767'' @ [CHR 0x09, CHR 0x09] @ ''2107\<newline>'' @
     [CHR 0x09] @ ''14'' @ [CHR 0x09, CHR 0x09] @ ''9674'' @ [CHR 0x09, CHR 0x09] @ ''1130'' @
     [CHR 0x09, CHR 0x09] @ ''7000'' @ [CHR 0x09, CHR 0x09] @ ''2488'' @ [CHR 0x09, CHR 0x09] @
     ''2110\<newline>'' @ [CHR 0x09] @ ''15'' @ [CHR 0x09, CHR 0x09] @ ''10650'' @
     [CHR 0x09, CHR 0x09] @ ''1129'' @ [CHR 0x09, CHR 0x09] @ ''7056'' @ [CHR 0x09, CHR 0x09] @
     ''1698'' @ [CHR 0x09, CHR 0x09] @ ''2102\<newline>'' @ [CHR 0x09] @ ''16'' @
     [CHR 0x09, CHR 0x09] @ ''10440'' @ [CHR 0x09, CHR 0x09] @ ''1127'' @ [CHR 0x09, CHR 0x09] @
     ''7699'' @ [CHR 0x09, CHR 0x09] @ ''1944'' @ [CHR 0x09, CHR 0x09] @ ''2110\<newline>'' @
     [CHR 0x09] @ ''17'' @ [CHR 0x09, CHR 0x09] @ ''7600'' @ [CHR 0x09, CHR 0x09] @ ''1127'' @
     [CHR 0x09, CHR 0x09] @ ''9944'' @ [CHR 0x09, CHR 0x09] @ ''3563'' @ [CHR 0x09, CHR 0x09] @
     ''2110\<newline>'' @ [CHR 0x09] @ ''18'' @ [CHR 0x09, CHR 0x09] @ ''2912'' @
     [CHR 0x09, CHR 0x09] @ ''1122'' @ [CHR 0x09, CHR 0x09] @ ''13944'' @ [CHR 0x09, CHR 0x09] @
     ''5439'' @ [CHR 0x09, CHR 0x09] @ ''2080\<newline>'' @ [CHR 0x09] @ ''19'' @
     [CHR 0x09, CHR 0x09] @ ''1680'' @ [CHR 0x09, CHR 0x09] @ ''1121'' @ [CHR 0x09, CHR 0x09] @
     ''15993'' @ [CHR 0x09, CHR 0x09] @ ''6242'' @ [CHR 0x09, CHR 0x09] @ ''2094\<newline>'' @
     [CHR 0x09] @ ''20'' @ [CHR 0x09, CHR 0x09] @ ''1588'' @ [CHR 0x09, CHR 0x09] @ ''1120'' @
     [CHR 0x09, CHR 0x09] @ ''16004'' @ [CHR 0x09, CHR 0x09] @ ''6400'' @ [CHR 0x09, CHR 0x09] @
     ''2094\<newline>'' @ [CHR 0x09] @ ''21'' @ [CHR 0x09, CHR 0x09] @ ''1494'' @
     [CHR 0x09, CHR 0x09] @ ''1121'' @ [CHR 0x09, CHR 0x09] @ ''15196'' @ [CHR 0x09, CHR 0x09] @
     ''6574'' @ [CHR 0x09, CHR 0x09] @ ''2079\<newline>'' @ [CHR 0x09] @ ''22'' @
     [CHR 0x09, CHR 0x09] @ ''1445'' @ [CHR 0x09, CHR 0x09] @ ''1121'' @ [CHR 0x09, CHR 0x09] @
     ''14578'' @ [CHR 0x09, CHR 0x09] @ ''6137'' @ [CHR 0x09, CHR 0x09] @ ''2076\<newline>'' @
     [CHR 0x09] @ ''23'' @ [CHR 0x09, CHR 0x09] @ ''1451'' @ [CHR 0x09, CHR 0x09] @ ''1122'' @
     [CHR 0x09, CHR 0x09] @ ''13373'' @ [CHR 0x09, CHR 0x09] @ ''5592'' @ [CHR 0x09, CHR 0x09] @
     ''2070\<newline>'' @ [CHR 0x09] @ ''24'' @ [CHR 0x09, CHR 0x09] @ ''1371'' @
     [CHR 0x09, CHR 0x09] @ ''1121'' @ [CHR 0x09, CHR 0x09] @ ''12330'' @ [CHR 0x09, CHR 0x09] @
     ''5056'' @ [CHR 0x09, CHR 0x09] @ ''2068\<newline>''"

definition sample_report :: string where
  "sample_report =
     ''\<newline>10/30/19'' @ [CHR 0x09, CHR 0x09, CHR 0x09] @
     ''Hourly Breakdown of Renewable Resources (MW)\<newline>'' @ [CHR 0x09] @ ''Hour'' @
     [CHR 0x09, CHR 0x09] @ ''GEOTHERMAL'' @ [CHR 0x09] @ ''BIOMASS'' @ [CHR 0x09, CHR 0x09] @
     ''BIOGAS'' @ [CHR 0x09, CHR 0x09] @ ''SMALL HYDRO'' @ [CHR 0x09] @ ''WIND TOTAL'' @
     [CHR 0x09] @ ''SOLAR PV'' @ [CHR 0x09] @ ''SOLAR THERMAL\<newline>'' @ [CHR 0x09] @ ''9'' @
     [CHR 0x09, CHR 0x09] @ ''264'' @ [CHR 0x09, CHR 0x09] @ ''267'' @ [CHR 0x09, CHR 0x09] @
     ''212'' @ [CHR 0x09, CHR 0x09] @ ''170'' @ [CHR 0x09, CHR 0x09] @ ''1182'' @
     [CHR 0x09, CHR 0x09] @ ''3999'' @ [CHR 0x09, CHR 0x09] @ ''93\<newline>'' @ [CHR 0x09] @
     ''10'' @ [CHR 0x09, CHR 0x09] @ ''264'' @ [CHR 0x09, CHR 0x09] @ ''258'' @
     [CHR 0x09, CHR 0x09] @ ''215'' @ [CHR 0x09, CHR 0x09] @ ''154'' @ [CHR 0x09, CHR 0x09] @
     ''1131'' @ [CHR 0x09, CHR 0x09] @ ''7296'' @ [CHR 0x09, CHR 0x09] @
     ''344\<newline>\<newline>\<newline>'' @ [CHR 0x09, CHR 0x09, CHR 0x09] @
     ''Hourly Breakdown of Total Production by Resource Type (MW)\<newline>'' @ [CHR 0x09] @
     ''Hour'' @ [CHR 0x09, CHR 0x09] @ ''RENEWABLES'' @ [CHR 0x09] @ ''NUCLEAR'' @
     [CHR 0x09, CHR 0x09] @ ''THERMAL'' @ [CHR 0x09, CHR 0x09] @ ''IMPORTS'' @
     [CHR 0x09, CHR 0x09] @ ''HYDRO\<newline>'' @ [CHR 0x09] @ ''1'' @ [CHR 0x09, CHR 0x09] @
     ''2730'' @ [CHR 0x09, CHR 0x09] @ ''1129'' @ [CHR 0x09, CHR 0x09] @ ''9802'' @
     [CHR 0x09, CHR 0x09] @ ''5064'' @ [CHR 0x09, CHR 0x09] @ ''2074\<newline>''"

lemma chunk_sample_report:
  "chunk sample_report =
    [''\<newline>10/30/19'' @ [CHR 0x09, CHR 0x09, CHR 0x09],
     '' Breakdown of Renewable Resources (MW)\<newline>'' @ [CHR 0x09] @ ''Hour'' @
      [CHR 0x09, CHR 0x09] @ ''GEOTHERMAL'' @ [CHR 0x09] @ ''BIOMASS'' @ [CHR 0x09, CHR 0x09] @
      ''BIOGAS'' @ [CHR 0x09, CHR 0x09] @ ''SMALL HYDRO'' @ [CHR 0x09] @ ''WIND TOTAL'' @
      [CHR 0x09] @ ''SOLAR PV'' @ [CHR 0x09] @ ''SOLAR THERMAL\<newline>'' @ [CHR 0x09] @ ''9'' @
      [CHR 0x09, CHR 0x09] @ ''264'' @ [CHR 0x09, CHR 0x09] @ ''267'' @ [CHR 0x09, CHR 0x09] @
      ''212'' @ [CHR 0x09, CHR 0x09] @ ''170'' @ [CHR 0x09, CHR 0x09] @ ''1182'' @
      [CHR 0x09, CHR 0x09] @ ''3999'' @ [CHR 0x09, CHR 0x09] @ ''93\<newline>'' @ [CHR 0x09] @
      ''10'' @ [CHR 0x09, CHR 0x09] @ ''264'' @ [CHR 0x09, CHR 0x09] @ ''258'' @
      [CHR 0x09, CHR 0x09] @ ''215'' @ [CHR 0x09, CHR 0x09] @ ''154'' @ [CHR 0x09, CHR 0x09] @
      ''1131'' @ [CHR 0x09, CHR 0x09] @ ''7296'' @ [CHR 0x09, CHR 0x09] @
      ''344\<newline>\<newline>\<newline>'' @ [CHR 0x09, CHR 0x09, CHR 0x09],
     '' Breakdown of Total Production by Resource Type (MW)\<newline>'' @ [CHR 0x09] @
      ''Hour'' @ [CHR 0x09, CHR 0x09] @ ''RENEWABLES'' @ [CHR 0x09] @ ''NUCLEAR'' @
      [CHR 0x09, CHR 0x09] @ ''THERMAL'' @ [CHR 0x09, CHR 0x09] @ ''IMPORTS'' @
      [CHR 0x09, CHR 0x09] @ ''HYDRO\<newline>'' @ [CHR 0x09] @ ''1'' @ [CHR 0x09, CHR 0x09] @
      ''2730'' @ [CHR 0x09, CHR 0x09] @ ''1129'' @ [CHR 0x09, CHR 0x09] @ ''9802'' @
      [CHR 0x09, CHR 0x09] @ ''5064'' @ [CHR 0x09, CHR 0x09] @ ''2074\<newline>'']"
  by (simp add: chunk_def sample_report_def pystr_simps)

lemma sample_date:
  "extract_date 2026 (''\<newline>10/30/19'' @ [CHR 0x09, CHR 0x09, CHR 0x09]) = Inr \<lparr>year = 2019, month = 10, day = 30\<rparr>"
proof -
  have "py_strip (''\<newline>10/30/19'' @ [CHR 0x09, CHR 0x09, CHR 0x09]) = mdy_text \<lparr>year = 2019, month = 10, day = 30\<rparr>"
    by (simp add: mdy_text_def zpad_def pystr_simps)
  moreover have "valid_date \<lparr>year = 2019, month = 10, day = 30\<rparr>"
    by (simp add: valid_date_def days_in_month_def)
  ultimately show ?thesis
    using dateutil_parse_mdy [of "\<lparr>year = 2019, month = 10, day = 30\<rparr>" 2026]
    by (simp add: extract_date_def)
qed

lemma sample_renewable:
  "extract_table \<lparr>year = 2019, month = 10, day = 30\<rparr>
     ('' Breakdown of Renewable Resources (MW)\<newline>'' @ [CHR 0x09] @ ''Hour'' @
      [CHR 0x09, CHR 0x09] @ ''GEOTHERMAL'' @ [CHR 0x09] @ ''BIOMASS'' @ [CHR 0x09, CHR 0x09] @
      ''BIOGAS'' @ [CHR 0x09, CHR 0x09] @ ''SMALL HYDRO'' @ [CHR 0x09] @ ''WIND TOTAL'' @
      [CHR 0x09] @ ''SOLAR PV'' @ [CHR 0x09] @ ''SOLAR THERMAL\<newline>'' @ [CHR 0x09] @ ''9'' @
      [CHR 0x09, CHR 0x09] @ ''264'' @ [CHR 0x09, CHR 0x09] @ ''267'' @ [CHR 0x09, CHR 0x09] @
      ''212'' @ [CHR 0x09, CHR 0x09] @ ''170'' @ [CHR 0x09, CHR 0x09] @ ''1182'' @
      [CHR 0x09, CHR 0x09] @ ''3999'' @ [CHR 0x09, CHR 0x09] @ ''93\<newline>'' @ [CHR 0x09] @
      ''10'' @ [CHR 0x09, CHR 0x09] @ ''264'' @ [CHR 0x09, CHR 0x09] @ ''258'' @
      [CHR 0x09, CHR 0x09] @ ''215'' @ [CHR 0x09, CHR 0x09] @ ''154'' @ [CHR 0x09, CHR 0x09] @
      ''1131'' @ [CHR 0x09, CHR 0x09] @ ''7296'' @ [CHR 0x09, CHR 0x09] @
      ''344\<newline>\<newline>\<newline>'' @ [CHR 0x09, CHR 0x09, CHR 0x09]) =
   Inr (\<lparr>tdate = \<lparr>year = 2019, month = 10, day = 30\<rparr>, header = ''Breakdown of Renewable Resources (MW)'',
      columns = [''Hour'', ''GEOTHERMAL'', ''BIOMASS'', ''BIOGAS'', ''SMALL_HYDRO'', ''WIND_TOTAL'', ''SOLAR_PV'', ''SOLAR_THERMAL''],
      data = [9 \<mapsto> [''9'', ''264'', ''267'', ''212'', ''170'', ''1182'', ''3999'', ''93''],
        10 \<mapsto> [''10'', ''264'', ''258'', ''215'', ''154'', ''1131'', ''7296'', ''344'']]\<rparr>,
     [RowDropped [], RowDropped [], RowDropped []])"
  by (simp add: extract_table_def data_rows_def normalize_column_def Let_def row_index_def
        row_int_index_def row_float_index_def pystr_simps)

lemma sample_total:
  "extract_table \<lparr>year = 2019, month = 10, day = 30\<rparr>
     ('' Breakdown of Total Production by Resource Type (MW)\<newline>'' @ [CHR 0x09] @
      ''Hour'' @ [CHR 0x09, CHR 0x09] @ ''RENEWABLES'' @ [CHR 0x09] @ ''NUCLEAR'' @
      [CHR 0x09, CHR 0x09] @ ''THERMAL'' @ [CHR 0x09, CHR 0x09] @ ''IMPORTS'' @
      [CHR 0x09, CHR 0x09] @ ''HYDRO\<newline>'' @ [CHR 0x09] @ ''1'' @ [CHR 0x09, CHR 0x09] @
      ''2730'' @ [CHR 0x09, CHR 0x09] @ ''1129'' @ [CHR 0x09, CHR 0x09] @ ''9802'' @
      [CHR 0x09, CHR 0x09] @ ''5064'' @ [CHR 0x09, CHR 0x09] @ ''2074\<newline>'') =
   Inr (\<lparr>tdate = \<lparr>year = 2019, month = 10, day = 30\<rparr>, header = ''Breakdown of Total Production by Resource Type (MW)'',
      columns = [''Hour'', ''RENEWABLES'', ''NUCLEAR'', ''THERMAL'', ''IMPORTS'', ''HYDRO''],
      data = [1 \<mapsto> [''1'', ''2730'', ''1129'', ''9802'', ''5064'', ''2074'']]\<rparr>,
     [RowDropped []])"
  by (simp add: extract_table_def data_rows_def normalize_column_def Let_def row_index_def
        row_int_index_def row_float_index_def pystr_simps)

lemma sample_read_data:
  "read_data 2026 sample_report =
     ([RowDropped [], RowDropped [], RowDropped []] @ [RowDropped []],
      Inr (\<lparr>tdate = \<lparr>year = 2019, month = 10, day = 30\<rparr>, header = ''Breakdown of Renewable Resources (MW)'',
      columns = [''Hour'', ''GEOTHERMAL'', ''BIOMASS'', ''BIOGAS'', ''SMALL_HYDRO'', ''WIND_TOTAL'', ''SOLAR_PV'', ''SOLAR_THERMAL''],
      data = [9 \<mapsto> [''9'', ''264'', ''267'', ''212'', ''170'', ''1182'', ''3999'', ''93''],
        10 \<mapsto> [''10'', ''264'', ''258'', ''215'', ''154'', ''1131'', ''7296'', ''344'']]\<rparr>,
           \<lparr>tdate = \<lparr>year = 2019, month = 10, day = 30\<rparr>, header = ''Breakdown of Total Production by Resource Type (MW)'',
      columns = [''Hour'', ''RENEWABLES'', ''NUCLEAR'', ''THERMAL'', ''IMPORTS'', ''HYDRO''],
      data = [1 \<mapsto> [''1'', ''2730'', ''1129'', ''9802'', ''5064'', ''2074'']]\<rparr>))"
  by (simp only: read_data_def chunk_sample_report sample_date sample_renewable sample_total
        list.case sum.case prod.case)

lemma sample_renewable_sql:
  \<open>gen_renewable_sql \<lparr>tdate = \<lparr>year = 2019, month = 10, day = 30\<rparr>, header = ''Breakdown of Renewable Resources (MW)'',
      columns = [''Hour'', ''GEOTHERMAL'', ''BIOMASS'', ''BIOGAS'', ''SMALL_HYDRO'', ''WIND_TOTAL'', ''SOLAR_PV'', ''SOLAR_THERMAL''],
      data = [9 \<mapsto> [''9'', ''264'', ''267'', ''212'', ''170'', ''1182'', ''3999'', ''93''],
        10 \<mapsto> [''10'', ''264'', ''258'', ''215'', ''154'', ''1131'', ''7296'', ''344'']]\<rparr> =
   (renewable_ddl # [''INSERT INTO renewable (date, hour, geothermal, biomass, biogas, small_hydro, wind_total, solar_pv, solar_thermal) VALUES ("2019-10-30 00:00:00", 9, 264, 267, 212, 170, 1182, 3999, 93);'',
      ''INSERT INTO renewable (date, hour, geothermal, biomass, biogas, small_hydro, wind_total, solar_pv, solar_thermal) VALUES ("2019-10-30 00:00:00", 10, 264, 258, 215, 154, 1131, 7296, 344);''], [])\<close>
  by (simp add: gen_renewable_sql_def hour_range_def upto.simps renewable_row_sql_def Let_def
        renewable_insert_split_def py_str_datetime_def zpad_def int_or_none_def py_index_def pystr_simps)

lemma sample_total_sql:
  \<open>gen_total_sql \<lparr>tdate = \<lparr>year = 2019, month = 10, day = 30\<rparr>, header = ''Breakdown of Total Production by Resource Type (MW)'',
      columns = [''Hour'', ''RENEWABLES'', ''NUCLEAR'', ''THERMAL'', ''IMPORTS'', ''HYDRO''],
      data = [1 \<mapsto> [''1'', ''2730'', ''1129'', ''9802'', ''5064'', ''2074'']]\<rparr> =
   (total_ddl # [''INSERT INTO total (date, hour, renewables, nuclear, thermal, imports, hydro) VALUES ("2019-10-30 00:00:00", 1, 2730, 1129, 9802, 5064, 2074);''], [])\<close>
  by (simp add: gen_total_sql_def hour_range_def upto.simps total_row_sql_def
        total_insert_def py_str_datetime_def zpad_def int_or_none_def py_index_def pystr_simps)

end
