(* ===== verification/PyOs.thy ===== *)
theory PyOs
  imports PyStr "HOL-Library.AList"
begin

text \<open>
  The file-system vocabulary the scripts use: \<^verbatim>\<open>os.path.join\<close>, \<^verbatim>\<open>os.path.splitext\<close>
  and \<^verbatim>\<open>os.path.dirname\<close> as \<^verbatim>\<open>posixpath\<close> defines them, and a file store.  The store
  is an association list from absolute paths to contents, in the order a directory listing
  returns them; \<^verbatim>\<open>listdir\<close> (and \<^verbatim>\<open>glob\<close>) read it, writing a file updates it in
  place.  These are library semantics, not code of the repository.
\<close>

section \<open>Paths\<close>

text \<open>
  \<^verbatim>\<open>os.path.join(a, b)\<close>: an absolute \<open>b\<close> replaces \<open>a\<close>; otherwise \<open>b\<close> is appended,
  with a slash unless \<open>a\<close> is empty or already ends in one.
\<close>

definition path_join :: "path \<Rightarrow> path \<Rightarrow> path" where
  "path_join a b =
     (if prefix ''/'' b then b
      else if a = [] \<or> last a = CHR ''/'' then a @ b
      else a @ ''/'' @ b)"

text \<open>The position of the last occurrence of a character (\<^verbatim>\<open>str.rfind\<close>).\<close>

definition rfind :: "char \<Rightarrow> string \<Rightarrow> nat option" where
  "rfind c s = (case filter (\<lambda>i. s ! i = c) [0..<length s] of [] \<Rightarrow> None | is \<Rightarrow> Some (last is))"

text \<open>
  \<^verbatim>\<open>os.path.splitext(p)\<close>: the extension starts at the last dot of the last path component,
  unless that component has only dots before it (\<^verbatim>\<open>.profile\<close> has no extension).
\<close>

definition py_splitext :: "path \<Rightarrow> path \<times> string" where
  "py_splitext p =
     (let base = (case rfind CHR ''/'' p of None \<Rightarrow> 0 | Some i \<Rightarrow> Suc i) in
      case rfind CHR ''.'' p of
        None \<Rightarrow> (p, [])
      | Some d \<Rightarrow>
          (if base \<le> d \<and> (\<exists>c\<in>set (take (d - base) (drop base p)). c \<noteq> CHR ''.'')
           then (take d p, drop d p) else (p, [])))"

text \<open>
  \<^verbatim>\<open>os.path.dirname(p)\<close>: everything up to the last slash, trailing slashes removed unless
  it consists of slashes only.
\<close>

definition py_dirname :: "path \<Rightarrow> path" where
  "py_dirname p =
     (let head = take (case rfind CHR ''/'' p of None \<Rightarrow> 0 | Some i \<Rightarrow> Suc i) p in
      if head \<noteq> [] \<and> (\<exists>c\<in>set head. c \<noteq> CHR ''/'')
      then rev (dropWhile (\<lambda>c. c = CHR ''/'') (rev head)) else head)"

section \<open>The file store\<close>

type_synonym store = "(path \<times> string) list"

text \<open>\<^verbatim>\<open>os.listdir(d)\<close>: the names of the files directly inside \<open>d\<close>.\<close>

definition listdir :: "store \<Rightarrow> path \<Rightarrow> string list" where
  "listdir st d =
     [drop (Suc (length d)) p. (p, _) \<leftarrow> st,
        prefix (d @ ''/'') p \<and> CHR ''/'' \<notin> set (drop (Suc (length d)) p)]"

definition read_file :: "store \<Rightarrow> path \<Rightarrow> py_error + string" where
  "read_file st p = (case map_of st p of None \<Rightarrow> Inl FileNotFoundError | Some s \<Rightarrow> Inr s)"

text \<open>
  \<^verbatim>\<open>open(p, 'w')\<close> and writing \<open>s\<close>: \<open>FileNotFoundError\<close> unless the file's directory
  exists.
\<close>

definition write_file :: "path list \<Rightarrow> store \<Rightarrow> path \<Rightarrow> string \<Rightarrow> py_error + store" where
  "write_file dirs st p s =
     (if py_dirname p \<in> set dirs then Inr (AList.update p s st) else Inl FileNotFoundError)"

text \<open>A store is well formed when no path occurs twice: every file is listed once.\<close>

definition wf_store :: "store \<Rightarrow> bool" where
  "wf_store st \<longleftrightarrow> distinct (map fst st)"

section \<open>The configuration of the scripts\<close>

text \<open>
  The dictionary each script's \<^verbatim>\<open>config()\<close> returns: the directory it reads, the
  directory it writes, and its state file.
\<close>

record config =
  source_dir :: path
  working_dir :: path
  state_file :: path

section \<open>Facts\<close>

lemma suffix_path_join: "suffix b (path_join a b)"
  by (auto simp: path_join_def suffix_def)

lemma suffix_same_length:
  assumes "suffix xs s" and "suffix ys s" and "length xs = length ys"
  shows "xs = ys"
proof -
  obtain zs where A: "s = zs @ xs" using assms(1) by (auto simp: suffix_def)
  obtain ws where B: "s = ws @ ys" using assms(2) by (auto simp: suffix_def)
  have "zs @ xs = ws @ ys" using A B by simp
  then show ?thesis using assms(3) append_eq_append_conv [of zs ws xs ys] by simp
qed

lemma listdir_keys:
  "listdir st d = [drop (Suc (length d)) p. p \<leftarrow> map fst st,
        prefix (d @ ''/'') p \<and> CHR ''/'' \<notin> set (drop (Suc (length d)) p)]"
  by (induction st) (auto simp: listdir_def)

lemma listdir_filter:
  "listdir st d = map (drop (Suc (length d)))
     (filter (\<lambda>p. prefix (d @ ''/'') p \<and> CHR ''/'' \<notin> set (drop (Suc (length d)) p)) (map fst st))"
  unfolding listdir_keys by (induction st) auto

lemma mem_listdir:
  "x \<in> set (listdir st d) \<longleftrightarrow>
     (\<exists>p\<in>fst ` set st. prefix (d @ ''/'') p \<and> CHR ''/'' \<notin> set (drop (Suc (length d)) p)
        \<and> x = drop (Suc (length d)) p)"
  unfolding listdir_keys by auto

lemma listdir_mono:
  "fst ` set st \<subseteq> fst ` set st' \<Longrightarrow> set (listdir st d) \<subseteq> set (listdir st' d)"
  by (auto simp only: mem_listdir) blast

lemma listdir_update_out:
  "\<not> prefix (d @ ''/'') p \<Longrightarrow> listdir (AList.update p s st) d = listdir st d"
  by (simp add: listdir_filter update_keys)

lemma write_file_keys:
  assumes "write_file dirs st p s = Inr st'"
  shows "fst ` set st' = insert p (fst ` set st)"
proof -
  have "st' = AList.update p s st" using assms by (simp add: write_file_def split: if_splits)
  then show ?thesis by (simp add: dom_update)
qed

lemma map_of_write_file:
  "write_file dirs st p s = Inr st' \<Longrightarrow> map_of st' = (map_of st)(p \<mapsto> s)"
  by (auto simp: write_file_def update_conv' split: if_splits)

lemma wf_store_update: "wf_store st \<Longrightarrow> wf_store (AList.update p s st)"
  by (simp add: wf_store_def distinct_update)

lemma wf_store_delete: "wf_store st \<Longrightarrow> wf_store (AList.delete p st)"
  by (simp add: wf_store_def distinct_delete)

lemma wf_store_write_file:
  "write_file dirs st p s = Inr st' \<Longrightarrow> wf_store st \<Longrightarrow> wf_store st'"
  by (auto simp: write_file_def wf_store_update split: if_splits)

lemma inj_on_drop_prefix: "inj_on (drop (length q)) {p. prefix q p}"
  by (rule inj_onI) (metis mem_Collect_eq prefix_def append_eq_conv_conj)

lemma distinct_listdir: "wf_store st \<Longrightarrow> distinct (listdir st d)"
proof -
  assume wf: "wf_store st"
  let ?Q = "\<lambda>p. prefix (d @ ''/'') p \<and> CHR ''/'' \<notin> set (drop (Suc (length d)) p)"
  have "inj_on (drop (Suc (length d))) (set (filter ?Q (map fst st)))"
    using inj_on_drop_prefix [of "d @ ''/''"] by (auto intro: inj_on_subset)
  moreover have "distinct (filter ?Q (map fst st))" using wf by (simp add: wf_store_def)
  ultimately show ?thesis by (simp add: listdir_filter distinct_map)
qed

end
