(* ===== verification/Pipeline.thy ===== *)
theory Pipeline
  imports Samples PyOs
begin

text \<open>
  The orchestration of src/src/30_pars.py: \<^verbatim>\<open>config\<close>, \<^verbatim>\<open>parse_text_file\<close> (one
  report: read, parse, emit, write the \<^verbatim>\<open>.sql\<close> file), \<^verbatim>\<open>parse_text_files\<close> (the
  generator that yields the names of the files that succeeded and logs the others) and
  \<^verbatim>\<open>run\<close> (ask the ledger for new files, parse them, record the successes).  The ledger is
  \<^verbatim>\<open>edl.resources.state\<close>, a library outside this repository, modelled from the spec: a
  state file holds the names already processed, \<^verbatim>\<open>new_files\<close> lists the files of a
  directory with the given ending that it does not hold, \<^verbatim>\<open>update\<close> appends names.
  The world the scripts act on is a record: the file store, the directories that exist, the
  lines of each state file and the log.
\<close>

section \<open>Configuration\<close>

text \<open>\<^verbatim>\<open>config()\<close> of 30_pars.py, for the current directory \<open>cwd\<close>.\<close>

definition pars_config :: "path \<Rightarrow> config" where
  "pars_config cwd =
     \<lparr>source_dir = path_join cwd ''txt'', working_dir = path_join cwd ''sql'',
      state_file = path_join (path_join cwd ''sql'') ''state.txt''\<rparr>"

section \<open>The world\<close>

record world =
  files :: store
  dirs :: "path list"
  ledgers :: "path \<Rightarrow> string list"
  log :: "log_event list"

section \<open>The ledger\<close>

text \<open>
  \<^verbatim>\<open>state.new_files(resource_name, state_file, txt_dir, ending)\<close>: the names in
  \<open>txt_dir\<close>, in listing order, that end with \<open>ending\<close> and are not in the state file.
\<close>

definition new_files :: "string \<Rightarrow> path \<Rightarrow> path \<Rightarrow> string \<Rightarrow> world \<Rightarrow> string list" where
  "new_files resource_name sf txt_dir ending w =
     filter (\<lambda>f. suffix ending f \<and> f \<notin> set (ledgers w sf)) (listdir (files w) txt_dir)"

text \<open>\<^verbatim>\<open>state.update(items, state_file)\<close>: append the items to the state file.\<close>

definition state_update :: "string list \<Rightarrow> path \<Rightarrow> world \<Rightarrow> world" where
  "state_update items sf w = w\<lparr>ledgers := (ledgers w)(sf := ledgers w sf @ items)\<rparr>"

section \<open>parse_text_file\<close>

text \<open>The text the two \<^verbatim>\<open>sqlfile.write("%s\n" % line)\<close> loops write.\<close>

definition sql_file_text :: "string list \<Rightarrow> string list \<Rightarrow> string" where
  "sql_file_text renewable_sql total_sql =
     concat (map (\<lambda>line. line @ ''\<newline>'') renewable_sql) @
     concat (map (\<lambda>line. line @ ''\<newline>'') total_sql)"

text \<open>\<^verbatim>\<open>os.path.join(sql_dir, "%s.sql" % f_name)\<close> with \<^verbatim>\<open>f_name\<close> from \<^verbatim>\<open>splitext\<close>.\<close>

definition output_path :: "path \<Rightarrow> string \<Rightarrow> path" where
  "output_path sql_dir f = path_join sql_dir (fst (py_splitext f) @ ''.sql'')"

text \<open>
  One file: read it (\<open>FileNotFoundError\<close>), \<^verbatim>\<open>read_data\<close>, the two generators, then
  open the output for writing (\<open>FileNotFoundError\<close> when its directory is missing) and
  write all lines.  The result is the file's name on success and the exception otherwise;
  the log keeps what was logged up to the exception.
\<close>

definition parse_text_file ::
  "nat \<Rightarrow> string \<Rightarrow> path \<Rightarrow> path \<Rightarrow> string \<Rightarrow> world \<Rightarrow> world \<times> (py_error + string)" where
  "parse_text_file now resource_name txt_dir sql_dir f w =
     (let input_file = path_join txt_dir f in
      case read_file (files w) input_file of
        Inl e \<Rightarrow> (w, Inl e)
      | Inr text \<Rightarrow>
          (let (l, r) = read_data now text; w1 = w\<lparr>log := log w @ l\<rparr> in
           case r of
             Inl e \<Rightarrow> (w1, Inl e)
           | Inr (dict_renewable, dict_total) \<Rightarrow>
               (let (renewable_sql, l1) = gen_renewable_sql dict_renewable;
                    (total_sql, l2) = gen_total_sql dict_total;
                    w2 = w1\<lparr>log := log w1 @ l1 @ l2\<rparr>
                in case write_file (dirs w2) (files w2) (output_path sql_dir f)
                          (sql_file_text renewable_sql total_sql) of
                     Inl e \<Rightarrow> (w2, Inl e)
                   | Inr st \<Rightarrow> (w2\<lparr>files := st\<rparr>, Inr f))))"

section \<open>parse_text_files\<close>

text \<open>
  The generator: each file in turn; a success yields its name, an exception is logged with
  the input path and the loop goes on.
\<close>

fun parse_text_files ::
  "nat \<Rightarrow> string \<Rightarrow> string list \<Rightarrow> path \<Rightarrow> path \<Rightarrow> world \<Rightarrow> world \<times> string list" where
  "parse_text_files now resource_name [] txt_dir sql_dir w = (w, [])"
| "parse_text_files now resource_name (f # fs) txt_dir sql_dir w =
     (case parse_text_file now resource_name txt_dir sql_dir f w of
        (w', Inr g) \<Rightarrow>
          (let (w'', gs) = parse_text_files now resource_name fs txt_dir sql_dir w' in (w'', g # gs))
      | (w', Inl e) \<Rightarrow>
          parse_text_files now resource_name fs txt_dir sql_dir
            (w'\<lparr>log := log w' @ [FileFailed (path_join txt_dir f) e]\<rparr>))"

section \<open>run\<close>

text \<open>
  \<^verbatim>\<open>run(logger, manifest, config)\<close>: \<^verbatim>\<open>manifest['name']\<close> and \<^verbatim>\<open>manifest['url']\<close>
  raise \<open>KeyError\<close> when missing; the new files are parsed and the names yielded are
  appended to the state file.
\<close>

definition report_ending :: string where
  "report_ending = ''DailyRenewablesWatch.txt''"

definition run :: "nat \<Rightarrow> (string \<times> string) list \<Rightarrow> config \<Rightarrow> world \<Rightarrow> py_error + world" where
  "run now manifest cfg w =
     (case (map_of manifest ''name'', map_of manifest ''url'') of
       (Some resource_name, Some resource_url) \<Rightarrow>
         (let txt_dir = source_dir cfg; sql_dir = working_dir cfg; sf = state_file cfg;
              new = new_files resource_name sf txt_dir report_ending w;
              (w', done) = parse_text_files now resource_name new txt_dir sql_dir w
          in Inr (state_update done sf w'))
     | _ \<Rightarrow> Inl KeyError)"

section \<open>Reference definitions\<close>

text \<open>
  What one report yields, as \<^verbatim>\<open>parse_text_file\<close> composes the parser and the two
  generators: the log of the parse and either the exception or the text of the
  \<^verbatim>\<open>.sql\<close> file.  \<open>report_output\<close> and \<open>report_log\<close> read the input from a store, and
  \<open>file_ok\<close> says that a file goes through: its report parses and the directory of its
  output exists.
\<close>

definition report_sql :: "nat \<Rightarrow> string \<Rightarrow> log_event list \<times> (py_error + string)" where
  "report_sql now text =
     (case read_data now text of
       (l, Inl e) \<Rightarrow> (l, Inl e)
     | (l, Inr (dict_renewable, dict_total)) \<Rightarrow>
         (l @ snd (gen_renewable_sql dict_renewable) @ snd (gen_total_sql dict_total),
          Inr (sql_file_text (fst (gen_renewable_sql dict_renewable))
                 (fst (gen_total_sql dict_total)))))"

definition report_output :: "nat \<Rightarrow> path \<Rightarrow> string \<Rightarrow> store \<Rightarrow> py_error + string" where
  "report_output now txt_dir f st =
     (case read_file st (path_join txt_dir f) of
       Inl e \<Rightarrow> Inl e
     | Inr text \<Rightarrow> snd (report_sql now text))"

definition report_log :: "nat \<Rightarrow> path \<Rightarrow> string \<Rightarrow> store \<Rightarrow> log_event list" where
  "report_log now txt_dir f st =
     (case read_file st (path_join txt_dir f) of
       Inl e \<Rightarrow> []
     | Inr text \<Rightarrow> fst (report_sql now text))"

definition file_ok :: "nat \<Rightarrow> path \<Rightarrow> path \<Rightarrow> string \<Rightarrow> world \<Rightarrow> bool" where
  "file_ok now txt_dir sql_dir f w \<longleftrightarrow>
     \<not> isl (report_output now txt_dir f (files w)) \<and>
     py_dirname (output_path sql_dir f) \<in> set (dirs w)"

text \<open>
  The world after one turn of the loop of \<^verbatim>\<open>parse_text_files\<close>: the world
  \<^verbatim>\<open>parse_text_file\<close> leaves, with the failure logged when there was one.
\<close>

definition turn_world :: "nat \<Rightarrow> string \<Rightarrow> path \<Rightarrow> path \<Rightarrow> string \<Rightarrow> world \<Rightarrow> world" where
  "turn_world now resource_name txt_dir sql_dir f w =
     (case parse_text_file now resource_name txt_dir sql_dir f w of
       (w', Inr _) \<Rightarrow> w'
     | (w', Inl e) \<Rightarrow> w'\<lparr>log := log w' @ [FileFailed (path_join txt_dir f) e]\<rparr>)"

section \<open>A sample run\<close>

text \<open>
  A working directory \<^verbatim>\<open>/data\<close> with the two directories of \<^verbatim>\<open>config()\<close>, an empty
  state file, and two reports: the sample report of theory Samples (lines of
  \<^verbatim>\<open>EXAMPLE\<close>) and a truncated one whose text is only the marker \<^verbatim>\<open>Hourly\<close>.
  \<open>sample_sql\<close> is the text the code writes for the first; it is checked against the
  model below, not assumed.
\<close>

definition sample_world :: world where
  "sample_world =
     \<lparr>files = [(''/data/txt/20191030_DailyRenewablesWatch.txt'', sample_report),
               (''/data/txt/20191031_DailyRenewablesWatch.txt'', ''Hourly'')],
      dirs = [''/data/txt'', ''/data/sql''], ledgers = (\<lambda>_. []), log = []\<rparr>"

definition sample_manifest :: "(string \<times> string) list" where
  "sample_manifest =
     [(''name'', ''data-oasis-daily-renewables-output''), (''url'', ''http://oasis.caiso.com'')]"

definition sample_sql :: string where
  \<open>sample_sql =
     renewable_ddl @ ''\<newline>'' @
       ''INSERT INTO renewable (date, hour, geothermal, biomass, biogas, small_hydro, wind_total, solar_pv, solar_thermal) VALUES ("2019-10-30 00:00:00", 9, 264, 267, 212, 170, 1182, 3999, 93);\<newline>'' @
       ''INSERT INTO renewable (date, hour, geothermal, biomass, biogas, small_hydro, wind_total, solar_pv, solar_thermal) VALUES ("2019-10-30 00:00:00", 10, 264, 258, 215, 154, 1131, 7296, 344);\<newline>'' @
       total_ddl @ ''\<newline>'' @
       ''INSERT INTO total (date, hour, renewables, nuclear, thermal, imports, hydro) VALUES ("2019-10-30 00:00:00", 1, 2730, 1129, 9802, 5064, 2074);\<newline>''\<close>

section \<open>Facts\<close>

subsection \<open>One file\<close>

lemma parse_text_file_eq:
  "parse_text_file now resource_name txt_dir sql_dir f w =
     (let w1 = w\<lparr>log := log w @ report_log now txt_dir f (files w)\<rparr> in
      case report_output now txt_dir f (files w) of
        Inl e \<Rightarrow> (w1, Inl e)
      | Inr out \<Rightarrow>
          (case write_file (dirs w) (files w) (output_path sql_dir f) out of
            Inl e \<Rightarrow> (w1, Inl e)
          | Inr st \<Rightarrow> (w1\<lparr>files := st\<rparr>, Inr f)))"
  by (simp add: parse_text_file_def report_output_def report_log_def report_sql_def Let_def
        split_def split: sum.split prod.split)

lemma parse_text_file_result:
  "snd (parse_text_file now resource_name txt_dir sql_dir f w) = Inr g \<longleftrightarrow>
     g = f \<and> file_ok now txt_dir sql_dir f w"
  by (auto simp: parse_text_file_eq file_ok_def write_file_def Let_def
        split: sum.splits if_splits)

lemma parse_text_file_frame:
  "dirs (fst (parse_text_file now resource_name txt_dir sql_dir f w)) = dirs w"
  "ledgers (fst (parse_text_file now resource_name txt_dir sql_dir f w)) = ledgers w"
  by (simp_all add: parse_text_file_eq Let_def split: sum.split)

lemma parse_text_file_files:
  "files (fst (parse_text_file now resource_name txt_dir sql_dir f w)) =
     (if file_ok now txt_dir sql_dir f w
      then AList.update (output_path sql_dir f) (projr (report_output now txt_dir f (files w))) (files w)
      else files w)"
  by (auto simp: parse_text_file_eq file_ok_def write_file_def Let_def
        split: sum.splits if_splits)

lemma parse_text_file_keys:
  "fst ` set (files (fst (parse_text_file now resource_name txt_dir sql_dir f w))) =
     (if file_ok now txt_dir sql_dir f w then insert (output_path sql_dir f) (fst ` set (files w))
      else fst ` set (files w))"
  by (simp add: parse_text_file_files dom_update)

lemma input_ne_output:
  "suffix ''.txt'' f \<Longrightarrow> path_join txt_dir f \<noteq> output_path sql_dir g"
proof
  assume f: "suffix ''.txt'' f" and eq: "path_join txt_dir f = output_path sql_dir g"
  have "suffix ''.txt'' (path_join txt_dir f)"
    using f suffix_path_join [of f txt_dir] by (auto simp: suffix_def)
  moreover have "suffix ''.sql'' (path_join txt_dir f)"
    using suffix_path_join [of "fst (py_splitext g) @ ''.sql''" sql_dir] eq
    by (auto simp: output_path_def suffix_def)
  ultimately show False using suffix_same_length [of "''.txt''" _ "''.sql''"] by simp
qed

lemma report_output_update:
  "p \<noteq> path_join txt_dir f \<Longrightarrow>
   report_output now txt_dir f (AList.update p s st) = report_output now txt_dir f st"
  by (simp add: report_output_def read_file_def update_conv')

lemma file_ok_step:
  assumes "suffix ''.txt'' f"
  shows "file_ok now txt_dir sql_dir f (fst (parse_text_file now resource_name txt_dir sql_dir g w))
     \<longleftrightarrow> file_ok now txt_dir sql_dir f w"
  using assms input_ne_output [OF assms, of txt_dir sql_dir g]
  by (simp add: file_ok_def parse_text_file_files parse_text_file_frame report_output_update)

lemma report_output_step:
  assumes "suffix ''.txt'' f"
  shows "report_output now txt_dir f (files (fst (parse_text_file now resource_name txt_dir sql_dir g w)))
     = report_output now txt_dir f (files w)"
  using input_ne_output [OF assms, of txt_dir sql_dir g]
  by (simp add: parse_text_file_files report_output_update)

subsection \<open>The generator over the new files\<close>

lemma parse_text_files_Cons:
  "parse_text_files now resource_name (f # fs) txt_dir sql_dir w =
     (let (w', gs) = parse_text_files now resource_name fs txt_dir sql_dir
                       (turn_world now resource_name txt_dir sql_dir f w)
      in (w', if file_ok now txt_dir sql_dir f w then f # gs else gs))"
proof (cases "parse_text_file now resource_name txt_dir sql_dir f w")
  case (Pair w1 r)
  then show ?thesis
    using parse_text_file_result [of now resource_name txt_dir sql_dir f w]
    by (cases r) (auto simp: turn_world_def split: prod.split)
qed

declare parse_text_files.simps(2) [simp del]

lemma turn_world_eq:
  "turn_world now resource_name txt_dir sql_dir f w =
     (let r = parse_text_file now resource_name txt_dir sql_dir f w in
      case snd r of
        Inr _ \<Rightarrow> fst r
      | Inl e \<Rightarrow> (fst r)\<lparr>log := log (fst r) @ [FileFailed (path_join txt_dir f) e]\<rparr>)"
  by (cases "parse_text_file now resource_name txt_dir sql_dir f w") (simp add: turn_world_def Let_def split: sum.split)

lemma turn_world_simps [simp]:
  "dirs (turn_world now resource_name txt_dir sql_dir f w) = dirs w"
  "ledgers (turn_world now resource_name txt_dir sql_dir f w) = ledgers w"
  "files (turn_world now resource_name txt_dir sql_dir f w) =
     files (fst (parse_text_file now resource_name txt_dir sql_dir f w))"
  by (simp_all add: turn_world_eq Let_def parse_text_file_frame split: sum.split)

lemma parse_text_files_frame:
  "dirs (fst (parse_text_files now resource_name fs txt_dir sql_dir w)) = dirs w \<and>
   ledgers (fst (parse_text_files now resource_name fs txt_dir sql_dir w)) = ledgers w"
  by (induction fs arbitrary: w) (simp_all add: parse_text_files_Cons split_def Let_def)

lemma parse_text_files_store_frame:
  "p \<notin> output_path sql_dir ` set fs \<Longrightarrow>
   map_of (files (fst (parse_text_files now resource_name fs txt_dir sql_dir w))) p = map_of (files w) p"
proof (induction fs arbitrary: w)
  case Nil then show ?case by simp
next
  case (Cons f fs)
  then have "map_of (files (turn_world now resource_name txt_dir sql_dir f w)) p = map_of (files w) p"
    by (simp add: parse_text_file_files update_conv')
  with Cons show ?case by (simp add: parse_text_files_Cons split_def Let_def)
qed

lemma parse_text_files_keys:
  "fst ` set (files w) \<subseteq> fst ` set (files (fst (parse_text_files now resource_name fs txt_dir sql_dir w)))"
proof (induction fs arbitrary: w)
  case Nil then show ?case by simp
next
  case (Cons f fs)
  have "fst ` set (files w) \<subseteq> fst ` set (files (turn_world now resource_name txt_dir sql_dir f w))"
    by (auto simp: parse_text_file_keys)
  with Cons.IH [of "turn_world now resource_name txt_dir sql_dir f w"] show ?case
    by (simp add: parse_text_files_Cons split_def Let_def)
qed

text \<open>The names the generator yields are those of the files that go through, judged in the
  world before the loop: the loop writes only \<^verbatim>\<open>.sql\<close> files, and reads only \<^verbatim>\<open>.txt\<close> ones.\<close>

lemma parse_text_files_yield:
  "\<forall>f\<in>set fs. suffix ''.txt'' f \<Longrightarrow>
   snd (parse_text_files now resource_name fs txt_dir sql_dir w) =
     filter (\<lambda>f. file_ok now txt_dir sql_dir f w) fs"
proof (induction fs arbitrary: w)
  case Nil then show ?case by simp
next
  case (Cons f fs)
  have "filter (\<lambda>g. file_ok now txt_dir sql_dir g (turn_world now resource_name txt_dir sql_dir f w)) fs =
        filter (\<lambda>g. file_ok now txt_dir sql_dir g w) fs"
    using Cons.prems by (intro filter_cong) (simp_all add: file_ok_def report_output_step)
  with Cons show ?case by (simp add: parse_text_files_Cons split_def Let_def)
qed

lemma parse_text_files_output:
  assumes "\<forall>f\<in>set fs. suffix ''.txt'' f" and "distinct (map (output_path sql_dir) fs)"
    and "f \<in> set fs" and "file_ok now txt_dir sql_dir f w"
  shows "map_of (files (fst (parse_text_files now resource_name fs txt_dir sql_dir w)))
           (output_path sql_dir f) = Some (projr (report_output now txt_dir f (files w)))"
  using assms
proof (induction fs arbitrary: w)
  case Nil then show ?case by simp
next
  case (Cons g fs)
  let ?w1 = "turn_world now resource_name txt_dir sql_dir g w"
  show ?case
  proof (cases "f = g")
    case True
    then have "output_path sql_dir f \<notin> output_path sql_dir ` set fs" using Cons.prems(2) by simp
    then show ?thesis
      using parse_text_files_store_frame [of "output_path sql_dir f" sql_dir fs now resource_name
          txt_dir ?w1] Cons.prems(4) True
      by (simp add: parse_text_files_Cons split_def Let_def parse_text_file_files update_conv')
  next
    case False
    have f: "suffix ''.txt'' f" using Cons.prems(1,3) by auto
    have "file_ok now txt_dir sql_dir f ?w1" using Cons.prems(4) f by (simp add: file_ok_def report_output_step)
    then have "map_of (files (fst (parse_text_files now resource_name fs txt_dir sql_dir ?w1)))
           (output_path sql_dir f) = Some (projr (report_output now txt_dir f (files ?w1)))"
      using Cons.IH [of ?w1] Cons.prems False by simp
    then show ?thesis using f by (simp add: parse_text_files_Cons split_def Let_def report_output_step)
  qed
qed

lemma suffix_output_path: "suffix ''.sql'' (output_path sql_dir f)"
  using suffix_path_join [of "fst (py_splitext f) @ ''.sql''" sql_dir]
  by (auto simp: output_path_def suffix_def)

lemma report_ending_not_sql:
  assumes "suffix report_ending x" and "suffix x p"
  shows "\<not> suffix ''.sql'' p"
proof
  assume sql: "suffix ''.sql'' p"
  have "suffix ''.txt'' x" using assms(1) by (auto simp: report_ending_def suffix_def)
  then have "suffix ''.txt'' p" using assms(2) by (auto simp: suffix_def)
  then show False using sql suffix_same_length [of "''.txt''" p "''.sql''"] by simp
qed

lemma listdir_update_sql:
  assumes "suffix ''.sql'' p"
  shows "filter (suffix report_ending) (listdir (AList.update p s st) d) =
         filter (suffix report_ending) (listdir st d)"
proof -
  have "\<not> (prefix (d @ ''/'') p \<and> CHR ''/'' \<notin> set (drop (Suc (length d)) p)
            \<and> suffix report_ending (drop (Suc (length d)) p))"
    using assms report_ending_not_sql [of "drop (Suc (length d)) p" p] suffix_drop by blast
  then show ?thesis by (auto simp: listdir_keys update_keys)
qed

lemma parse_text_files_listdir:
  "filter (suffix report_ending)
     (listdir (files (fst (parse_text_files now resource_name fs txt_dir sql_dir w))) d) =
   filter (suffix report_ending) (listdir (files w) d)"
proof (induction fs arbitrary: w)
  case Nil then show ?case by simp
next
  case (Cons f fs)
  have "filter (suffix report_ending) (listdir (files (turn_world now resource_name txt_dir sql_dir f w)) d) =
        filter (suffix report_ending) (listdir (files w) d)"
    by (simp add: parse_text_file_files listdir_update_sql suffix_output_path)
  with Cons.IH [of "turn_world now resource_name txt_dir sql_dir f w"] show ?case
    by (simp add: parse_text_files_Cons split_def Let_def)
qed

subsection \<open>run\<close>

lemma run_eq:
  "run now manifest cfg w =
     (if map_of manifest ''name'' = None \<or> map_of manifest ''url'' = None then Inl KeyError
      else
        (let new = new_files (the (map_of manifest ''name'')) (state_file cfg) (source_dir cfg)
                     report_ending w;
             w' = fst (parse_text_files now (the (map_of manifest ''name'')) new (source_dir cfg)
                     (working_dir cfg) w)
         in Inr (state_update (filter (\<lambda>f. file_ok now (source_dir cfg) (working_dir cfg) f w) new)
                  (state_file cfg) w')))"
proof -
  have ends: "\<And>r sf d. \<forall>f\<in>set (new_files r sf d report_ending w). suffix ''.txt'' f"
    by (auto simp: new_files_def report_ending_def suffix_def)
  show ?thesis
    using parse_text_files_yield [OF ends]
    by (simp add: run_def Let_def split_def split: option.split)
qed

lemma run_Inr:
  assumes "run now manifest cfg w = Inr w'"
  obtains resource_name where "map_of manifest ''name'' = Some resource_name"
    and "w' = state_update
               (filter (\<lambda>f. file_ok now (source_dir cfg) (working_dir cfg) f w)
                  (new_files resource_name (state_file cfg) (source_dir cfg) report_ending w))
               (state_file cfg)
               (fst (parse_text_files now resource_name
                  (new_files resource_name (state_file cfg) (source_dir cfg) report_ending w)
                  (source_dir cfg) (working_dir cfg) w))"
  using assms by (auto simp: run_eq Let_def split: if_splits)

text \<open>
  In this model \<^verbatim>\<open>run\<close> fails, with \<open>KeyError\<close>, exactly when the manifest lacks a
  \<^verbatim>\<open>name\<close> or a \<^verbatim>\<open>url\<close>, and then changes nothing.  The "only if" rests on the
  spec-modelled ledger calls, which cannot raise here: edl's \<^verbatim>\<open>state.update\<close> and
  \<^verbatim>\<open>state.new_files\<close> may raise on a missing directory, which the spec does not say.
\<close>

lemma run_error:
  "run now manifest cfg w = Inl e \<longleftrightarrow>
     e = KeyError \<and> (map_of manifest ''name'' = None \<or> map_of manifest ''url'' = None)"
  by (auto simp: run_eq Let_def)

text \<open>
  C2: after a run the state file holds what it held before followed by the new files that
  went through, in discovery order, and no other state file changes: the ledger only grows,
  and only by the files whose parse and write succeeded.
\<close>

theorem run_ledger:
  assumes "run now manifest cfg w = Inr w'"
  shows "ledgers w' (state_file cfg) =
           ledgers w (state_file cfg) @
           filter (\<lambda>f. file_ok now (source_dir cfg) (working_dir cfg) f w)
             (new_files (the (map_of manifest ''name'')) (state_file cfg) (source_dir cfg)
                report_ending w)
       \<and> (\<forall>sf. sf \<noteq> state_file cfg \<longrightarrow> ledgers w' sf = ledgers w sf)"
  using assms
  by (auto elim!: run_Inr simp: state_update_def parse_text_files_frame)

text \<open>
  C1: write-then-record: a file the run adds to the state file has been parsed, and the
  output file of its name holds exactly the SQL text its report yields (the new files
  having distinct output names).
\<close>

theorem run_write_then_record:
  assumes "run now manifest cfg w = Inr w'"
    and "distinct (map (output_path (working_dir cfg))
           (new_files (the (map_of manifest ''name'')) (state_file cfg) (source_dir cfg) report_ending w))"
    and "f \<in> set (ledgers w' (state_file cfg))" and "f \<notin> set (ledgers w (state_file cfg))"
  shows "\<exists>out. report_output now (source_dir cfg) f (files w) = Inr out
            \<and> map_of (files w') (output_path (working_dir cfg) f) = Some out"
proof -
  obtain rn where rn: "map_of manifest ''name'' = Some rn" and w': "w' = state_update
      (filter (\<lambda>f. file_ok now (source_dir cfg) (working_dir cfg) f w)
         (new_files rn (state_file cfg) (source_dir cfg) report_ending w))
      (state_file cfg)
      (fst (parse_text_files now rn (new_files rn (state_file cfg) (source_dir cfg) report_ending w)
         (source_dir cfg) (working_dir cfg) w))"
    using assms(1) by (rule run_Inr)
  let ?new = "new_files rn (state_file cfg) (source_dir cfg) report_ending w"
  have ok: "f \<in> set ?new" "file_ok now (source_dir cfg) (working_dir cfg) f w"
    using assms(3,4) w' by (auto simp: state_update_def parse_text_files_frame)
  have ends: "\<forall>f\<in>set ?new. suffix ''.txt'' f"
    by (auto simp: new_files_def report_ending_def suffix_def)
  show ?thesis
    using parse_text_files_output [OF ends _ ok] assms(2) ok(2) rn w'
    by (auto simp: state_update_def file_ok_def)
qed

text \<open>
  C3: at-least-once until success: the next run discovers exactly the new files of this run
  that failed, in the same order; the files that succeeded are not parsed again.
\<close>

theorem run_rediscovers_failed:
  assumes "run now manifest cfg w = Inr w'" and "map_of manifest ''name'' = Some rn"
  shows "new_files rn (state_file cfg) (source_dir cfg) report_ending w' =
           filter (\<lambda>f. \<not> file_ok now (source_dir cfg) (working_dir cfg) f w)
             (new_files rn (state_file cfg) (source_dir cfg) report_ending w)"
proof -
  let ?new = "new_files rn (state_file cfg) (source_dir cfg) report_ending w"
  let ?w1 = "fst (parse_text_files now rn ?new (source_dir cfg) (working_dir cfg) w)"
  have w': "w' = state_update (filter (\<lambda>f. file_ok now (source_dir cfg) (working_dir cfg) f w) ?new)
              (state_file cfg) ?w1"
    using assms by (auto elim!: run_Inr)
  have L: "filter (suffix report_ending) (listdir (files w') (source_dir cfg)) =
           filter (suffix report_ending) (listdir (files w) (source_dir cfg))"
    using parse_text_files_listdir w' by (simp add: state_update_def)
  have "new_files rn (state_file cfg) (source_dir cfg) report_ending w' =
        filter (\<lambda>f. f \<notin> set (ledgers w' (state_file cfg)))
          (filter (suffix report_ending) (listdir (files w) (source_dir cfg)))"
    by (simp add: new_files_def L [symmetric] conj_commute)
  also have "\<dots> = filter (\<lambda>f. \<not> file_ok now (source_dir cfg) (working_dir cfg) f w) ?new"
    using w' by (auto simp: new_files_def state_update_def parse_text_files_frame intro!: filter_cong)
  finally show ?thesis .
qed

text \<open>
  C20: parsing the same input file twice, with nothing changed in between, leaves the
  store as parsing it once does: the second pass writes the same bytes to the same file.
\<close>

theorem parse_text_file_idempotent:
  assumes "suffix ''.txt'' f"
  shows "files (fst (parse_text_file now rn txt_dir sql_dir f
                 (fst (parse_text_file now rn txt_dir sql_dir f w)))) =
         files (fst (parse_text_file now rn txt_dir sql_dir f w))"
  using assms
  by (simp add: parse_text_file_files [of now rn txt_dir sql_dir f "fst (parse_text_file now rn txt_dir sql_dir f w)"]
        file_ok_step report_output_step)
     (simp add: parse_text_file_files)

subsection \<open>The store stays well formed\<close>

lemma parse_text_file_wf:
  "wf_store (files w) \<Longrightarrow>
   wf_store (files (fst (parse_text_file now resource_name txt_dir sql_dir f w)))"
  by (simp add: parse_text_file_files wf_store_update)

lemma parse_text_files_wf:
  "wf_store (files w) \<Longrightarrow>
   wf_store (files (fst (parse_text_files now resource_name fs txt_dir sql_dir w)))"
proof (induction fs arbitrary: w)
  case Nil then show ?case by simp
next
  case (Cons f fs)
  then show ?case
    by (simp add: parse_text_files_Cons split_def Let_def parse_text_file_wf)
qed

lemma distinct_new_files:
  "wf_store (files w) \<Longrightarrow> distinct (new_files resource_name sf d ending w)"
  by (simp add: new_files_def distinct_listdir)

lemma new_files_fresh:
  "f \<in> set (new_files resource_name sf d ending w) \<Longrightarrow> f \<notin> set (ledgers w sf)"
  by (simp add: new_files_def)

text \<open>
  The file store stays well formed through a run: no path is listed twice, so every
  report is discovered at most once.
\<close>

lemma run_store_wf:
  "run now manifest cfg w = Inr w' \<Longrightarrow> wf_store (files w) \<Longrightarrow> wf_store (files w')"
  by (auto elim!: run_Inr simp: state_update_def parse_text_files_wf)

text \<open>
  C14: the ledger gets no duplicate: a run appends only names that were not in the state file
  and appends each at most once, so a state file without duplicates keeps none.
\<close>

theorem run_ledger_distinct:
  assumes "run now manifest cfg w = Inr w'" and "wf_store (files w)"
    and "distinct (ledgers w (state_file cfg))"
  shows "distinct (ledgers w' (state_file cfg))"
proof -
  obtain rn where w': "w' = state_update
      (filter (\<lambda>f. file_ok now (source_dir cfg) (working_dir cfg) f w)
         (new_files rn (state_file cfg) (source_dir cfg) report_ending w))
      (state_file cfg)
      (fst (parse_text_files now rn (new_files rn (state_file cfg) (source_dir cfg) report_ending w)
         (source_dir cfg) (working_dir cfg) w))"
    using assms(1) by (auto elim!: run_Inr)
  show ?thesis
    using w' assms(2,3) distinct_new_files [OF assms(2)] new_files_fresh
    by (auto simp: state_update_def parse_text_files_frame)
qed

subsection \<open>read_data\<close>

text \<open>
  C19: the two tables \<^verbatim>\<open>read_data\<close> returns are well formed, carry the same date, and that
  date is a valid calendar date.
\<close>

theorem read_data_tables:
  assumes "read_data now s = (l, Inr (t_renewable, t_total))"
  shows "wf_table t_renewable \<and> wf_table t_total \<and> tdate t_renewable = tdate t_total
         \<and> valid_date (tdate t_renewable)"
proof -
  obtain s_date s_renewable s_total d l1 l2 where
    c: "chunk s = [s_date, s_renewable, s_total]" and d: "extract_date now s_date = Inr d" and
    r: "extract_table d s_renewable = Inr (t_renewable, l1)" and
    t: "extract_table d s_total = Inr (t_total, l2)"
    using assms by (auto simp: read_data_def split: list.splits sum.splits prod.splits)
  show ?thesis
    using extract_table_wf_aux [OF r] extract_table_wf_aux [OF t] extract_date_valid [OF d] by simp
qed

subsection \<open>The lines of an output file\<close>

lemma concat_lines_py_join:
  "concat (map (\<lambda>l. l @ sep) ls) = py_join sep (ls @ [[]])"
  by (induction ls rule: induct_list012) simp_all

lemma py_split_lines:
  assumes "list_all sql_line ls"
  shows "py_split ''\<newline>'' (concat (map (\<lambda>l. l @ ''\<newline>'') ls)) = ls @ [[]]"
  unfolding concat_lines_py_join
  using assms by (intro py_split_py_join) (auto simp: list_all_iff sql_line_def)

text \<open>
  C11: the text \<^verbatim>\<open>parse_text_file\<close> writes for a report is the renewable and the total
  statements one per line, each line ending in a newline: split at newlines it is at most
  52 statements, each a single line ending in a semicolon, then the empty rest after the
  last newline.
\<close>

theorem report_sql_lines:
  assumes "snd (report_sql now text) = Inr out"
  shows "\<exists>stmts. py_split ''\<newline>'' out = stmts @ [[]] \<and> length stmts \<le> 52 \<and>
           list_all sql_line stmts"
proof -
  obtain l r t where rd: "read_data now text = (l, Inr (r, t))"
    using assms by (auto simp: report_sql_def split: prod.splits sum.splits)
  let ?stmts = "fst (gen_renewable_sql r) @ fst (gen_total_sql t)"
  have out: "out = concat (map (\<lambda>l. l @ ''\<newline>'') ?stmts)"
    using assms by (simp add: report_sql_def rd sql_file_text_def)
  have "length ?stmts \<le> 52 \<and> list_all sql_line ?stmts"
    using gen_renewable_sql_lines [of r] gen_total_sql_lines [of t] by simp
  then show ?thesis
    using py_split_lines [of ?stmts] by (auto simp: out)
qed

subsection \<open>The sample run\<close>

lemma sample_report_sql:
  "report_sql 2026 sample_report = ([RowDropped [], RowDropped [], RowDropped [], RowDropped []], Inr sample_sql)"
  by (simp add: report_sql_def sample_read_data sample_renewable_sql sample_total_sql
        sql_file_text_def sample_sql_def)

lemma sample_bad_report: "report_sql 2026 ''Hourly'' = ([], Inl ValueError)"
  by (simp add: report_sql_def read_data_def chunk_def pystr_simps)

lemma sample_config:
  "pars_config ''/data'' =
     \<lparr>source_dir = ''/data/txt'', working_dir = ''/data/sql'', state_file = ''/data/sql/state.txt''\<rparr>"
  by (simp add: pars_config_def path_join_def)

lemma sample_new_files:
  "new_files r ''/data/sql/state.txt'' ''/data/txt'' report_ending sample_world =
     [''20191030_DailyRenewablesWatch.txt'', ''20191031_DailyRenewablesWatch.txt'']"
  by (simp add: new_files_def listdir_def sample_world_def report_ending_def suffix_def)

lemma sample_outputs:
  "output_path ''/data/sql'' ''20191030_DailyRenewablesWatch.txt'' =
     ''/data/sql/20191030_DailyRenewablesWatch.sql''"
  "output_path ''/data/sql'' ''20191031_DailyRenewablesWatch.txt'' =
     ''/data/sql/20191031_DailyRenewablesWatch.sql''"
  by (simp_all add: output_path_def py_splitext_def rfind_def path_join_def upt_rec)

lemma sample_dirname:
  "py_dirname ''/data/sql/20191030_DailyRenewablesWatch.sql'' = ''/data/sql''"
  by (simp add: py_dirname_def rfind_def upt_rec)

lemma sample_ok:
  "file_ok 2026 ''/data/txt'' ''/data/sql'' ''20191030_DailyRenewablesWatch.txt'' sample_world"
  "\<not> file_ok 2026 ''/data/txt'' ''/data/sql'' ''20191031_DailyRenewablesWatch.txt'' sample_world"
  by (simp_all add: file_ok_def report_output_def read_file_def sample_world_def path_join_def
       sample_report_sql sample_bad_report sample_outputs sample_dirname)

lemma sample_parse:
  "parse_text_files 2026 r
     [''20191030_DailyRenewablesWatch.txt'', ''20191031_DailyRenewablesWatch.txt'']
     ''/data/txt'' ''/data/sql'' sample_world =
   (\<lparr>files = [(''/data/txt/20191030_DailyRenewablesWatch.txt'', sample_report),
               (''/data/txt/20191031_DailyRenewablesWatch.txt'', ''Hourly''),
               (''/data/sql/20191030_DailyRenewablesWatch.sql'', sample_sql)],
      dirs = [''/data/txt'', ''/data/sql''], ledgers = (\<lambda>_. []),
      log = [RowDropped [], RowDropped [], RowDropped [], RowDropped []] @
        [FileFailed ''/data/txt/20191031_DailyRenewablesWatch.txt'' ValueError]\<rparr>,
    [''20191030_DailyRenewablesWatch.txt''])"
  by (simp add: parse_text_files_Cons turn_world_eq parse_text_file_eq Let_def report_log_def
        report_output_def read_file_def sample_world_def path_join_def sample_report_sql
        sample_bad_report sample_outputs sample_dirname write_file_def file_ok_def)

text \<open>
  The run on the sample directory: the report built from \<^verbatim>\<open>EXAMPLE\<close> is
  converted, its SQL file holds the two \<^verbatim>\<open>CREATE TABLE\<close> statements and one
  \<^verbatim>\<open>INSERT\<close> per row, with the split-solar columns (its rows have 8 fields) and the
  date rendered as \<^verbatim>\<open>2019-10-30 00:00:00\<close>; the truncated report is logged with
  \<open>ValueError\<close>, and only the first file is recorded.
\<close>

lemma run_sample:
  "run 2026 sample_manifest (pars_config ''/data'') sample_world =
   Inr \<lparr>files = [(''/data/txt/20191030_DailyRenewablesWatch.txt'', sample_report),
               (''/data/txt/20191031_DailyRenewablesWatch.txt'', ''Hourly''),
               (''/data/sql/20191030_DailyRenewablesWatch.sql'', sample_sql)],
      dirs = [''/data/txt'', ''/data/sql''],
      ledgers = (\<lambda>_. [])(''/data/sql/state.txt'' := [''20191030_DailyRenewablesWatch.txt'']),
      log = [RowDropped [], RowDropped [], RowDropped [], RowDropped []] @
        [FileFailed ''/data/txt/20191031_DailyRenewablesWatch.txt'' ValueError]\<rparr>"
  by (simp add: run_eq sample_manifest_def sample_config sample_new_files sample_ok sample_parse
        state_update_def Let_def)

subsection \<open>The theorems at the sample run\<close>

lemma sample_run_Inr:
  "\<exists>w'. run 2026 sample_manifest (pars_config ''/data'') sample_world = Inr w'"
  by (simp add: run_eq sample_manifest_def Let_def)

lemma sample_cfg_fields:
  "source_dir (pars_config ''/data'') = ''/data/txt''"
  "working_dir (pars_config ''/data'') = ''/data/sql''"
  "state_file (pars_config ''/data'') = ''/data/sql/state.txt''"
  by (simp_all add: sample_config)

lemma sample_world_ledgers: "ledgers sample_world = (\<lambda>_. [])"
  by (simp add: sample_world_def)

lemma sample_name:
  "map_of sample_manifest ''name'' = Some ''data-oasis-daily-renewables-output''"
  by (simp add: sample_manifest_def)

theorem run_ledger_witness:
  "\<exists>w'. run 2026 sample_manifest (pars_config ''/data'') sample_world = Inr w'
     \<and> ledgers w' ''/data/sql/state.txt'' = [''20191030_DailyRenewablesWatch.txt'']"
proof -
  obtain w' where h: "run 2026 sample_manifest (pars_config ''/data'') sample_world = Inr w'"
    using sample_run_Inr by blast
  show ?thesis
    using run_ledger [OF h] h
    by (simp add: sample_cfg_fields sample_name sample_new_files sample_ok sample_world_ledgers)
qed

theorem run_write_then_record_witness:
  "\<exists>w' out. run 2026 sample_manifest (pars_config ''/data'') sample_world = Inr w'
     \<and> report_output 2026 ''/data/txt'' ''20191030_DailyRenewablesWatch.txt'' (files sample_world) = Inr out
     \<and> map_of (files w') ''/data/sql/20191030_DailyRenewablesWatch.sql'' = Some out"
proof -
  obtain w' where h: "run 2026 sample_manifest (pars_config ''/data'') sample_world = Inr w'"
    using sample_run_Inr by blast
  have "w' = fst (parse_text_files 2026 ''data-oasis-daily-renewables-output''
      [''20191030_DailyRenewablesWatch.txt'', ''20191031_DailyRenewablesWatch.txt'']
      ''/data/txt'' ''/data/sql'' sample_world)\<lparr>ledgers := (\<lambda>_. [])(''/data/sql/state.txt'' :=
      [''20191030_DailyRenewablesWatch.txt''])\<rparr>"
    using h by (simp add: run_eq sample_manifest_def sample_config sample_new_files sample_ok
        sample_parse state_update_def Let_def)
  then have l: "ledgers w' ''/data/sql/state.txt'' = [''20191030_DailyRenewablesWatch.txt'']"
    by simp
  show ?thesis
    using run_write_then_record [OF h, of "''20191030_DailyRenewablesWatch.txt''"] h l
    by (simp add: sample_cfg_fields sample_name sample_new_files sample_outputs sample_world_ledgers)
qed

theorem run_rediscovers_failed_witness:
  "\<exists>w'. run 2026 sample_manifest (pars_config ''/data'') sample_world = Inr w'
     \<and> new_files ''data-oasis-daily-renewables-output'' ''/data/sql/state.txt'' ''/data/txt''
         report_ending w' = [''20191031_DailyRenewablesWatch.txt'']"
proof -
  obtain w' where h: "run 2026 sample_manifest (pars_config ''/data'') sample_world = Inr w'"
    using sample_run_Inr by blast
  show ?thesis
    using run_rediscovers_failed [OF h sample_name] h
    by (simp add: sample_cfg_fields sample_new_files sample_ok)
qed

theorem parse_text_file_idempotent_witness:
  "suffix ''.txt'' ''20191030_DailyRenewablesWatch.txt'' \<and>
   files (fst (parse_text_file 2026 ''r'' ''/data/txt'' ''/data/sql'' ''20191030_DailyRenewablesWatch.txt''
     (fst (parse_text_file 2026 ''r'' ''/data/txt'' ''/data/sql'' ''20191030_DailyRenewablesWatch.txt''
        sample_world)))) =
   files (fst (parse_text_file 2026 ''r'' ''/data/txt'' ''/data/sql'' ''20191030_DailyRenewablesWatch.txt''
        sample_world))"
proof -
  have s: "suffix ''.txt'' ''20191030_DailyRenewablesWatch.txt''" by (simp add: suffix_def)
  show ?thesis using parse_text_file_idempotent [OF s] s by simp
qed

theorem read_data_tables_witness:
  "\<exists>l t_renewable t_total. read_data 2026 sample_report = (l, Inr (t_renewable, t_total))
     \<and> wf_table t_renewable \<and> wf_table t_total \<and> tdate t_renewable = tdate t_total
     \<and> valid_date (tdate t_renewable)"
proof -
  obtain l t1 t2 where h: "read_data 2026 sample_report = (l, Inr (t1, t2))"
    using sample_read_data by blast
  show ?thesis using read_data_tables [OF h] h by blast
qed

lemma sample_world_wf: "wf_store (files sample_world)"
  by (simp add: sample_world_def wf_store_def)

theorem run_store_wf_witness:
  "\<exists>w'. run 2026 sample_manifest (pars_config ''/data'') sample_world = Inr w'
     \<and> wf_store (files sample_world) \<and> wf_store (files w')"
proof -
  obtain w' where h: "run 2026 sample_manifest (pars_config ''/data'') sample_world = Inr w'"
    using sample_run_Inr by blast
  show ?thesis using run_store_wf [OF h sample_world_wf] h sample_world_wf by blast
qed

theorem run_ledger_distinct_witness:
  "\<exists>w'. run 2026 sample_manifest (pars_config ''/data'') sample_world = Inr w'
     \<and> wf_store (files sample_world) \<and> distinct (ledgers sample_world ''/data/sql/state.txt'')
     \<and> distinct (ledgers w' ''/data/sql/state.txt'')"
proof -
  obtain w' where h: "run 2026 sample_manifest (pars_config ''/data'') sample_world = Inr w'"
    using sample_run_Inr by blast
  have d: "distinct (ledgers sample_world (state_file (pars_config ''/data'')))"
    by (simp add: sample_world_ledgers)
  show ?thesis using run_ledger_distinct [OF h sample_world_wf d] h sample_world_wf d
    by (simp add: sample_cfg_fields)
qed

theorem report_sql_lines_witness:
  "snd (report_sql 2026 sample_report) = Inr sample_sql \<and>
   (\<exists>stmts. py_split ''\<newline>'' sample_sql = stmts @ [[]] \<and> length stmts \<le> 52 \<and>
      list_all sql_line stmts)"
  using report_sql_lines [of 2026 sample_report sample_sql] sample_report_sql by simp

end
