(* ===== verification/Runner.thy ===== *)
theory Runner
  imports Pipeline
begin

text \<open>
  The PipelineRunner of the spec as a state machine: one pass of \<^verbatim>\<open>run\<close> of
  src/src/30_pars.py goes through the phases Discover (ask the ledger for the new files),
  Process (one \<^verbatim>\<open>parse_text_file\<close> per file, in discovery order, collecting the names that
  succeed), Commit (\<^verbatim>\<open>state.update\<close> with the collected names) and Done.  The step relation
  \<open>pipe_step\<close> is the small-step reading of \<^verbatim>\<open>run\<close>; the theorems show that the
  functional model \<open>run\<close> is exactly the final state of the machine, and that in every
  state the machine reaches, a name in the state file that was not there at the start has
  its output file written.
\<close>

datatype phase = Discover | Process "string list" "string list" | Commit "string list" | Done

type_synonym pstate = "phase \<times> world"

inductive pipe_step :: "nat \<Rightarrow> string \<Rightarrow> config \<Rightarrow> pstate \<Rightarrow> pstate \<Rightarrow> bool"
  for now :: nat and resource_name :: string and cfg :: config where
  discover:
    "pipe_step now resource_name cfg (Discover, w)
       (Process (new_files resource_name (state_file cfg) (source_dir cfg) report_ending w) [], w)"
| process_ok:
    "parse_text_file now resource_name (source_dir cfg) (working_dir cfg) f w = (w', Inr g) \<Longrightarrow>
     pipe_step now resource_name cfg (Process (f # fs) oks, w) (Process fs (oks @ [g]), w')"
| process_fail:
    "parse_text_file now resource_name (source_dir cfg) (working_dir cfg) f w = (w', Inl e) \<Longrightarrow>
     pipe_step now resource_name cfg (Process (f # fs) oks, w)
       (Process fs oks, w'\<lparr>log := log w' @ [FileFailed (path_join (source_dir cfg) f) e]\<rparr>)"
| finish:
    "pipe_step now resource_name cfg (Process [] oks, w) (Commit oks, w)"
| commit:
    "pipe_step now resource_name cfg (Commit oks, w) (Done, state_update oks (state_file cfg) w)"

inductive steps :: "nat \<Rightarrow> string \<Rightarrow> config \<Rightarrow> pstate \<Rightarrow> pstate \<Rightarrow> bool"
  for now :: nat and resource_name :: string and cfg :: config where
  refl: "steps now resource_name cfg s s"
| step: "pipe_step now resource_name cfg s s' \<Longrightarrow> steps now resource_name cfg s' s'' \<Longrightarrow>
         steps now resource_name cfg s s''"

text \<open>
  The invariant of the pass started in world \<open>w0\<close>: until Commit the state file is
  untouched and every collected name has its output file; after Commit every name of the
  state file was there before or has its output file.
\<close>

definition written :: "config \<Rightarrow> world \<Rightarrow> string \<Rightarrow> bool" where
  "written cfg w g \<longleftrightarrow> output_path (working_dir cfg) g \<in> fst ` set (files w)"

definition pipe_inv :: "config \<Rightarrow> world \<Rightarrow> pstate \<Rightarrow> bool" where
  "pipe_inv cfg w0 s =
     (case s of
       (Discover, w) \<Rightarrow> ledgers w = ledgers w0
     | (Process fs oks, w) \<Rightarrow> ledgers w = ledgers w0 \<and> list_all (written cfg w) oks
     | (Commit oks, w) \<Rightarrow> ledgers w = ledgers w0 \<and> list_all (written cfg w) oks
     | (Done, w) \<Rightarrow>
         list_all (\<lambda>g. g \<in> set (ledgers w0 (state_file cfg)) \<or> written cfg w g)
           (ledgers w (state_file cfg)))"

section \<open>Facts\<close>

inductive_cases pipe_step_DoneE [elim!]: "pipe_step now resource_name cfg (Done, w) s"
inductive_cases pipe_step_DiscoverE [elim!]: "pipe_step now resource_name cfg (Discover, w) s"
inductive_cases pipe_step_CommitE [elim!]: "pipe_step now resource_name cfg (Commit oks, w) s"
inductive_cases pipe_step_ProcessE [elim]: "pipe_step now resource_name cfg (Process fs oks, w) s"

lemma steps_trans:
  "steps now rn cfg s s' \<Longrightarrow> steps now rn cfg s' s'' \<Longrightarrow> steps now rn cfg s s''"
  by (induction rule: steps.induct) (auto intro: steps.step)

lemma steps_one: "pipe_step now rn cfg s s' \<Longrightarrow> steps now rn cfg s s'"
  by (blast intro: steps.intros)

lemma pipe_step_deterministic:
  "pipe_step now rn cfg s s' \<Longrightarrow> pipe_step now rn cfg s s'' \<Longrightarrow> s'' = s'"
  by (induction rule: pipe_step.induct) (auto elim: pipe_step.cases)

text \<open>The Process phase runs \<^verbatim>\<open>parse_text_files\<close>.\<close>

lemma steps_process:
  "steps now rn cfg (Process fs oks, w)
     (Process [] (oks @ snd (parse_text_files now rn fs (source_dir cfg) (working_dir cfg) w)),
      fst (parse_text_files now rn fs (source_dir cfg) (working_dir cfg) w))"
proof (induction fs arbitrary: oks w)
  case Nil then show ?case by (simp add: steps.refl)
next
  case (Cons f fs)
  obtain w' r where P: "parse_text_file now rn (source_dir cfg) (working_dir cfg) f w = (w', r)"
    by (cases "parse_text_file now rn (source_dir cfg) (working_dir cfg) f w")
  show ?case
  proof (cases r)
    case (Inl e)
    then show ?thesis
      using P Cons.IH [of oks] steps.step [OF pipe_step.process_fail]
      by (simp add: parse_text_files.simps(2))
  next
    case (Inr g)
    then show ?thesis
      using P Cons.IH [of "oks @ [g]"] steps.step [OF pipe_step.process_ok]
      by (simp add: parse_text_files.simps(2) split_def Let_def)
  qed
qed

lemma steps_run:
  assumes "map_of manifest ''name'' = Some rn" and "run now manifest cfg w = Inr w'"
  shows "steps now rn cfg (Discover, w) (Done, w')"
proof -
  let ?new = "new_files rn (state_file cfg) (source_dir cfg) report_ending w"
  let ?r = "parse_text_files now rn ?new (source_dir cfg) (working_dir cfg) w"
  have w': "w' = state_update (snd ?r) (state_file cfg) (fst ?r)"
    using assms by (auto simp: run_def split_def Let_def split: option.splits)
  have "steps now rn cfg (Discover, w) (Process [] (snd ?r), fst ?r)"
    using steps.step [OF pipe_step.discover steps_process [of now rn cfg ?new "[]"]] by simp
  moreover have "steps now rn cfg (Process [] (snd ?r), fst ?r) (Done, w')"
    using w' steps.step [OF pipe_step.finish steps_one [OF pipe_step.commit]] by simp
  ultimately show ?thesis by (rule steps_trans)
qed

lemma steps_Done_unique:
  "steps now rn cfg s t \<Longrightarrow> t = (Done, w1) \<Longrightarrow> steps now rn cfg s (Done, w2) \<Longrightarrow> w1 = w2"
proof (induction arbitrary: rule: steps.induct)
  case (refl s)
  then show ?case by (auto elim: steps.cases)
next
  case (step s s' s'')
  from step.prems(2) show ?case
  proof (cases rule: steps.cases)
    case refl
    then show ?thesis using step.hyps(1) by auto
  next
    case (step s2)
    with \<open>pipe_step now rn cfg s s'\<close> have "s2 = s'" by (blast dest: pipe_step_deterministic)
    with step show ?thesis using \<open>s'' = (Done, w1) \<Longrightarrow> steps now rn cfg s' (Done, w2) \<Longrightarrow> w1 = w2\<close>
      \<open>s'' = (Done, w1)\<close> by blast
  qed
qed

lemma written_mono:
  "fst ` set (files w) \<subseteq> fst ` set (files w') \<Longrightarrow> written cfg w g \<Longrightarrow> written cfg w' g"
  by (auto simp: written_def)

lemma written_files: "files w' = files w \<Longrightarrow> written cfg w' = written cfg w"
  by (simp add: written_def fun_eq_iff)

lemma pipe_inv_process_ok:
  assumes "parse_text_file now rn (source_dir cfg) (working_dir cfg) f w = (w', Inr g)"
    and "pipe_inv cfg w0 (Process (f # fs) oks, w)"
  shows "pipe_inv cfg w0 (Process fs (oks @ [g]), w')"
proof -
  have "snd (parse_text_file now rn (source_dir cfg) (working_dir cfg) f w) = Inr g"
    using assms(1) by simp
  then have g: "g = f" "file_ok now (source_dir cfg) (working_dir cfg) f w"
    by (simp_all add: parse_text_file_result)
  have k: "fst ` set (files w') = insert (output_path (working_dir cfg) f) (fst ` set (files w))"
    using parse_text_file_keys [of now rn "source_dir cfg" "working_dir cfg" f w] assms(1) g(2)
    by simp
  have l: "ledgers w' = ledgers w"
    using parse_text_file_frame(2) [of now rn "source_dir cfg" "working_dir cfg" f w] assms(1)
    by simp
  have old: "list_all (written cfg w') oks"
    using assms(2) written_mono [of w w' cfg] k by (auto simp: pipe_inv_def list_all_iff)
  have new: "written cfg w' g" using k g(1) by (simp add: written_def)
  show ?thesis using assms(2) l old new by (simp add: pipe_inv_def)
qed

lemma pipe_inv_process_fail:
  assumes "parse_text_file now rn (source_dir cfg) (working_dir cfg) f w = (w', Inl e)"
    and "pipe_inv cfg w0 (Process (f # fs) oks, w)"
  shows "pipe_inv cfg w0
           (Process fs oks, w'\<lparr>log := log w' @ [FileFailed (path_join (source_dir cfg) f) e]\<rparr>)"
proof -
  have "snd (parse_text_file now rn (source_dir cfg) (working_dir cfg) f w) \<noteq> Inr f"
    using assms(1) by simp
  then have r: "\<not> file_ok now (source_dir cfg) (working_dir cfg) f w"
    by (simp add: parse_text_file_result)
  have "files (fst (parse_text_file now rn (source_dir cfg) (working_dir cfg) f w)) = files w"
    using r by (simp add: parse_text_file_files)
  moreover have "ledgers (fst (parse_text_file now rn (source_dir cfg) (working_dir cfg) f w)) = ledgers w"
    by (rule parse_text_file_frame(2))
  ultimately have f: "files w' = files w" and l: "ledgers w' = ledgers w" using assms(1) by simp_all
  have "written cfg (w'\<lparr>log := log w' @ [FileFailed (path_join (source_dir cfg) f) e]\<rparr>) = written cfg w"
    using f by (intro written_files) simp
  then show ?thesis using assms(2) l by (simp add: pipe_inv_def)
qed

lemma pipe_inv_commit:
  assumes "pipe_inv cfg w0 (Commit oks, w)"
  shows "pipe_inv cfg w0 (Done, state_update oks (state_file cfg) w)"
proof -
  have "files (state_update oks (state_file cfg) w) = files w" by (simp add: state_update_def)
  then have "written cfg (state_update oks (state_file cfg) w) = written cfg w" by (rule written_files)
  then show ?thesis using assms
    by (auto simp: pipe_inv_def state_update_def list_all_iff)
qed

lemma pipe_inv_step:
  "pipe_step now rn cfg s s' \<Longrightarrow> pipe_inv cfg w0 s \<Longrightarrow> pipe_inv cfg w0 s'"
proof (induction rule: pipe_step.induct)
  case (process_ok f w w' g fs oks)
  then show ?case by (rule pipe_inv_process_ok)
next
  case (process_fail f w w' e fs oks)
  then show ?case by (rule pipe_inv_process_fail)
next
  case (commit oks w)
  then show ?case by (rule pipe_inv_commit)
qed (simp_all add: pipe_inv_def)

lemma pipe_inv_steps:
  "steps now rn cfg s s' \<Longrightarrow> pipe_inv cfg w0 s \<Longrightarrow> pipe_inv cfg w0 s'"
  by (induction rule: steps.induct) (auto dest: pipe_inv_step)

lemma steps_reach_Done: "\<exists>w'. steps now rn cfg (Discover, w) (Done, w')"
proof -
  let ?new = "new_files rn (state_file cfg) (source_dir cfg) report_ending w"
  let ?r = "parse_text_files now rn ?new (source_dir cfg) (working_dir cfg) w"
  have "steps now rn cfg (Discover, w) (Process [] (snd ?r), fst ?r)"
    using steps.step [OF pipe_step.discover steps_process [of now rn cfg ?new "[]"]] by simp
  then have "steps now rn cfg (Discover, w) (Done, state_update (snd ?r) (state_file cfg) (fst ?r))"
    using steps_trans steps.step [OF pipe_step.finish steps_one [OF pipe_step.commit]] by blast
  then show ?thesis by blast
qed

text \<open>
  Refinement: for a manifest with a name and a url, \<^verbatim>\<open>run\<close> returns the world \<open>w'\<close>
  exactly when the state machine goes from Discover in the given world to Done in \<open>w'\<close>.
\<close>

lemma run_refines:
  assumes "map_of manifest ''name'' = Some rn" and "map_of manifest ''url'' \<noteq> None"
  shows "run now manifest cfg w = Inr w' \<longleftrightarrow> steps now rn cfg (Discover, w) (Done, w')"
proof
  assume "run now manifest cfg w = Inr w'"
  then show "steps now rn cfg (Discover, w) (Done, w')" using assms(1) by (rule steps_run [rotated])
next
  assume st: "steps now rn cfg (Discover, w) (Done, w')"
  obtain w'' where r: "run now manifest cfg w = Inr w''"
    using assms by (auto simp: run_eq Let_def)
  have "steps now rn cfg (Discover, w) (Done, w'')" using assms(1) r by (rule steps_run)
  then have "w'' = w'" using st steps_Done_unique by blast
  then show "run now manifest cfg w = Inr w'" using r by simp
qed

text \<open>
  Termination of the pass: from Discover the machine always reaches Done, whatever the
  files and whatever fails.
\<close>

lemma pipe_terminates: "\<exists>w'. steps now rn cfg (Discover, w) (Done, w')"
  by (rule steps_reach_Done)

text \<open>
  C6: write-before-record holds in every state of the pass, not only at its end: a name in
  the state file that was not there when the pass started has its output file written.
\<close>

theorem pipe_write_before_record:
  assumes "steps now rn cfg (Discover, w0) (p, w)"
    and "g \<in> set (ledgers w (state_file cfg))" and "g \<notin> set (ledgers w0 (state_file cfg))"
  shows "written cfg w g"
proof -
  have "pipe_inv cfg w0 (p, w)"
    using pipe_inv_steps [OF assms(1)] by (simp add: pipe_inv_def)
  then show ?thesis using assms(2,3) by (cases p) (auto simp: pipe_inv_def list_all_iff)
qed

subsection \<open>The theorems at the sample run\<close>

lemma sample_final:
  assumes "run 2026 sample_manifest (pars_config ''/data'') sample_world = Inr w'"
  shows "ledgers w' ''/data/sql/state.txt'' = [''20191030_DailyRenewablesWatch.txt'']"
proof -
  have "Inr w' = run 2026 sample_manifest (pars_config ''/data'') sample_world" using assms by simp
  also have "\<dots> = Inr (fst (parse_text_files 2026 ''data-oasis-daily-renewables-output''
      [''20191030_DailyRenewablesWatch.txt'', ''20191031_DailyRenewablesWatch.txt'']
      ''/data/txt'' ''/data/sql'' sample_world)\<lparr>ledgers := (\<lambda>_. [])(''/data/sql/state.txt'' :=
      [''20191030_DailyRenewablesWatch.txt''])\<rparr>)"
    by (simp add: run_eq sample_manifest_def sample_config sample_new_files sample_ok
        state_update_def Let_def parse_text_files_frame sample_world_ledgers)
  finally show ?thesis by simp
qed

theorem run_refines_witness:
  "map_of sample_manifest ''name'' = Some ''data-oasis-daily-renewables-output'' \<and>
   map_of sample_manifest ''url'' \<noteq> None \<and>
   (\<exists>w'. steps 2026 ''data-oasis-daily-renewables-output'' (pars_config ''/data'')
            (Discover, sample_world) (Done, w')
       \<and> ledgers w' ''/data/sql/state.txt'' = [''20191030_DailyRenewablesWatch.txt''])"
proof -
  have n: "map_of sample_manifest ''name'' = Some ''data-oasis-daily-renewables-output''"
    and u: "map_of sample_manifest ''url'' \<noteq> None" by (simp_all add: sample_manifest_def)
  obtain w' where h: "run 2026 sample_manifest (pars_config ''/data'') sample_world = Inr w'"
    using sample_run_Inr by blast
  show ?thesis using run_refines [OF n u, of 2026 "pars_config ''/data''" sample_world w'] h n u
      sample_final [OF h] by blast
qed

theorem pipe_write_before_record_witness:
  "\<exists>w'. steps 2026 ''data-oasis-daily-renewables-output'' (pars_config ''/data'')
          (Discover, sample_world) (Done, w')
     \<and> ''20191030_DailyRenewablesWatch.txt'' \<in> set (ledgers w' ''/data/sql/state.txt'')
     \<and> ''20191030_DailyRenewablesWatch.txt'' \<notin> set (ledgers sample_world ''/data/sql/state.txt'')
     \<and> written (pars_config ''/data'') w' ''20191030_DailyRenewablesWatch.txt''"
proof -
  obtain w' where h: "run 2026 sample_manifest (pars_config ''/data'') sample_world = Inr w'"
    using sample_run_Inr by blast
  have st: "steps 2026 ''data-oasis-daily-renewables-output'' (pars_config ''/data'')
      (Discover, sample_world) (Done, w')"
    using steps_run [OF sample_name h] .
  have l: "''20191030_DailyRenewablesWatch.txt'' \<in> set (ledgers w' (state_file (pars_config ''/data'')))"
    using sample_final [OF h] by (simp add: sample_cfg_fields)
  have l0: "''20191030_DailyRenewablesWatch.txt'' \<notin>
      set (ledgers sample_world (state_file (pars_config ''/data'')))"
    by (simp add: sample_world_ledgers)
  have w: "written (pars_config ''/data'') w' ''20191030_DailyRenewablesWatch.txt''"
    using pipe_write_before_record [OF st l l0] .
  show ?thesis using st w sample_final [OF h] by (auto simp: sample_world_ledgers)
qed

end
