(* ===== verification/Down.thy ===== *)
theory Down
  imports PyOs Dates
begin

text \<open>
  The download-and-archive step src/src/10_down.py.  \<^verbatim>\<open>run\<close> asks the edl library for the
  URLs of the days since the manifest's start date, lets \<^verbatim>\<open>web.download\<close> fetch the new
  ones into the working directory \<^verbatim>\<open>zip\<close>, creates the directory \<^verbatim>\<open>txt\<close>, and then, for
  every report \<^verbatim>\<open>glob\<close> finds in \<^verbatim>\<open>zip\<close>, makes it writable, copies it to \<^verbatim>\<open>txt\<close>
  unless it is there, zips it, makes the zip read-only and removes the original; a failure
  is logged and the loop goes on.  Finally the state file's permissions are reset and the
  downloaded URLs are appended to it.

  The world is a record: the file store of PyOs, the directories, the permission bits of
  each path (\<^verbatim>\<open>os.chmod\<close>, \<^verbatim>\<open>stat\<close> constants), the member names of each zip archive
  written, the state files and the log.  The bytes of an archive are not modelled, its
  member list is.  The URL generator and \<^verbatim>\<open>web.download\<close> belong to edl, outside the
  repository: the first is a parameter of \<open>down_run\<close>, the second is modelled from the
  spec over a parameter \<open>fetch\<close> that gives the file name and text of a URL.

  The facts: what each operation can create (only \<open>open_write\<close> files, only
  \<open>makedirs\<close> directories) and that none touches a ledger; the archive loop's loss of the
  report text and its leaving \<^verbatim>\<open>txt\<close> as it was; the crash at the final \<^verbatim>\<open>chmod\<close>
  when \<^verbatim>\<open>state.txt\<close> is missing; the store and ledger invariants of a run; the
  \<open>PermissionError\<close> of a second archive; the manifest's errors and its date round trip;
  and a whole run on a sample directory.
\<close>

unbundle bit_operations_syntax

section \<open>Data\<close>

datatype down_event = ArchiveFailed path py_error

record down_world =
  dfiles :: store
  ddirs :: "path list"
  modes :: "path \<Rightarrow> nat"
  zips :: "path \<rightharpoonup> path list"
  dledgers :: "path \<Rightarrow> string list"
  dlog :: "down_event list"

text \<open>The JSON values of \<^verbatim>\<open>manifest.json\<close>.\<close>

datatype json = JStr string | JNum int | JList "json list"

section \<open>Configuration\<close>

definition down_config :: "path \<Rightarrow> config" where
  "down_config cwd =
     \<lparr>source_dir = path_join cwd ''txt'', working_dir = path_join cwd ''zip'',
      state_file = path_join (path_join cwd ''zip'') ''state.txt''\<rparr>"

section \<open>Permission bits\<close>

definition S_IREAD :: nat where "S_IREAD = 256"
definition S_IWRITE :: nat where "S_IWRITE = 128"
definition S_IRGRP :: nat where "S_IRGRP = 32"
definition S_IWGRP :: nat where "S_IWGRP = 16"
definition S_IROTH :: nat where "S_IROTH = 4"
definition S_IWOTH :: nat where "S_IWOTH = 2"

text \<open>\<^verbatim>\<open>S_IWRITE|S_IWGRP|S_IWOTH|S_IREAD|S_IRGRP|S_IROTH\<close> and \<^verbatim>\<open>S_IREAD|S_IRGRP|S_IROTH\<close>.\<close>

definition mode_rw :: nat where
  "mode_rw = S_IWRITE OR S_IWGRP OR S_IWOTH OR S_IREAD OR S_IRGRP OR S_IROTH"

definition mode_ro :: nat where
  "mode_ro = S_IREAD OR S_IRGRP OR S_IROTH"

text \<open>A new file gets \<open>0o644\<close> (the default umask); the owner may write a path whose mode has
  \<^verbatim>\<open>S_IWRITE\<close>.\<close>

definition mode_new :: nat where
  "mode_new = S_IREAD OR S_IWRITE OR S_IRGRP OR S_IROTH"

definition writable :: "down_world \<Rightarrow> path \<Rightarrow> bool" where
  "writable w p \<longleftrightarrow> modes w p AND S_IWRITE \<noteq> 0"

section \<open>File operations\<close>

definition exists :: "down_world \<Rightarrow> path \<Rightarrow> bool" where
  "exists w p \<longleftrightarrow> p \<in> set (map fst (dfiles w)) \<or> p \<in> set (ddirs w)"

definition chmod :: "path \<Rightarrow> nat \<Rightarrow> down_world \<Rightarrow> py_error + down_world" where
  "chmod p m w = (if exists w p then Inr (w\<lparr>modes := (modes w)(p := m)\<rparr>) else Inl FileNotFoundError)"

definition makedirs :: "path \<Rightarrow> down_world \<Rightarrow> down_world" where
  "makedirs d w = w\<lparr>ddirs := d # ddirs w\<rparr>"

text \<open>Creating or truncating a file for writing: its directory must exist, and an existing
  file must be writable.\<close>

definition open_write :: "path \<Rightarrow> string \<Rightarrow> down_world \<Rightarrow> py_error + down_world" where
  "open_write p s w =
     (if py_dirname p \<notin> set (ddirs w) then Inl FileNotFoundError
      else if p \<in> set (map fst (dfiles w)) then
        (if writable w p then Inr (w\<lparr>dfiles := AList.update p s (dfiles w)\<rparr>) else Inl PermissionError)
      else Inr (w\<lparr>dfiles := AList.update p s (dfiles w), modes := (modes w)(p := mode_new)\<rparr>))"

definition copyfile :: "path \<Rightarrow> path \<Rightarrow> down_world \<Rightarrow> py_error + down_world" where
  "copyfile src dst w =
     (case map_of (dfiles w) src of
       None \<Rightarrow> Inl FileNotFoundError
     | Some s \<Rightarrow> open_write dst s w)"

text \<open>
  \<^verbatim>\<open>with zipfile.ZipFile(p, 'w') as myzip: myzip.write(p)\<close>: the archive is created, then
  the file \<open>p\<close> itself, which now exists, is added under its path without the leading
  slash.
\<close>

definition zip_arcname :: "path \<Rightarrow> path" where
  "zip_arcname p = dropWhile (\<lambda>c. c = CHR ''/'') p"

definition zip_self :: "path \<Rightarrow> down_world \<Rightarrow> py_error + down_world" where
  "zip_self p w =
     (case open_write p [] w of
       Inl e \<Rightarrow> Inl e
     | Inr w1 \<Rightarrow> Inr (w1\<lparr>zips := (zips w1)(p \<mapsto> [zip_arcname p])\<rparr>))"

definition remove :: "path \<Rightarrow> down_world \<Rightarrow> py_error + down_world" where
  "remove p w =
     (if p \<in> set (map fst (dfiles w)) then Inr (w\<lparr>dfiles := AList.delete p (dfiles w)\<rparr>)
      else Inl FileNotFoundError)"

text \<open>\<^verbatim>\<open>glob.glob(os.path.join(d, "*" + ending))\<close>: the paths, joined to \<open>d\<close>, of the
  names in \<open>d\<close> that end with \<open>ending\<close> and do not start with a dot.\<close>

definition glob_ending :: "path \<Rightarrow> string \<Rightarrow> down_world \<Rightarrow> path list" where
  "glob_ending d ending w =
     [path_join d n. n \<leftarrow> listdir (dfiles w) d, suffix ending n \<and> \<not> prefix ''.'' n]"

section \<open>The archive loop\<close>

text \<open>
  The body of \<^verbatim>\<open>for tf in data_files: try: ...\<close> (lines 119-142): each call may raise;
  the result is the world reached and the exception, if one was raised, so that what was
  done before it stays done.
\<close>

definition archive_step :: "path \<Rightarrow> path \<Rightarrow> path \<Rightarrow> down_world \<Rightarrow> down_world \<times> py_error option" where
  "archive_step download_dir txt_dir tf w =
     (case chmod (path_join download_dir tf) mode_rw w of
       Inl e \<Rightarrow> (w, Some e)
     | Inr w1 \<Rightarrow>
         (let fqtf = path_join download_dir tf; fqtf2 = path_join txt_dir tf;
              fqtfzip = path_join download_dir (tf @ ''.zip'')
          in case (if exists w1 fqtf2 then Inr w1 else copyfile fqtf fqtf2 w1) of
               Inl e \<Rightarrow> (w1, Some e)
             | Inr w2 \<Rightarrow>
                 (case zip_self fqtfzip w2 of
                   Inl e \<Rightarrow> (w2, Some e)
                 | Inr w3 \<Rightarrow>
                     (case chmod fqtfzip mode_ro w3 of
                       Inl e \<Rightarrow> (w3, Some e)
                     | Inr w4 \<Rightarrow>
                         (if exists w4 fqtf2 \<and> exists w4 fqtfzip then
                            (case remove fqtf w4 of Inl e \<Rightarrow> (w4, Some e) | Inr w5 \<Rightarrow> (w5, None))
                          else (w4, None))))))"

fun archive_files :: "path \<Rightarrow> path \<Rightarrow> path list \<Rightarrow> down_world \<Rightarrow> down_world" where
  "archive_files download_dir txt_dir [] w = w"
| "archive_files download_dir txt_dir (tf # tfs) w =
     (case archive_step download_dir txt_dir tf w of
       (w', None) \<Rightarrow> archive_files download_dir txt_dir tfs w'
     | (w', Some e) \<Rightarrow>
         archive_files download_dir txt_dir tfs (w'\<lparr>dlog := dlog w' @ [ArchiveFailed tf e]\<rparr>))"

section \<open>The edl collaborators\<close>

text \<open>
  \<^verbatim>\<open>web.download(logger, resource_name, delay, urls, state_file, download_dir, ending)\<close>,
  from the spec: each URL not yet in the state file whose fetch succeeds is written into the
  download directory under the name the fetch gives; the URLs written are returned in
  order.  A write that fails skips the URL.
\<close>

fun web_download ::
  "(string \<Rightarrow> (string \<times> string) option) \<Rightarrow> path \<Rightarrow> path \<Rightarrow> string list \<Rightarrow> down_world
     \<Rightarrow> down_world \<times> string list" where
  "web_download fetch sf download_dir [] w = (w, [])"
| "web_download fetch sf download_dir (u # us) w =
     (if u \<in> set (dledgers w sf) then web_download fetch sf download_dir us w
      else case fetch u of
        None \<Rightarrow> web_download fetch sf download_dir us w
      | Some (name, text) \<Rightarrow>
          (case open_write (path_join download_dir name) text w of
            Inl _ \<Rightarrow> web_download fetch sf download_dir us w
          | Inr w' \<Rightarrow> (let (w'', ds) = web_download fetch sf download_dir us w' in (w'', u # ds))))"

text \<open>\<^verbatim>\<open>state.update(items, state_file)\<close>: append the items.\<close>

definition down_state_update :: "string list \<Rightarrow> path \<Rightarrow> down_world \<Rightarrow> down_world" where
  "down_state_update items sf w = w\<lparr>dledgers := (dledgers w)(sf := dledgers w sf @ items)\<rparr>"

section \<open>run\<close>

text \<open>
  \<^verbatim>\<open>datetime.date(*manifest['start_date'])\<close>: only a list of three integers fits the
  three parameters (anything else is a \<open>TypeError\<close>); CPython's \<^verbatim>\<open>date\<close> reads each as a
  C \<^verbatim>\<open>int\<close>, so a value outside the 32-bit range raises \<open>OverflowError\<close> before the
  date is checked, and a date out of range raises \<open>ValueError\<close>.
\<close>

definition c_int :: "int \<Rightarrow> bool" where
  "c_int z \<longleftrightarrow> - (2 ^ 31) \<le> z \<and> z < 2 ^ 31"

definition start_date_of :: "json \<Rightarrow> py_error + py_date" where
  "start_date_of j =
     (case j of
       JList [JNum y, JNum m, JNum d] \<Rightarrow>
         (if \<not> (c_int y \<and> c_int m \<and> c_int d) then Inl OverflowError
          else if 0 \<le> y \<and> 0 \<le> m \<and> 0 \<le> d \<and>
             valid_date \<lparr>year = nat y, month = nat m, day = nat d\<rparr>
          then Inr \<lparr>year = nat y, month = nat m, day = nat d\<rparr> else Inl ValueError)
     | _ \<Rightarrow> Inl TypeError)"

definition report_glob :: string where
  "report_glob = ''DailyRenewablesWatch.txt''"

text \<open>
  \<^verbatim>\<open>run(logger, manifest, config)\<close> with \<open>urls_for\<close> the URLs edl generates for the days
  from a start date to today.  The result is the world reached and the exception that ended
  the run, if any.
\<close>

definition down_run ::
  "(py_date \<Rightarrow> json \<Rightarrow> string list) \<Rightarrow> (string \<Rightarrow> (string \<times> string) option) \<Rightarrow>
     (string \<times> json) list \<Rightarrow> config \<Rightarrow> down_world \<Rightarrow> down_world \<times> py_error option" where
  "down_run urls_for fetch manifest cfg w =
     (case map_of manifest ''start_date'' of
       None \<Rightarrow> (w, Some KeyError)
     | Some sd \<Rightarrow>
         (case start_date_of sd of
           Inl e \<Rightarrow> (w, Some e)
         | Inr start_date \<Rightarrow>
             (case (map_of manifest ''name'', map_of manifest ''url'',
                    map_of manifest ''download_delay_secs'') of
               (Some _, Some resource_url, Some _) \<Rightarrow>
                 (let download_dir = working_dir cfg; txt_dir = source_dir cfg;
                      sf = state_file cfg;
                      urls = urls_for start_date resource_url;
                      (w1, downloaded_txt_urls) = web_download fetch sf download_dir urls w;
                      w2 = (if exists w1 txt_dir then w1 else makedirs txt_dir w1);
                      data_files = glob_ending download_dir report_glob w2;
                      w3 = archive_files download_dir txt_dir data_files w2
                  in case chmod (path_join download_dir ''state.txt'') mode_rw w3 of
                       Inl e \<Rightarrow> (w3, Some e)
                     | Inr w4 \<Rightarrow> (down_state_update downloaded_txt_urls sf w4, None))
             | _ \<Rightarrow> (w, Some KeyError))))"

section \<open>A sample run\<close>

text \<open>
  A working directory \<^verbatim>\<open>/data\<close> with its \<^verbatim>\<open>zip\<close> directory and an empty state file;
  the edl generator yields one URL, whose fetch gives the report of 30 October 2019.
  \<open>sample_zip_world\<close> is the world just after the download.
\<close>

definition sample_url :: string where
  "sample_url = ''http://oasis.caiso.com/20191030_DailyRenewablesWatch.txt''"

definition sample_fetch :: "string \<Rightarrow> (string \<times> string) option" where
  "sample_fetch u = (if u = sample_url then Some (''20191030_DailyRenewablesWatch.txt'', ''report'') else None)"

definition sample_down_manifest :: "(string \<times> json) list" where
  "sample_down_manifest =
     [(''start_date'', JList [JNum 2019, JNum 10, JNum 30]),
      (''name'', JStr ''data-oasis-daily-renewables-output''), (''url'', JStr ''http://oasis.caiso.com''),
      (''download_delay_secs'', JNum 5)]"

definition sample_down_world :: down_world where
  "sample_down_world =
     \<lparr>dfiles = [(''/data/zip/state.txt'', [])], ddirs = [''/data'', ''/data/zip''],
      modes = (\<lambda>_. mode_new), zips = Map.empty, dledgers = (\<lambda>_. []), dlog = []\<rparr>"

definition sample_zip_world :: down_world where
  "sample_zip_world =
     \<lparr>dfiles = [(''/data/zip/state.txt'', []), (''/data/zip/20191030_DailyRenewablesWatch.txt'', ''report'')],
      ddirs = [''/data/txt'', ''/data'', ''/data/zip''],
      modes = (\<lambda>_. mode_new), zips = Map.empty, dledgers = (\<lambda>_. []), dlog = []\<rparr>"

section \<open>Facts\<close>

subsection \<open>Paths glob returns\<close>

lemma path_join_abs: "prefix ''/'' b \<Longrightarrow> path_join a b = b"
  by (simp add: path_join_def)

lemma prefix_slash_append: "prefix ''/'' tf \<Longrightarrow> prefix ''/'' (tf @ x)"
  by (auto simp: prefix_def)

lemma glob_ending_abs:
  "prefix ''/'' d \<Longrightarrow> tf \<in> set (glob_ending d ending w) \<Longrightarrow> prefix ''/'' tf"
  by (auto simp: glob_ending_def path_join_def prefix_def)

subsection \<open>The operations\<close>

lemma exists_modes [simp]: "exists (w\<lparr>modes := m\<rparr>) p = exists w p"
  by (simp add: exists_def)

lemma zip_self_Inr:
  assumes "zip_self p w = Inr w'"
  shows "dfiles w' = AList.update p [] (dfiles w)" and "ddirs w' = ddirs w"
    and "zips w' = (zips w)(p \<mapsto> [zip_arcname p])" and "dledgers w' = dledgers w"
    and "dlog w' = dlog w"
  using assms by (auto simp: zip_self_def open_write_def split: sum.splits if_splits)

lemma exists_zip_self:
  "zip_self p w = Inr w' \<Longrightarrow> exists w' q \<longleftrightarrow> q = p \<or> exists w q"
  using zip_self_Inr(1,2) [of p w w'] by (auto simp: exists_def update_keys)

text \<open>For an absolute path \<open>tf\<close>, as \<^verbatim>\<open>glob\<close> returns for an absolute download directory,
  both joins give \<open>tf\<close> back: the copy is skipped, since \<open>tf\<close> exists, and the file is then
  removed.\<close>

lemma archive_step_abs:
  assumes "prefix ''/'' tf"
  shows "archive_step download_dir txt_dir tf w =
     (if \<not> exists w tf then (w, Some FileNotFoundError)
      else
        (let w1 = w\<lparr>modes := (modes w)(tf := mode_rw)\<rparr> in
         case zip_self (tf @ ''.zip'') w1 of
           Inl e \<Rightarrow> (w1, Some e)
         | Inr w3 \<Rightarrow>
             (let w4 = w3\<lparr>modes := (modes w3)(tf @ ''.zip'' := mode_ro)\<rparr> in
              case remove tf w4 of Inl e \<Rightarrow> (w4, Some e) | Inr w5 \<Rightarrow> (w5, None))))"
proof -
  have j: "path_join download_dir tf = tf" "path_join txt_dir tf = tf"
      "path_join download_dir (tf @ ''.zip'') = tf @ ''.zip''"
    using assms prefix_slash_append [OF assms] by (simp_all add: path_join_abs)
  show ?thesis
    by (auto simp: archive_step_def j chmod_def Let_def exists_zip_self split: sum.split)
qed

subsection \<open>What one turn does to the store\<close>

lemma archive_step_files_abs:
  assumes "prefix ''/'' tf" and "p \<noteq> tf" and "p \<noteq> tf @ ''.zip''"
  shows "map_of (dfiles (fst (archive_step download_dir txt_dir tf w))) p = map_of (dfiles w) p"
  using assms
  by (auto simp: archive_step_abs remove_def Let_def update_conv' zip_self_Inr(1)
        split: sum.split if_splits)

lemma archive_step_keys_abs:
  assumes "prefix ''/'' tf"
  shows "map fst (dfiles (fst (archive_step download_dir txt_dir tf w))) \<in>
     {map fst (dfiles w), map fst (dfiles (w)) @ [tf @ ''.zip''],
      removeAll tf (map fst (dfiles w)), removeAll tf (map fst (dfiles w) @ [tf @ ''.zip''])}"
  using assms
  by (auto simp: archive_step_abs remove_def Let_def zip_self_Inr(1) update_keys delete_keys
        split: sum.split if_splits)

lemma zip_arcname_append: "zip_arcname (tf @ ''.zip'') = zip_arcname tf @ ''.zip''"
  unfolding zip_arcname_def by (induction tf) auto

lemma zip_arcname_ne: "zip_arcname (tf @ ''.zip'') \<noteq> zip_arcname tf"
  unfolding zip_arcname_append by simp

text \<open>
  C5: one turn of the archive loop on an absolute path \<open>tf\<close> (what \<^verbatim>\<open>glob\<close> returns
  when the download directory is absolute, as \<^verbatim>\<open>config()\<close> makes it): it succeeds, the
  report is removed, the only file added is \<open>tf.zip\<close>, whose one member is the archive
  itself and not the report; nothing is copied to \<^verbatim>\<open>txt\<close>.  The report's text is lost.
\<close>

theorem archive_step_loses_text:
  assumes "prefix ''/'' tf" and "tf \<in> set (map fst (dfiles w))"
    and "py_dirname (tf @ ''.zip'') \<in> set (ddirs w)" and "tf @ ''.zip'' \<notin> set (map fst (dfiles w))"
  shows "snd (archive_step download_dir txt_dir tf w) = None
    \<and> map_of (dfiles (fst (archive_step download_dir txt_dir tf w))) tf = None
    \<and> set (map fst (dfiles (fst (archive_step download_dir txt_dir tf w)))) =
        insert (tf @ ''.zip'') (set (map fst (dfiles w)) - {tf})
    \<and> zips (fst (archive_step download_dir txt_dir tf w)) (tf @ ''.zip'') = Some [zip_arcname (tf @ ''.zip'')]
    \<and> zip_arcname tf \<notin> set [zip_arcname (tf @ ''.zip'')]"
proof -
  have ne: "tf @ ''.zip'' \<noteq> tf" by simp
  have ex: "exists w tf" using assms(2) by (simp add: exists_def)
  let ?w1 = "w\<lparr>modes := (modes w)(tf := mode_rw)\<rparr>"
  let ?w3 = "?w1\<lparr>dfiles := AList.update (tf @ ''.zip'') [] (dfiles w),
                   modes := (modes ?w1)(tf @ ''.zip'' := mode_new),
                   zips := (zips w)(tf @ ''.zip'' \<mapsto> [zip_arcname (tf @ ''.zip'')])\<rparr>"
  have z: "zip_self (tf @ ''.zip'') ?w1 = Inr ?w3"
    using assms(3,4) by (simp add: zip_self_def open_write_def)
  have in3: "tf \<in> set (map fst (AList.update (tf @ ''.zip'') [] (dfiles w)))"
    using assms(2) by (simp add: update_keys)
  let ?w5 = "?w3\<lparr>modes := (modes ?w3)(tf @ ''.zip'' := mode_ro),
       dfiles := AList.delete tf (AList.update (tf @ ''.zip'') [] (dfiles w))\<rparr>"
  have step: "archive_step download_dir txt_dir tf w = (?w5, None)"
    using assms(1) ex z in3 by (simp add: archive_step_abs remove_def Let_def)
  have k: "map fst (dfiles ?w5) = removeAll tf (map fst (dfiles w) @ [tf @ ''.zip''])"
    using assms(4) by (simp add: delete_keys update_keys)
  show ?thesis
    using step k ne zip_arcname_ne [of tf] by (auto simp: delete_conv')
qed

lemma filter_removeAll_out:
  "\<not> P x \<Longrightarrow> filter P (removeAll x xs) = filter P xs"
  by (induction xs) auto

lemma archive_files_Cons_files:
  "dfiles (archive_files download_dir txt_dir (tf # tfs) w) =
   dfiles (archive_files download_dir txt_dir tfs
     ((fst (archive_step download_dir txt_dir tf w))\<lparr>dlog := dlog (fst (archive_step download_dir txt_dir tf w)) @
        (case snd (archive_step download_dir txt_dir tf w) of None \<Rightarrow> [] | Some e \<Rightarrow> [ArchiveFailed tf e])\<rparr>))"
  by (cases "archive_step download_dir txt_dir tf w" rule: prod.exhaust) (auto split: option.split)

lemma listdir_archive_step:
  assumes "prefix ''/'' tf" and "\<not> prefix (txt_dir @ ''/'') tf"
    and "\<not> prefix (txt_dir @ ''/'') (tf @ ''.zip'')"
  shows "listdir (dfiles (fst (archive_step download_dir txt_dir tf w))) txt_dir =
         listdir (dfiles w) txt_dir"
proof -
  let ?Q = "\<lambda>p. prefix (txt_dir @ ''/'') p \<and> CHR ''/'' \<notin> set (drop (Suc (length txt_dir)) p)"
  have "filter ?Q (map fst (dfiles (fst (archive_step download_dir txt_dir tf w)))) =
        filter ?Q (map fst (dfiles w))"
  proof -
    have "map fst (dfiles (fst (archive_step download_dir txt_dir tf w))) \<in>
      {map fst (dfiles w), map fst (dfiles w) @ [tf @ ''.zip''], removeAll tf (map fst (dfiles w)),
       removeAll tf (map fst (dfiles w) @ [tf @ ''.zip''])}"
      by (rule archive_step_keys_abs [OF assms(1)])
    then show ?thesis using assms(2,3)
      by (elim insertE emptyE) (simp_all add: filter_removeAll_out del: removeAll_append)
  qed
  then show ?thesis by (simp only: listdir_filter)
qed

lemma archive_files_listdir:
  assumes "\<forall>tf\<in>set tfs. prefix ''/'' tf \<and> \<not> prefix (txt_dir @ ''/'') tf
             \<and> \<not> prefix (txt_dir @ ''/'') (tf @ ''.zip'')"
  shows "listdir (dfiles (archive_files download_dir txt_dir tfs w)) txt_dir = listdir (dfiles w) txt_dir"
  using assms
proof (induction tfs arbitrary: w)
  case Nil then show ?case by simp
next
  case (Cons tf tfs)
  then show ?case
    by (simp add: archive_files_Cons_files listdir_archive_step del: archive_files.simps(2))
qed

text \<open>
  C9: the archive loop copies nothing into \<^verbatim>\<open>txt\<close>: for the absolute paths \<^verbatim>\<open>glob\<close>
  returns, outside the \<^verbatim>\<open>txt\<close> directory, the listing of \<^verbatim>\<open>txt\<close> after the loop is the
  listing before it, whatever succeeds or fails.
\<close>

theorem archive_files_no_copy:
  assumes "\<forall>tf\<in>set tfs. prefix ''/'' tf \<and> \<not> prefix (txt_dir @ ''/'') tf
             \<and> \<not> prefix (txt_dir @ ''/'') (tf @ ''.zip'')"
  shows "listdir (dfiles (archive_files download_dir txt_dir tfs w)) txt_dir = listdir (dfiles w) txt_dir"
  using assms by (rule archive_files_listdir)

subsection \<open>What can bring a path into existence\<close>

text \<open>Only \<open>open_write\<close> creates a file and only \<open>makedirs\<close> a directory; no operation
  touches the ledgers.\<close>

lemma exists_open_write:
  "open_write p s w = Inr w' \<Longrightarrow> exists w' q \<longleftrightarrow> q = p \<or> exists w q"
  unfolding open_write_def exists_def
  by (cases "py_dirname p \<in> set (ddirs w)"; cases "p \<in> set (map fst (dfiles w))"; cases "writable w p")
     (auto simp del: set_map simp add: update_keys)

lemma exists_remove: "remove p w = Inr w' \<Longrightarrow> exists w' q \<Longrightarrow> exists w q"
  unfolding remove_def exists_def
  by (cases "p \<in> set (map fst (dfiles w))") (auto simp del: set_map simp add: delete_keys)

lemma exists_copyfile:
  "copyfile src dst w = Inr w' \<Longrightarrow> exists w' q \<longleftrightarrow> q = dst \<or> exists w q"
  by (auto simp: copyfile_def exists_open_write split: option.splits)

lemma exists_chmod: "chmod p m w = Inr w' \<Longrightarrow> exists w' q = exists w q"
  by (auto simp: chmod_def split: if_splits)

lemma archive_step_exists:
  assumes "exists (fst (archive_step download_dir txt_dir tf w)) q"
  shows "exists w q \<or> q = path_join txt_dir tf \<or> q = path_join download_dir (tf @ ''.zip'')"
  using assms
  by (auto simp: archive_step_def Let_def exists_chmod exists_zip_self exists_copyfile
      dest: exists_remove split: sum.splits if_splits)

lemma dledgers_open_write: "open_write p s w = Inr w' \<Longrightarrow> dledgers w' = dledgers w"
  by (auto simp: open_write_def split: if_splits)

lemma dledgers_ops:
  "chmod p m w = Inr w' \<Longrightarrow> dledgers w' = dledgers w"
  "copyfile src dst w = Inr w' \<Longrightarrow> dledgers w' = dledgers w"
  "remove p w = Inr w' \<Longrightarrow> dledgers w' = dledgers w"
  "dledgers (makedirs d w) = dledgers w"
  by (auto simp: chmod_def remove_def makedirs_def copyfile_def dledgers_open_write
      split: if_splits option.splits)

lemma archive_step_dledgers:
  "dledgers (fst (archive_step download_dir txt_dir tf w)) = dledgers w"
  by (auto simp: archive_step_def Let_def dledgers_ops zip_self_Inr(4) split: sum.splits if_splits)

lemma archive_files_exists:
  "exists (archive_files download_dir txt_dir tfs w) q \<Longrightarrow>
   exists w q \<or> (\<exists>tf\<in>set tfs. q = path_join txt_dir tf \<or> q = path_join download_dir (tf @ ''.zip''))"
proof (induction tfs arbitrary: w)
  case (Cons tf tfs)
  obtain w' r where s: "archive_step download_dir txt_dir tf w = (w', r)" by fastforce
  have "exists w' q \<Longrightarrow> exists w q \<or> q = path_join txt_dir tf \<or> q = path_join download_dir (tf @ ''.zip'')"
    using archive_step_exists [of download_dir txt_dir tf w q] s by simp
  with Cons show ?case
    by (cases r) (fastforce simp: s exists_def)+
qed simp

lemma archive_files_dledgers:
  "dledgers (archive_files download_dir txt_dir tfs w) = dledgers w"
proof (induction tfs arbitrary: w)
  case (Cons tf tfs)
  obtain w' r where s: "archive_step download_dir txt_dir tf w = (w', r)" by fastforce
  have "dledgers w' = dledgers w"
    using archive_step_dledgers [of download_dir txt_dir tf w] s by simp
  with Cons show ?case by (cases r) (simp_all add: s)
qed simp

lemma web_download_exists:
  "exists (fst (web_download fetch sf download_dir urls w)) q \<Longrightarrow>
   exists w q \<or> (\<exists>u n s. fetch u = Some (n, s) \<and> q = path_join download_dir n)"
proof (induction fetch sf download_dir urls w rule: web_download.induct)
  case (2 fetch sf download_dir u us w)
  show ?case
  proof (cases "u \<in> set (dledgers w sf)")
    case True
    with 2 show ?thesis by simp
  next
    case notin: False
    show ?thesis
    proof (cases "fetch u")
      case None
      with 2 notin show ?thesis by simp
    next
      case (Some ft)
      obtain n t where ft: "ft = (n, t)" by fastforce
      show ?thesis
      proof (cases "open_write (path_join download_dir n) t w")
        case (Inl e)
        with 2 notin Some ft show ?thesis by simp
      next
        case (Inr w')
        then have "exists (fst (web_download fetch sf download_dir us w')) q"
          using 2(5) notin Some ft by (simp add: split_def Let_def)
        then have "exists w' q \<or> (\<exists>u n s. fetch u = Some (n, s) \<and> q = path_join download_dir n)"
          using 2(4) [OF notin Some ft [symmetric] Inr] by simp
        then show ?thesis
          using exists_open_write [OF Inr] Some ft by auto
      qed
    qed
  qed
qed simp

lemma web_download_dledgers:
  "dledgers (fst (web_download fetch sf download_dir urls w)) = dledgers w"
  by (induction fetch sf download_dir urls w rule: web_download.induct)
     (auto simp: split_def Let_def dledgers_open_write split: option.splits sum.splits)

lemma glob_ending_suffix: "tf \<in> set (glob_ending d ending w) \<Longrightarrow> suffix ending tf"
  by (auto simp: glob_ending_def suffix_def path_join_def)

lemma suffix_join_append: "suffix x (path_join d (tf @ x))"
  by (auto simp: path_join_def suffix_def)

lemma suffix_join_trans: "suffix x tf \<Longrightarrow> suffix x (path_join d tf)"
  by (auto simp: path_join_def suffix_def)

text \<open>No path the archive loop creates is the state file: the copies end in the report
  name, the archives in \<^verbatim>\<open>.zip\<close>, and \<^verbatim>\<open>state.txt\<close> ends in neither.\<close>

lemma archive_not_state:
  assumes "tf \<in> set (glob_ending download_dir report_glob w)"
  shows "path_join download_dir ''state.txt'' \<noteq> path_join txt_dir tf"
    and "path_join download_dir ''state.txt'' \<noteq> path_join download_dir (tf @ ''.zip'')"
proof -
  have st: "suffix ''state.txt'' (path_join download_dir ''state.txt'')"
    by (rule suffix_path_join)
  have "suffix ''Watch.txt'' (path_join txt_dir tf)"
    using glob_ending_suffix [OF assms]
    by (intro suffix_join_trans) (auto simp: report_glob_def suffix_def)
  then show "path_join download_dir ''state.txt'' \<noteq> path_join txt_dir tf"
    using suffix_same_length [of "''state.txt''" _ "''Watch.txt''"] st by auto
  have "suffix ''.txt'' (path_join download_dir ''state.txt'')"
    using st by (auto simp: suffix_def)
  moreover have "\<not> suffix ''.txt'' (path_join download_dir (tf @ ''.zip''))"
    using suffix_same_length [of "''.zip''" _ "''.txt''"] suffix_join_append [of "''.zip''" download_dir tf]
    by auto
  ultimately show "path_join download_dir ''state.txt'' \<noteq> path_join download_dir (tf @ ''.zip'')"
    by metis
qed

lemma exists_makedirs: "exists (makedirs d w) q \<longleftrightarrow> q = d \<or> exists w q"
  by (auto simp: makedirs_def exists_def)

text \<open>The world \<^verbatim>\<open>run\<close> reaches before its final \<^verbatim>\<open>chmod\<close>: download, create \<^verbatim>\<open>txt\<close>,
  archive.\<close>

lemma before_chmod_state:
  assumes "\<not> exists w (path_join download_dir ''state.txt'')"
    and "txt_dir \<noteq> path_join download_dir ''state.txt''"
    and "\<forall>u n s. fetch u = Some (n, s) \<longrightarrow>
           path_join download_dir n \<noteq> path_join download_dir ''state.txt''"
    and "w1 = fst (web_download fetch sf download_dir urls w)"
    and "w2 = (if exists w1 txt_dir then w1 else makedirs txt_dir w1)"
  shows "\<not> exists (archive_files download_dir txt_dir (glob_ending download_dir report_glob w2) w2)
            (path_join download_dir ''state.txt'')
    \<and> dledgers (archive_files download_dir txt_dir (glob_ending download_dir report_glob w2) w2) =
      dledgers w"
proof -
  let ?sp = "path_join download_dir ''state.txt''"
  have "\<not> exists w1 ?sp"
    unfolding assms(4) using web_download_exists [of fetch sf download_dir urls w ?sp] assms(1,3) by metis
  then have "\<not> exists w2 ?sp"
    using assms(2,5) by (simp add: exists_makedirs)
  then have "\<not> exists (archive_files download_dir txt_dir (glob_ending download_dir report_glob w2) w2) ?sp"
    using archive_files_exists archive_not_state by blast
  moreover have "dledgers w2 = dledgers w"
    using assms(4,5) web_download_dledgers by (simp add: dledgers_ops(4))
  ultimately show ?thesis by (simp add: archive_files_dledgers)
qed

text \<open>
  C10: when the download directory has no \<^verbatim>\<open>state.txt\<close> and nothing the run creates is
  named so, the final \<^verbatim>\<open>os.chmod\<close> of 10_down.py raises and \<^verbatim>\<open>state.update\<close> is never
  reached: the run ends with an exception and the ledger is what it was, so the URLs just
  downloaded (and archived) are not recorded.
\<close>

theorem down_run_state_missing:
  assumes "\<not> exists w (path_join (working_dir cfg) ''state.txt'')"
    and "source_dir cfg \<noteq> path_join (working_dir cfg) ''state.txt''"
    and "\<forall>u n s. fetch u = Some (n, s) \<longrightarrow>
           path_join (working_dir cfg) n \<noteq> path_join (working_dir cfg) ''state.txt''"
  shows "snd (down_run urls_for fetch manifest cfg w) \<noteq> None \<and>
         dledgers (fst (down_run urls_for fetch manifest cfg w)) = dledgers w"
  using before_chmod_state [OF assms refl refl]
  by (auto simp: down_run_def Let_def split_def chmod_def split: option.splits sum.splits)

subsection \<open>What reaches the \<^verbatim>\<open>txt\<close> directory\<close>

lemma open_write_files: "open_write p s w = Inr w' \<Longrightarrow> dfiles w' = AList.update p s (dfiles w)"
  by (auto simp: open_write_def split: if_splits)

lemma web_download_listdir:
  assumes "\<forall>u n s. fetch u = Some (n, s) \<longrightarrow> \<not> prefix (d @ ''/'') (path_join download_dir n)"
  shows "listdir (dfiles (fst (web_download fetch sf download_dir urls w))) d = listdir (dfiles w) d"
proof (induction urls arbitrary: w)
  case (Cons u us)
  show ?case
  proof (cases "u \<notin> set (dledgers w sf) \<and> fetch u \<noteq> None")
    case False
    with Cons show ?thesis by (auto split: option.split)
  next
    case True
    then obtain n t where f: "fetch u = Some (n, t)" by fastforce
    show ?thesis
    proof (cases "open_write (path_join download_dir n) t w")
      case (Inl e)
      with Cons True f show ?thesis by simp
    next
      case (Inr w')
      have "\<not> prefix (d @ ''/'') (path_join download_dir n)" using assms f by blast
      then have "listdir (dfiles w') d = listdir (dfiles w) d"
        using open_write_files [OF Inr] by (simp add: listdir_update_out)
      with Cons [of w'] True f Inr show ?thesis by (simp add: split_def Let_def)
    qed
  qed
qed simp

text \<open>Below an absolute working directory, the \<^verbatim>\<open>zip\<close> and \<^verbatim>\<open>txt\<close> directories share a
  base and differ in their last component.\<close>

lemma cwd_dirs:
  assumes "prefix ''/'' cwd" and "\<not> prefix ''/'' n"
  obtains B where "path_join cwd ''txt'' = B @ ''txt''"
    and "path_join (path_join cwd ''zip'') n = B @ ''zip/'' @ n" and "prefix ''/'' B"
proof
  let ?B = "if last cwd = CHR ''/'' then cwd else cwd @ ''/''"
  have ne: "cwd \<noteq> []" using assms(1) by auto
  show "path_join cwd ''txt'' = ?B @ ''txt''" using ne by (simp add: path_join_def)
  show "path_join (path_join cwd ''zip'') n = ?B @ ''zip/'' @ n"
    using ne assms(2) by (simp add: path_join_def)
  show "prefix ''/'' ?B" using assms(1) by (auto simp: prefix_def)
qed

lemma zip_not_in_txt:
  assumes "prefix ''/'' cwd" and "\<not> prefix ''/'' n"
  shows "\<not> prefix (path_join cwd ''txt'' @ ''/'') (path_join (path_join cwd ''zip'') n @ x)"
    and "prefix ''/'' (path_join (path_join cwd ''zip'') n)"
proof -
  obtain B where "path_join cwd ''txt'' = B @ ''txt''"
    and "path_join (path_join cwd ''zip'') n = B @ ''zip/'' @ n" and "prefix ''/'' B"
    using cwd_dirs [OF assms] .
  then show "\<not> prefix (path_join cwd ''txt'' @ ''/'') (path_join (path_join cwd ''zip'') n @ x)"
    and "prefix ''/'' (path_join (path_join cwd ''zip'') n)"
    by (auto simp: prefix_def)
qed

lemma glob_ending_names:
  "tf \<in> set (glob_ending d ending w) \<Longrightarrow> \<exists>n. tf = path_join d n \<and> CHR ''/'' \<notin> set n"
  by (auto simp: glob_ending_def mem_listdir)

lemma slash_free: "CHR ''/'' \<notin> set n \<Longrightarrow> \<not> prefix ''/'' n"
  by (auto simp: prefix_def)

lemma down_run_txt_listdir:
  assumes "prefix ''/'' cwd" and "\<forall>u n s. fetch u = Some (n, s) \<longrightarrow> \<not> prefix ''/'' n"
  shows "listdir (dfiles (fst (down_run urls_for fetch m (down_config cwd) w))) (path_join cwd ''txt'') =
         listdir (dfiles w) (path_join cwd ''txt'')"
proof -
  let ?t = "path_join cwd ''txt''" and ?z = "path_join cwd ''zip''"
  have dl: "listdir (dfiles (fst (web_download fetch sf ?z urls w))) ?t = listdir (dfiles w) ?t"
    for sf urls
    using assms zip_not_in_txt(1) [OF assms(1), of _ "[]"]
    by (intro web_download_listdir) auto
  have ar: "listdir (dfiles (archive_files ?z ?t (glob_ending ?z report_glob w2) w2)) ?t =
            listdir (dfiles w2) ?t" for w2
  proof (rule archive_files_listdir, intro ballI)
    fix tf assume "tf \<in> set (glob_ending ?z report_glob w2)"
    then obtain n where tf: "tf = path_join ?z n" and "\<not> prefix ''/'' n"
      using glob_ending_names slash_free by blast
    then show "prefix ''/'' tf \<and> \<not> prefix (?t @ ''/'') tf \<and> \<not> prefix (?t @ ''/'') (tf @ ''.zip'')"
      using zip_not_in_txt [OF assms(1), of n] zip_not_in_txt(1) [OF assms(1), of n "[]"] by simp
  qed
  show ?thesis
    using dl ar
    by (auto simp: down_run_def Let_def split_def chmod_def makedirs_def down_state_update_def
        down_config_def split: option.splits sum.splits prod.splits)
qed

lemma down_run_dledgers_other:
  "sf \<noteq> state_file cfg \<Longrightarrow>
   dledgers (fst (down_run urls_for fetch m cfg w)) sf = dledgers w sf"
  by (auto simp: down_run_def Let_def split_def chmod_def dledgers_ops(4) down_state_update_def
      web_download_dledgers archive_files_dledgers split: option.splits sum.splits prod.splits)

subsection \<open>The store stays well formed\<close>

lemma dfiles_ops:
  "chmod p m w = Inr w' \<Longrightarrow> dfiles w' = dfiles w"
  "remove p w = Inr w' \<Longrightarrow> dfiles w' = AList.delete p (dfiles w)"
  "copyfile src dst w = Inr w' \<Longrightarrow>
     dfiles w' = AList.update dst (the (map_of (dfiles w) src)) (dfiles w)"
  by (auto simp: chmod_def remove_def copyfile_def open_write_files split: if_splits option.splits)

lemma archive_step_wf:
  "wf_store (dfiles w) \<Longrightarrow> wf_store (dfiles (fst (archive_step download_dir txt_dir tf w)))"
  by (auto simp: archive_step_def Let_def dfiles_ops zip_self_Inr(1) wf_store_update wf_store_delete
      split: sum.splits if_splits)

lemma archive_files_wf:
  "wf_store (dfiles w) \<Longrightarrow> wf_store (dfiles (archive_files download_dir txt_dir tfs w))"
proof (induction tfs arbitrary: w)
  case (Cons tf tfs)
  obtain w' r where s: "archive_step download_dir txt_dir tf w = (w', r)" by fastforce
  have "wf_store (dfiles w')"
    using archive_step_wf [OF Cons.prems, of download_dir txt_dir tf] s by simp
  with Cons.IH show ?case by (cases r) (simp_all add: s)
qed simp

lemma web_download_wf:
  "wf_store (dfiles w) \<Longrightarrow> wf_store (dfiles (fst (web_download fetch sf download_dir urls w)))"
  by (induction fetch sf download_dir urls w rule: web_download.induct)
     (auto simp: Let_def split_def open_write_files wf_store_update split: option.splits sum.splits)

text \<open>
  A 10_down.py run keeps the file store well formed: however far it gets, no path is
  listed twice, so every later lookup, listing and glob sees one content per path.
\<close>

lemma down_run_store_wf:
  "wf_store (dfiles w) \<Longrightarrow> wf_store (dfiles (fst (down_run urls_for fetch m cfg w)))"
  by (auto simp: down_run_def Let_def split_def chmod_def makedirs_def down_state_update_def
      intro!: archive_files_wf web_download_wf split: option.splits sum.splits prod.splits)

subsection \<open>The download ledger\<close>

text \<open>\<^verbatim>\<open>web.download\<close> returns URLs of the list it was given, none of them already in
  the ledger, each at most once when the list has no repetition.\<close>

lemma web_download_urls:
  "set (snd (web_download fetch sf download_dir urls w)) \<subseteq> set urls - set (dledgers w sf) \<and>
   (distinct urls \<longrightarrow> distinct (snd (web_download fetch sf download_dir urls w)))"
proof (induction urls arbitrary: w)
  case (Cons u us)
  show ?case
  proof (cases "u \<notin> set (dledgers w sf) \<and> fetch u \<noteq> None")
    case False
    with Cons [of w] show ?thesis by (auto split: option.split)
  next
    case True
    then obtain n t where f: "fetch u = Some (n, t)" by fastforce
    show ?thesis
    proof (cases "open_write (path_join download_dir n) t w")
      case (Inl e)
      with Cons [of w] True f show ?thesis by auto
    next
      case (Inr w')
      with Cons [of w'] True f dledgers_open_write [OF Inr] show ?thesis
        by (auto simp: split_def Let_def)
    qed
  qed
qed simp

text \<open>
  A 10_down.py run records no URL twice, under the model of \<^verbatim>\<open>web.download\<close> above
  (which skips URLs already in the ledger, an assumption about edl that neither the code nor
  the spec states): when the URL list and the ledger have no duplicate, the ledger after
  the run has none either.
\<close>

lemma down_run_ledger_distinct:
  assumes "\<forall>d j. distinct (urls_for d j)" and "distinct (dledgers w (state_file cfg))"
  shows "distinct (dledgers (fst (down_run urls_for fetch m cfg w)) (state_file cfg))"
proof -
  have "distinct (dledgers w (state_file cfg) @ snd (web_download fetch (state_file cfg) dd (urls_for d j) w))"
    for dd d j
    using web_download_urls [of fetch "state_file cfg" dd "urls_for d j" w] assms by auto
  then show ?thesis
    using assms(2)
    by (auto simp: down_run_def Let_def split_def chmod_def makedirs_def down_state_update_def
        web_download_dledgers archive_files_dledgers split: option.splits sum.splits prod.splits)
qed

subsection \<open>A second archive of the same report\<close>

text \<open>The archive of a report is left read-only (\<^verbatim>\<open>S_IREAD|S_IRGRP|S_IROTH\<close> has no
  \<^verbatim>\<open>S_IWRITE\<close> bit).\<close>

lemma mode_ro_not_writable: "mode_ro AND S_IWRITE = 0"
  by (simp add: mode_ro_def S_IREAD_def S_IRGRP_def S_IROTH_def S_IWRITE_def)

text \<open>
  C26: a report downloaded again, whose archive \<open>tf.zip\<close> an earlier run left read-only
  (as when the earlier run ended before \<^verbatim>\<open>state.update\<close>), cannot be archived:
  \<^verbatim>\<open>zipfile.ZipFile(fqtfzip, 'w')\<close> raises \<open>PermissionError\<close> for a non-root user, the
  turn stops after the first \<^verbatim>\<open>chmod\<close>, and the report stays where it is.
\<close>

theorem archive_step_zip_readonly:
  assumes "prefix ''/'' tf" and "tf \<in> set (map fst (dfiles w))"
    and "tf @ ''.zip'' \<in> set (map fst (dfiles w))" and "py_dirname (tf @ ''.zip'') \<in> set (ddirs w)"
    and "modes w (tf @ ''.zip'') = mode_ro"
  shows "archive_step download_dir txt_dir tf w =
           (w\<lparr>modes := (modes w)(tf := mode_rw)\<rparr>, Some PermissionError)
         \<and> map_of (dfiles (fst (archive_step download_dir txt_dir tf w))) tf = map_of (dfiles w) tf"
proof -
  have ne: "tf @ ''.zip'' \<noteq> tf" by simp
  have "zip_self (tf @ ''.zip'') (w\<lparr>modes := (modes w)(tf := mode_rw)\<rparr>) = Inl PermissionError"
    using assms(3-5) ne mode_ro_not_writable
    by (simp add: zip_self_def open_write_def writable_def)
  then show ?thesis
    using assms(1,2) by (simp add: archive_step_abs exists_def)
qed

subsection \<open>The manifest\<close>

text \<open>
  The manifest's \<^verbatim>\<open>start_date\<close> round trip: a valid date written as the JSON list
  \<^verbatim>\<open>[year, month, day]\<close> is read back by \<^verbatim>\<open>datetime.date(*manifest['start_date'])\<close>
  as that date (its fields are within the C \<^verbatim>\<open>int\<close> range).
\<close>

lemma start_date_roundtrip:
  "valid_date d \<Longrightarrow>
   start_date_of (JList [JNum (int (year d)), JNum (int (month d)), JNum (int (day d))]) = Inr d"
  by (cases d) (auto simp: start_date_of_def c_int_def valid_date_def days_in_month_def split: if_splits)



subsection \<open>The sample run\<close>

lemma sample_down_config:
  "down_config ''/data'' =
     \<lparr>source_dir = ''/data/txt'', working_dir = ''/data/zip'', state_file = ''/data/zip/state.txt''\<rparr>"
  by (simp add: down_config_def path_join_def)

lemma sample_fetched_path:
  "path_join ''/data/zip'' ''20191030_DailyRenewablesWatch.txt'' = ''/data/zip/20191030_DailyRenewablesWatch.txt''"
  "py_dirname ''/data/zip/20191030_DailyRenewablesWatch.txt'' = ''/data/zip''"
  by (simp_all add: path_join_def py_dirname_def rfind_def upt_rec)

lemma sample_download:
  "web_download sample_fetch ''/data/zip/state.txt'' ''/data/zip'' [sample_url] sample_down_world =
     (sample_down_world\<lparr>dfiles := [(''/data/zip/state.txt'', []),
        (''/data/zip/20191030_DailyRenewablesWatch.txt'', ''report'')]\<rparr>, [sample_url])"
proof -
  have "open_write ''/data/zip/20191030_DailyRenewablesWatch.txt'' ''report'' sample_down_world =
    Inr (sample_down_world\<lparr>dfiles := [(''/data/zip/state.txt'', []),
      (''/data/zip/20191030_DailyRenewablesWatch.txt'', ''report'')]\<rparr>)"
    by (simp add: open_write_def sample_fetched_path sample_down_world_def fun_eq_iff)
  moreover have "dledgers sample_down_world = (\<lambda>_. [])" by (simp add: sample_down_world_def)
  ultimately show ?thesis by (simp add: sample_fetch_def sample_fetched_path)
qed

lemma sample_mkdir:
  "\<not> exists (sample_down_world\<lparr>dfiles := [(''/data/zip/state.txt'', []),
       (''/data/zip/20191030_DailyRenewablesWatch.txt'', ''report'')]\<rparr>) ''/data/txt''"
  "makedirs ''/data/txt'' (sample_down_world\<lparr>dfiles := [(''/data/zip/state.txt'', []),
     (''/data/zip/20191030_DailyRenewablesWatch.txt'', ''report'')]\<rparr>) = sample_zip_world"
  by (simp_all add: exists_def makedirs_def sample_down_world_def sample_zip_world_def)

lemma sample_down_world_ddirs: "ddirs sample_down_world = [''/data'', ''/data/zip'']"
  by (simp add: sample_down_world_def)

lemma sample_glob:
  "glob_ending ''/data/zip'' report_glob sample_zip_world = [''/data/zip/20191030_DailyRenewablesWatch.txt'']"
  by (simp add: glob_ending_def listdir_def report_glob_def path_join_def suffix_def sample_zip_world_def)

lemma sample_tf_facts:
  "prefix ''/'' ''/data/zip/20191030_DailyRenewablesWatch.txt''"
  "py_dirname ''/data/zip/20191030_DailyRenewablesWatch.txt.zip'' = ''/data/zip''"
  "\<not> prefix ''/data/txt/'' ''/data/zip/20191030_DailyRenewablesWatch.txt''"
  "\<not> prefix ''/data/txt/'' ''/data/zip/20191030_DailyRenewablesWatch.txt.zip''"
  by (simp_all add: py_dirname_def rfind_def upt_rec)

lemma sample_archive:
  "archive_files ''/data/zip'' ''/data/txt'' [''/data/zip/20191030_DailyRenewablesWatch.txt''] sample_zip_world =
   sample_zip_world\<lparr>dfiles := [(''/data/zip/state.txt'', []), (''/data/zip/20191030_DailyRenewablesWatch.txt.zip'', [])],
     modes := (\<lambda>_. mode_new)(''/data/zip/20191030_DailyRenewablesWatch.txt'' := mode_rw,
                               ''/data/zip/20191030_DailyRenewablesWatch.txt.zip'' := mode_ro),
     zips := [''/data/zip/20191030_DailyRenewablesWatch.txt.zip'' \<mapsto>
               [''data/zip/20191030_DailyRenewablesWatch.txt.zip'']]\<rparr>"
  by (simp add: archive_step_abs sample_tf_facts zip_self_def open_write_def remove_def exists_def
        sample_zip_world_def zip_arcname_def)

lemma sample_down_run:
  "down_run (\<lambda>_ _. [sample_url]) sample_fetch sample_down_manifest (down_config ''/data'') sample_down_world =
   (sample_zip_world\<lparr>dfiles := [(''/data/zip/state.txt'', []), (''/data/zip/20191030_DailyRenewablesWatch.txt.zip'', [])],
     modes := (\<lambda>_. mode_new)(''/data/zip/20191030_DailyRenewablesWatch.txt'' := mode_rw,
                               ''/data/zip/20191030_DailyRenewablesWatch.txt.zip'' := mode_ro,
                               ''/data/zip/state.txt'' := mode_rw),
     zips := [''/data/zip/20191030_DailyRenewablesWatch.txt.zip'' \<mapsto>
               [''data/zip/20191030_DailyRenewablesWatch.txt.zip'']],
     dledgers := (\<lambda>_. [])(''/data/zip/state.txt'' := [sample_url])\<rparr>, None)"
proof -
  have st: "path_join ''/data/zip'' ''state.txt'' = ''/data/zip/state.txt''" by (simp add: path_join_def)
  show ?thesis
    by (simp add: down_run_def sample_down_manifest_def sample_down_config start_date_of_def c_int_def
        valid_date_def days_in_month_def sample_download sample_mkdir sample_glob sample_archive
        Let_def chmod_def st down_state_update_def exists_def sample_down_world_ddirs
        del: web_download.simps archive_files.simps)
       (simp add: sample_zip_world_def)
qed

text \<open>
  The whole run on the sample directory: it ends without an exception and records the
  URL, yet the downloaded report is gone: the store holds the state file and the archive
  only, and \<^verbatim>\<open>txt\<close> is empty.
\<close>

lemma down_run_sample:
  "snd (down_run (\<lambda>_ _. [sample_url]) sample_fetch sample_down_manifest (down_config ''/data'')
          sample_down_world) = None
   \<and> map fst (dfiles (fst (down_run (\<lambda>_ _. [sample_url]) sample_fetch sample_down_manifest
          (down_config ''/data'') sample_down_world))) =
       [''/data/zip/state.txt'', ''/data/zip/20191030_DailyRenewablesWatch.txt.zip'']
   \<and> listdir (dfiles (fst (down_run (\<lambda>_ _. [sample_url]) sample_fetch sample_down_manifest
          (down_config ''/data'') sample_down_world))) ''/data/txt'' = []
   \<and> dledgers (fst (down_run (\<lambda>_ _. [sample_url]) sample_fetch sample_down_manifest
          (down_config ''/data'') sample_down_world)) ''/data/zip/state.txt'' = [sample_url]"
  by (simp add: sample_down_run listdir_def)

theorem archive_step_loses_text_witness:
  "prefix ''/'' ''/data/zip/20191030_DailyRenewablesWatch.txt''
   \<and> snd (archive_step ''/data/zip'' ''/data/txt'' ''/data/zip/20191030_DailyRenewablesWatch.txt''
           sample_zip_world) = None
   \<and> map_of (dfiles (fst (archive_step ''/data/zip'' ''/data/txt''
           ''/data/zip/20191030_DailyRenewablesWatch.txt'' sample_zip_world)))
         ''/data/zip/20191030_DailyRenewablesWatch.txt'' = None"
proof -
  have h: "''/data/zip/20191030_DailyRenewablesWatch.txt'' \<in> set (map fst (dfiles sample_zip_world))"
    "py_dirname (''/data/zip/20191030_DailyRenewablesWatch.txt'' @ ''.zip'') \<in> set (ddirs sample_zip_world)"
    "''/data/zip/20191030_DailyRenewablesWatch.txt'' @ ''.zip'' \<notin> set (map fst (dfiles sample_zip_world))"
    using sample_tf_facts(2) by (simp_all add: sample_zip_world_def)
  show ?thesis
    using archive_step_loses_text [OF sample_tf_facts(1) h, of "''/data/zip''" "''/data/txt''"]
      sample_tf_facts(1) by simp
qed

theorem archive_files_no_copy_witness:
  "prefix ''/'' ''/data/zip/20191030_DailyRenewablesWatch.txt''
   \<and> \<not> prefix ''/data/txt/'' ''/data/zip/20191030_DailyRenewablesWatch.txt''
   \<and> \<not> prefix ''/data/txt/'' ''/data/zip/20191030_DailyRenewablesWatch.txt.zip''
   \<and> listdir (dfiles (archive_files ''/data/zip'' ''/data/txt''
        [''/data/zip/20191030_DailyRenewablesWatch.txt''] sample_zip_world)) ''/data/txt'' = []"
proof -
  have h: "\<forall>tf\<in>set [''/data/zip/20191030_DailyRenewablesWatch.txt'']. prefix ''/'' tf
      \<and> \<not> prefix (''/data/txt'' @ ''/'') tf \<and> \<not> prefix (''/data/txt'' @ ''/'') (tf @ ''.zip'')"
    using sample_tf_facts by simp
  have e: "listdir (dfiles sample_zip_world) ''/data/txt'' = []"
    by (simp add: listdir_def sample_zip_world_def)
  show ?thesis using archive_files_no_copy [OF h, of "''/data/zip''" sample_zip_world] sample_tf_facts e
    by simp
qed

theorem down_run_state_missing_witness:
  "\<not> exists (sample_down_world\<lparr>dfiles := []\<rparr>) (path_join (working_dir (down_config ''/data'')) ''state.txt'')
   \<and> source_dir (down_config ''/data'') \<noteq> path_join (working_dir (down_config ''/data'')) ''state.txt''
   \<and> snd (down_run (\<lambda>_ _. [sample_url]) sample_fetch sample_down_manifest (down_config ''/data'')
          (sample_down_world\<lparr>dfiles := []\<rparr>)) \<noteq> None
   \<and> dledgers (fst (down_run (\<lambda>_ _. [sample_url]) sample_fetch sample_down_manifest
          (down_config ''/data'') (sample_down_world\<lparr>dfiles := []\<rparr>))) =
     dledgers (sample_down_world\<lparr>dfiles := []\<rparr>)"
proof -
  have h1: "\<not> exists (sample_down_world\<lparr>dfiles := []\<rparr>) (path_join (working_dir (down_config ''/data'')) ''state.txt'')"
    by (simp add: exists_def sample_down_world_ddirs sample_down_config path_join_def)
  have h2: "source_dir (down_config ''/data'') \<noteq> path_join (working_dir (down_config ''/data'')) ''state.txt''"
    by (simp add: sample_down_config path_join_def)
  have h3: "\<forall>u n s. sample_fetch u = Some (n, s) \<longrightarrow>
        path_join (working_dir (down_config ''/data'')) n \<noteq>
        path_join (working_dir (down_config ''/data'')) ''state.txt''"
    by (simp add: sample_fetch_def sample_down_config path_join_def)
  show ?thesis
    using down_run_state_missing [OF h1 h2 h3, of "\<lambda>_ _. [sample_url]" sample_down_manifest] h1 h2 h3
    by blast
qed

theorem down_run_store_wf_witness:
  "wf_store (dfiles sample_down_world) \<and>
   wf_store (dfiles (fst (down_run (\<lambda>_ _. [sample_url]) sample_fetch sample_down_manifest
      (down_config ''/data'') sample_down_world)))"
proof -
  have h: "wf_store (dfiles sample_down_world)"
    by (simp add: sample_down_world_def wf_store_def)
  show ?thesis
    using down_run_store_wf [OF h, of "\<lambda>_ _. [sample_url]" sample_fetch sample_down_manifest
        "down_config ''/data''"] h
    by blast
qed

theorem archive_step_zip_readonly_witness:
  "prefix ''/'' ''/z/r.txt'' \<and>
   archive_step ''/z'' ''/t'' ''/z/r.txt''
     (sample_down_world\<lparr>dfiles := [(''/z/r.txt'', ''report''), (''/z/r.txt.zip'', [])], ddirs := [''/z''],
        modes := (\<lambda>_. mode_new)(''/z/r.txt.zip'' := mode_ro)\<rparr>) =
   (sample_down_world\<lparr>dfiles := [(''/z/r.txt'', ''report''), (''/z/r.txt.zip'', [])], ddirs := [''/z''],
        modes := ((\<lambda>_. mode_new)(''/z/r.txt.zip'' := mode_ro))(''/z/r.txt'' := mode_rw)\<rparr>,
    Some PermissionError)"
proof -
  let ?w = "sample_down_world\<lparr>dfiles := [(''/z/r.txt'', ''report''), (''/z/r.txt.zip'', [])],
     ddirs := [''/z''], modes := (\<lambda>_. mode_new)(''/z/r.txt.zip'' := mode_ro)\<rparr>"
  have h: "prefix ''/'' ''/z/r.txt''" "''/z/r.txt'' \<in> set (map fst (dfiles ?w))"
    "''/z/r.txt'' @ ''.zip'' \<in> set (map fst (dfiles ?w))"
    "py_dirname (''/z/r.txt'' @ ''.zip'') \<in> set (ddirs ?w)"
    "modes ?w (''/z/r.txt'' @ ''.zip'') = mode_ro"
    by (simp_all add: py_dirname_def rfind_def upt_rec)
  show ?thesis using archive_step_zip_readonly [OF h, of "''/z''" "''/t''"] h(1) by simp
qed

theorem down_run_ledger_distinct_witness:
  "(\<forall>d j. distinct ((\<lambda>_ _. [sample_url]) d j)) \<and>
   distinct (dledgers sample_down_world (state_file (down_config ''/data''))) \<and>
   distinct (dledgers (fst (down_run (\<lambda>_ _. [sample_url]) sample_fetch sample_down_manifest
     (down_config ''/data'') sample_down_world)) (state_file (down_config ''/data'')))"
proof -
  have h: "\<forall>d j. distinct ((\<lambda>_ _. [sample_url]) d j)"
    "distinct (dledgers sample_down_world (state_file (down_config ''/data'')))"
    by (simp_all add: sample_down_world_def)
  show ?thesis
    using down_run_ledger_distinct [OF h, of sample_fetch sample_down_manifest] h by blast
qed

theorem start_date_roundtrip_witness:
  "start_date_of (JList [JNum 2019, JNum 10, JNum 30]) = Inr \<lparr>year = 2019, month = 10, day = 30\<rparr>"
  using start_date_roundtrip [of "\<lparr>year = 2019, month = 10, day = 30\<rparr>"]
  by (simp add: valid_date_def days_in_month_def is_leap_def)


end
