(* ===== verification/Unzip.thy ===== *)
theory Unzip
  imports PyOs
begin

text \<open>
  src/src/20_unzp.py: \<^verbatim>\<open>config()\<close> names the zip directory as its source, \<^verbatim>\<open>xml\<close> as
  its working directory and \<^verbatim>\<open>xml/state.txt\<close> as its state file; \<^verbatim>\<open>run\<close> does nothing
  (\<^verbatim>\<open>pass\<close>), since 10_down.py already placed the text files, so it is the identity on
  whatever world the other scripts act on.
\<close>

definition unzp_config :: "path \<Rightarrow> config" where
  "unzp_config cwd =
     \<lparr>source_dir = path_join cwd ''zip'', working_dir = path_join cwd ''xml'',
      state_file = path_join (path_join cwd ''xml'') ''state.txt''\<rparr>"

definition unzp_run :: "'m \<Rightarrow> config \<Rightarrow> 'w \<Rightarrow> 'w" where
  "unzp_run manifest cfg w = w"

end
