(* ===== verification/Entry.thy ===== *)
theory Entry
  imports Pipeline Down Unzip
begin

text \<open>
  The \<^verbatim>\<open>if __name__ == "__main__":\<close> blocks of the three scripts, which are identical up
  to the \<^verbatim>\<open>run\<close> they call: take the log level from \<^verbatim>\<open>sys.argv[1]\<close> (\<^verbatim>\<open>"INFO"\<close>
  when absent), \<^verbatim>\<open>logger.setLevel(loglevel)\<close>, open \<^verbatim>\<open>manifest.json\<close> of the current
  directory, \<^verbatim>\<open>json.load\<close> it and call \<^verbatim>\<open>run(logger, m, config())\<close>.  The shared part is
  \<open>load_manifest\<close>; \<open>pars_main\<close>, \<open>down_main\<close> and \<open>unzp_main\<close> add each script's
  \<open>run\<close>.  \<^verbatim>\<open>json.load\<close> is a parameter \<open>json_load\<close> returning the decoded manifest or
  the exception (\<^verbatim>\<open>JSONDecodeError\<close> is a \<^verbatim>\<open>ValueError\<close>).  The calls into
  \<^verbatim>\<open>edl.resources.log\<close> only write log records and are not modelled.
\<close>

section \<open>The log level\<close>

text \<open>
  \<^verbatim>\<open>Logger.setLevel\<close> accepts a string only when it is one of the names of the standard
  \<^verbatim>\<open>logging\<close> module's levels and raises \<open>ValueError\<close> otherwise.
\<close>

definition log_level_names :: "string list" where
  "log_level_names = [''CRITICAL'', ''FATAL'', ''ERROR'', ''WARN'', ''WARNING'', ''INFO'', ''DEBUG'',
     ''NOTSET'']"

definition arg_loglevel :: "string list \<Rightarrow> string" where
  "arg_loglevel argv = (if 1 < length argv then argv ! 1 else ''INFO'')"

definition set_level :: "string \<Rightarrow> py_error + unit" where
  "set_level l = (if l \<in> set log_level_names then Inr () else Inl ValueError)"

section \<open>The shared prologue\<close>

definition manifest_path :: "path \<Rightarrow> path" where
  "manifest_path cwd = path_join cwd ''manifest.json''"

definition load_manifest ::
  "string list \<Rightarrow> path \<Rightarrow> (string \<Rightarrow> py_error + 'm) \<Rightarrow> store \<Rightarrow> py_error + 'm" where
  "load_manifest argv cwd json_load st =
     (case set_level (arg_loglevel argv) of
       Inl e \<Rightarrow> Inl e
     | Inr _ \<Rightarrow>
         (case read_file st (manifest_path cwd) of
           Inl e \<Rightarrow> Inl e
         | Inr text \<Rightarrow> json_load text))"

section \<open>The three entry points\<close>

text \<open>30_pars.py: the manifest is a dictionary of strings.\<close>

definition pars_main ::
  "string list \<Rightarrow> path \<Rightarrow> nat \<Rightarrow> (string \<Rightarrow> py_error + (string \<times> string) list) \<Rightarrow> world
     \<Rightarrow> py_error + world" where
  "pars_main argv cwd now json_load w =
     (case load_manifest argv cwd json_load (files w) of
       Inl e \<Rightarrow> Inl e
     | Inr m \<Rightarrow> run now m (pars_config cwd) w)"

text \<open>10_down.py: the manifest holds JSON values; the result is the world reached and the
  exception that ended the script, if any.\<close>

definition down_main ::
  "string list \<Rightarrow> path \<Rightarrow> (py_date \<Rightarrow> json \<Rightarrow> string list) \<Rightarrow>
     (string \<Rightarrow> (string \<times> string) option) \<Rightarrow> (string \<Rightarrow> py_error + (string \<times> json) list) \<Rightarrow>
     down_world \<Rightarrow> down_world \<times> py_error option" where
  "down_main argv cwd urls_for fetch json_load w =
     (case load_manifest argv cwd json_load (dfiles w) of
       Inl e \<Rightarrow> (w, Some e)
     | Inr m \<Rightarrow> down_run urls_for fetch m (down_config cwd) w)"

text \<open>20_unzp.py, over the file store it reads the manifest from.\<close>

definition unzp_main ::
  "string list \<Rightarrow> path \<Rightarrow> (string \<Rightarrow> py_error + 'm) \<Rightarrow> store \<Rightarrow> py_error + store" where
  "unzp_main argv cwd json_load st =
     (case load_manifest argv cwd json_load st of
       Inl e \<Rightarrow> Inl e
     | Inr m \<Rightarrow> Inr (unzp_run m (unzp_config cwd) st))"

section \<open>Sample worlds\<close>

text \<open>A world and a download world with nothing in them.\<close>

definition empty_world :: world where
  "empty_world = \<lparr>files = [], dirs = [], ledgers = (\<lambda>_. []), log = []\<rparr>"

definition empty_down_world :: down_world where
  "empty_down_world = \<lparr>dfiles = [], ddirs = [], modes = (\<lambda>_. 0), zips = Map.empty,
     dledgers = (\<lambda>_. []), dlog = []\<rparr>"

section \<open>Properties\<close>

lemma load_manifest_bad_level:
  "arg_loglevel argv \<notin> set log_level_names \<Longrightarrow> load_manifest argv cwd json_load st = Inl ValueError"
  by (simp add: load_manifest_def set_level_def)

lemma load_manifest_missing:
  "arg_loglevel argv \<in> set log_level_names \<Longrightarrow> map_of st (manifest_path cwd) = None \<Longrightarrow>
   load_manifest argv cwd json_load st = Inl FileNotFoundError"
  by (simp add: load_manifest_def set_level_def read_file_def)

lemma load_manifest_Inr:
  "arg_loglevel argv \<in> set log_level_names \<Longrightarrow> map_of st (manifest_path cwd) = Some text \<Longrightarrow>
   load_manifest argv cwd json_load st = json_load text"
  by (simp add: load_manifest_def set_level_def read_file_def)

lemma arg_loglevel_default: "length argv \<le> 1 \<Longrightarrow> arg_loglevel argv = ''INFO''"
  by (simp add: arg_loglevel_def)

lemma INFO_level: "''INFO'' \<in> set log_level_names"
  by (simp add: log_level_names_def)

text \<open>
  C12: an unknown log level, such as a lower-case \<^verbatim>\<open>debug\<close>, makes each of the three
  scripts raise \<open>ValueError\<close> before it reads its manifest: nothing is downloaded, parsed
  or recorded.
\<close>

theorem mains_bad_level:
  assumes "arg_loglevel argv \<notin> set log_level_names"
  shows "pars_main argv cwd now jl w = Inl ValueError \<and>
         down_main argv cwd urls_for fetch jl' dw = (dw, Some ValueError) \<and>
         unzp_main argv cwd jl'' st = Inl ValueError"
  using load_manifest_bad_level [OF assms, of cwd jl "files w"]
    load_manifest_bad_level [OF assms, of cwd jl' "dfiles dw"]
    load_manifest_bad_level [OF assms, of cwd jl'' st]
  by (simp add: pars_main_def down_main_def unzp_main_def)

text \<open>
  C25: with a valid log level and no \<^verbatim>\<open>manifest.json\<close> in the current directory, each
  script raises \<open>FileNotFoundError\<close> and leaves its world as it was.
\<close>

theorem mains_no_manifest:
  assumes "arg_loglevel argv \<in> set log_level_names"
    and "map_of (files w) (manifest_path cwd) = None"
    and "map_of (dfiles dw) (manifest_path cwd) = None"
    and "map_of st (manifest_path cwd) = None"
  shows "pars_main argv cwd now jl w = Inl FileNotFoundError \<and>
         down_main argv cwd urls_for fetch jl' dw = (dw, Some FileNotFoundError) \<and>
         unzp_main argv cwd jl'' st = Inl FileNotFoundError"
  using load_manifest_missing [OF assms(1) assms(2), of jl]
    load_manifest_missing [OF assms(1) assms(3), of jl']
    load_manifest_missing [OF assms(1) assms(4), of jl'']
  by (simp add: pars_main_def down_main_def unzp_main_def)

text \<open>
  Run without arguments, 30_pars.py logs at \<^verbatim>\<open>INFO\<close> and, when its manifest
  decodes, runs the pipeline on the configuration of the current directory: the
  \<^verbatim>\<open>txt\<close>, \<^verbatim>\<open>sql\<close> and \<^verbatim>\<open>sql/state.txt\<close> of \<^verbatim>\<open>cwd\<close>.
\<close>

lemma pars_main_default:
  assumes "length argv \<le> 1"
    and "map_of (files w) (manifest_path cwd) = Some text" and "jl text = Inr m"
  shows "pars_main argv cwd now jl w = run now m (pars_config cwd) w"
  using load_manifest_Inr [OF _ assms(2), of argv jl] assms(1,3)
  by (simp add: pars_main_def arg_loglevel_default INFO_level)

section \<open>Witnesses\<close>

theorem mains_bad_level_witness:
  "arg_loglevel [''30_pars.py'', ''debug''] \<notin> set log_level_names \<and>
   pars_main [''30_pars.py'', ''debug''] ''/data'' 2026 (\<lambda>_. Inr []) empty_world = Inl ValueError \<and>
   down_main [''30_pars.py'', ''debug''] ''/data'' (\<lambda>_ _. []) (\<lambda>_. None) (\<lambda>_. Inr [])
     empty_down_world = (empty_down_world, Some ValueError) \<and>
   unzp_main [''30_pars.py'', ''debug''] ''/data'' (\<lambda>_. Inr ()) [] = Inl ValueError"
proof -
  have bad: "arg_loglevel [''30_pars.py'', ''debug''] \<notin> set log_level_names"
    by (simp add: arg_loglevel_def log_level_names_def)
  show ?thesis
    using mains_bad_level [OF bad, of "''/data''" 2026 "\<lambda>_. Inr []" empty_world "\<lambda>_ _. []"
        "\<lambda>_. None" "\<lambda>_. Inr []" empty_down_world "\<lambda>_. Inr ()" "[]"] bad
    by simp
qed

theorem mains_no_manifest_witness:
  "arg_loglevel [''10_down.py''] \<in> set log_level_names \<and>
   map_of (files empty_world) (manifest_path ''/data'') = None \<and>
   map_of (dfiles empty_down_world) (manifest_path ''/data'') = None \<and>
   pars_main [''10_down.py''] ''/data'' 2026 (\<lambda>_. Inr []) empty_world = Inl FileNotFoundError \<and>
   down_main [''10_down.py''] ''/data'' (\<lambda>_ _. []) (\<lambda>_. None) (\<lambda>_. Inr [])
     empty_down_world = (empty_down_world, Some FileNotFoundError) \<and>
   unzp_main [''10_down.py''] ''/data'' (\<lambda>_. Inr ()) [] = Inl FileNotFoundError"
proof -
  have lvl: "arg_loglevel [''10_down.py''] \<in> set log_level_names"
    by (simp add: arg_loglevel_def log_level_names_def)
  have f: "map_of (files empty_world) (manifest_path ''/data'') = None"
    "map_of (dfiles empty_down_world) (manifest_path ''/data'') = None"
    by (simp_all add: empty_world_def empty_down_world_def)
  show ?thesis
    using mains_no_manifest [OF lvl f(1) f(2), of "[]" 2026 "\<lambda>_. Inr []" "\<lambda>_ _. []"
        "\<lambda>_. None" "\<lambda>_. Inr []" "\<lambda>_. Inr ()"] lvl f
    by simp
qed

theorem pars_main_default_witness:
  "length [''30_pars.py''] \<le> 1 \<and>
   map_of (files (empty_world\<lparr>files := [(manifest_path ''/data'', ''{}'')]\<rparr>)) (manifest_path ''/data'')
     = Some ''{}'' \<and>
   (\<lambda>_. Inr sample_manifest) ''{}'' = (Inr sample_manifest :: py_error + (string \<times> string) list) \<and>
   pars_main [''30_pars.py''] ''/data'' 2026 (\<lambda>_. Inr sample_manifest)
     (empty_world\<lparr>files := [(manifest_path ''/data'', ''{}'')]\<rparr>) =
   run 2026 sample_manifest (pars_config ''/data'')
     (empty_world\<lparr>files := [(manifest_path ''/data'', ''{}'')]\<rparr>)"
  using pars_main_default [of "[''30_pars.py'']" "empty_world\<lparr>files := [(manifest_path ''/data'', ''{}'')]\<rparr>"
      "''/data''" "''{}''" "\<lambda>_. Inr sample_manifest" sample_manifest 2026]
  by simp

end
