(* ===== verification/Ledger.thy ===== *)
theory Ledger
  imports Pipeline
begin

text \<open>
  The ledger as the file it is kept in.  \<^verbatim>\<open>edl.resources.state\<close> lies outside this
  repository; the spec describes the ledger file as a newline-delimited list of the file
  names already processed, append-only.  \<open>ledger_text\<close> renders a list of names as that
  file, \<open>ledger_read\<close> reads the file's lines back (skipping empty ones), \<open>ledger_of\<close> is
  the ledger a store holds at a state-file path (none when the file is missing), and
  \<open>state_update_file\<close> is \<^verbatim>\<open>state.update\<close> on the store: open the state file for
  appending (creating it) and write one line per name.  The theorems show that this file
  representation implements the abstract \<open>ledgers\<close> of the world record, on which
  Pipeline's \<open>state_update\<close> appends.
\<close>

section \<open>The ledger file\<close>

definition ledger_text :: "string list \<Rightarrow> string" where
  "ledger_text ls = concat (map (\<lambda>l. l @ ''\<newline>'') ls)"

definition ledger_read :: "string \<Rightarrow> string list" where
  "ledger_read s = filter (\<lambda>l. l \<noteq> []) (py_split ''\<newline>'' s)"

definition ledger_of :: "store \<Rightarrow> path \<Rightarrow> string list" where
  "ledger_of st sf = (case map_of st sf of None \<Rightarrow> [] | Some s \<Rightarrow> ledger_read s)"

definition state_update_file :: "string list \<Rightarrow> path \<Rightarrow> store \<Rightarrow> store" where
  "state_update_file items sf st =
     AList.update sf ((case map_of st sf of None \<Rightarrow> [] | Some s \<Rightarrow> s) @ ledger_text items) st"

text \<open>A name the ledger can hold: a non-empty line.\<close>

definition ledger_name :: "string \<Rightarrow> bool" where
  "ledger_name l \<longleftrightarrow> l \<noteq> [] \<and> CHR ''\<newline>'' \<notin> set l"

text \<open>The store keeps the ledger \<open>ls\<close> at \<open>sf\<close>: the file is missing and \<open>ls\<close> empty, or
  the file is the rendering of \<open>ls\<close>.\<close>

definition file_ledger :: "store \<Rightarrow> path \<Rightarrow> string list \<Rightarrow> bool" where
  "file_ledger st sf ls \<longleftrightarrow>
     (case map_of st sf of None \<Rightarrow> ls = [] | Some s \<Rightarrow> s = ledger_text ls)"

section \<open>Facts\<close>

lemma ledger_text_append [simp]: "ledger_text (xs @ ys) = ledger_text xs @ ledger_text ys"
  by (simp add: ledger_text_def)

lemma ledger_text_Nil [simp]: "ledger_text [] = []"
  by (simp add: ledger_text_def)

lemma map_of_state_update_file [simp]:
  "map_of (state_update_file items sf st) sf =
     Some ((case map_of st sf of None \<Rightarrow> [] | Some s \<Rightarrow> s) @ ledger_text items)"
  by (simp add: state_update_file_def update_conv')

lemma ledger_read_text:
  assumes "list_all ledger_name ls"
  shows "ledger_read (ledger_text ls) = ls"
proof -
  have "py_split ''\<newline>'' (ledger_text ls) = ls @ [[]]"
    unfolding ledger_text_def concat_lines_py_join
    using assms by (intro py_split_py_join) (auto simp: list_all_iff ledger_name_def)
  moreover have "filter (\<lambda>l. l \<noteq> []) ls = ls"
    using assms by (auto simp: list_all_iff ledger_name_def filter_id_conv)
  ultimately show ?thesis by (simp add: ledger_read_def)
qed

lemma file_ledger_update:
  "file_ledger st sf ls \<Longrightarrow> file_ledger (state_update_file items sf st) sf (ls @ items)"
  by (auto simp: file_ledger_def split: option.splits)

lemma file_ledger_frame:
  "map_of st' sf = map_of st sf \<Longrightarrow> file_ledger st' sf ls = file_ledger st sf ls"
  by (simp add: file_ledger_def)

lemma ledger_of_file_ledger:
  "file_ledger st sf ls \<Longrightarrow> list_all ledger_name ls \<Longrightarrow> ledger_of st sf = ls"
  by (auto simp: file_ledger_def ledger_of_def ledger_read_text split: option.splits)

text \<open>
  \<^verbatim>\<open>state.update\<close> on the file implements the abstract ledger: when the state file
  holds the ledger \<open>ls\<close> (or is missing and \<open>ls\<close> is empty), appending the lines of
  \<open>items\<close> leaves a file that holds \<open>ls @ items\<close>, so reading the ledger after the update
  gives what Pipeline's \<open>state_update\<close> gives on the abstract ledger.
\<close>

lemma state_update_file_refines:
  assumes "file_ledger st sf ls" and "list_all ledger_name ls" and "list_all ledger_name items"
  shows "file_ledger (state_update_file items sf st) sf (ls @ items) \<and>
         ledger_of (state_update_file items sf st) sf =
           ledgers (state_update items sf (w\<lparr>ledgers := (ledgers w)(sf := ledger_of st sf)\<rparr>)) sf"
proof -
  have new: "file_ledger (state_update_file items sf st) sf (ls @ items)"
    using assms(1) by (rule file_ledger_update)
  then have "ledger_of (state_update_file items sf st) sf = ls @ items"
    using assms(2,3) by (simp add: ledger_of_file_ledger)
  then show ?thesis
    using new ledger_of_file_ledger [OF assms(1,2)] by (simp add: state_update_def)
qed

text \<open>
  A whole run of 30_pars.py keeps the file-backed ledger in step with the abstract one:
  if the state file holds the run's starting ledger, the run appends some names
  \<open>items\<close>, and appending \<open>items\<close> to the state file (\<^verbatim>\<open>state.update\<close> on the file) makes
  it hold the ledger after the run, provided no name in the source directory has a line
  break and the state file is not a \<^verbatim>\<open>.sql\<close> output.
\<close>

lemma run_file_ledger:
  assumes "run now m cfg w = Inr w'"
    and "file_ledger (files w) (state_file cfg) (ledgers w (state_file cfg))"
    and "list_all ledger_name (ledgers w (state_file cfg))"
    and "\<not> suffix ''.sql'' (state_file cfg)"
    and "\<forall>f\<in>set (listdir (files w) (source_dir cfg)). CHR ''\<newline>'' \<notin> set f"
  shows "\<exists>items. ledgers w' (state_file cfg) = ledgers w (state_file cfg) @ items \<and>
           list_all ledger_name (ledgers w' (state_file cfg)) \<and>
           file_ledger (state_update_file items (state_file cfg) (files w')) (state_file cfg)
             (ledgers w' (state_file cfg)) \<and>
           ledger_of (state_update_file items (state_file cfg) (files w')) (state_file cfg) =
             ledgers w' (state_file cfg)"
proof -
  let ?sf = "state_file cfg"
  obtain rn where w': "w' = state_update
      (filter (\<lambda>f. file_ok now (source_dir cfg) (working_dir cfg) f w)
         (new_files rn ?sf (source_dir cfg) report_ending w))
      ?sf
      (fst (parse_text_files now rn (new_files rn ?sf (source_dir cfg) report_ending w)
         (source_dir cfg) (working_dir cfg) w))"
    using assms(1) by (rule run_Inr)
  let ?new = "new_files rn ?sf (source_dir cfg) report_ending w"
  let ?oks = "filter (\<lambda>f. file_ok now (source_dir cfg) (working_dir cfg) f w) ?new"
  have led: "ledgers w' ?sf = ledgers w ?sf @ ?oks"
    by (simp add: w' state_update_def parse_text_files_frame)
  have "?sf \<notin> output_path (working_dir cfg) ` set ?new"
    using assms(4) suffix_output_path by (metis imageE)
  then have "map_of (files w') ?sf = map_of (files w) ?sf"
    by (simp add: w' state_update_def parse_text_files_store_frame)
  then have "file_ledger (files w') ?sf (ledgers w ?sf)"
    using assms(2) file_ledger_frame by blast
  moreover have "list_all ledger_name ?oks"
    using assms(5)
    by (auto simp: list_all_iff ledger_name_def new_files_def report_ending_def suffix_def)
  ultimately have "list_all ledger_name (ledgers w' ?sf)" and
    "file_ledger (state_update_file ?oks ?sf (files w')) ?sf (ledgers w' ?sf)"
    using led assms(3) file_ledger_update by auto
  then show ?thesis
    using led ledger_of_file_ledger by blast
qed

section \<open>Witnesses\<close>

theorem run_file_ledger_witness:
  "\<exists>w'. run 2026 sample_manifest (pars_config ''/data'') sample_world = Inr w' \<and>
     file_ledger (files sample_world) (state_file (pars_config ''/data''))
       (ledgers sample_world (state_file (pars_config ''/data''))) \<and>
     list_all ledger_name (ledgers sample_world (state_file (pars_config ''/data''))) \<and>
     \<not> suffix ''.sql'' (state_file (pars_config ''/data'')) \<and>
     (\<exists>items. ledgers w' (state_file (pars_config ''/data'')) =
          ledgers sample_world (state_file (pars_config ''/data'')) @ items \<and>
        list_all ledger_name (ledgers w' (state_file (pars_config ''/data''))) \<and>
        file_ledger (state_update_file items (state_file (pars_config ''/data'')) (files w'))
          (state_file (pars_config ''/data'')) (ledgers w' (state_file (pars_config ''/data''))) \<and>
        ledger_of (state_update_file items (state_file (pars_config ''/data'')) (files w'))
          (state_file (pars_config ''/data'')) = ledgers w' (state_file (pars_config ''/data'')))"
proof -
  obtain w' where r: "run 2026 sample_manifest (pars_config ''/data'') sample_world = Inr w'"
    using sample_run_Inr by blast
  have h: "file_ledger (files sample_world) (state_file (pars_config ''/data''))
       (ledgers sample_world (state_file (pars_config ''/data'')))"
    "list_all ledger_name (ledgers sample_world (state_file (pars_config ''/data'')))"
    "\<not> suffix ''.sql'' (state_file (pars_config ''/data''))"
    "\<forall>f\<in>set (listdir (files sample_world) (source_dir (pars_config ''/data''))).
       CHR ''\<newline>'' \<notin> set f"
    by (simp_all add: sample_cfg_fields sample_world_def file_ledger_def suffix_def listdir_def)
  show ?thesis using run_file_ledger [OF r h] r h(1-3) by blast
qed

end
