(* ===== verification/Spec2Isabelle.thy ===== *)
theory Spec2Isabelle
  imports Runner Entry Ledger
begin

text \<open>
  \<^bold>\<open>A model of the data-oasis daily-renewables pipeline.\<close>
  The repository has three scripts run in one working directory: src/src/10_down.py
  downloads the daily report files into \<^verbatim>\<open>zip\<close>, is meant to copy them to \<^verbatim>\<open>txt\<close>
  and archives them; src/src/20_unzp.py does nothing; src/src/30_pars.py parses every
  new report of \<^verbatim>\<open>txt\<close> into a \<^verbatim>\<open>.sql\<close> file of \<^verbatim>\<open>sql\<close> and records the file in
  its ledger (the state file).  Each script keeps its own ledger through the edl library.

  \<^bold>\<open>Theories.\<close>
  \<^item> Prelude: the exception type \<open>py_error\<close> (every raise of the code is an \<open>Inl\<close>),
    \<open>py_index\<close> for \<^verbatim>\<open>xs[i]\<close>, and list lemmas the others share.
  \<^item> PyStr: the Python builtins the parser relies on, on Latin-1 strings: \<^verbatim>\<open>isspace\<close>,
    \<^verbatim>\<open>strip\<close>, \<^verbatim>\<open>split(sep)\<close>, \<^verbatim>\<open>split()\<close>, \<^verbatim>\<open>int()\<close>, \<^verbatim>\<open>str(int)\<close>; with the
    round trips \<open>split\<close>/\<open>join\<close> and \<open>int\<close>/\<open>str\<close>.
  \<^item> Dates: \<^verbatim>\<open>extract_date\<close> (30_pars.py 162-165) over dateutil's parse for the numeric
    \<^verbatim>\<open>M/D/Y\<close> form of the reports (modelled from the spec: the two-digit year window
    of fifty years around the current year \<open>now\<close>, the ymd resolution), and
    \<^verbatim>\<open>str(datetime)\<close>.
  \<^item> Table: \<^verbatim>\<open>chunk\<close>, \<^verbatim>\<open>extract_table\<close> with its row loop (\<open>build_datamap\<close>,
    \<open>row_index\<close>) and \<^verbatim>\<open>read_data\<close> (159-204); a table is a record whose dictionary is a
    map from hours to rows, the logged rows are returned beside it.
  \<^item> SqlEmit: \<^verbatim>\<open>int_or_none\<close>, \<^verbatim>\<open>gen_renewable_sql\<close>, \<^verbatim>\<open>gen_total_sql\<close> (207-274),
    both generators sharing the loop \<open>gen_rows\<close> over \<^verbatim>\<open>range(1,26)\<close>; the statements are
    the f-strings of the code; \<open>sql_values\<close> reads an \<^verbatim>\<open>INSERT\<close> back to prove keys.
  \<^item> Samples: \<^verbatim>\<open>EXAMPLE\<close> (34-89) and a short report built from its lines, evaluated
    stage by stage.
  \<^item> PyOs: \<^verbatim>\<open>os.path\<close>, \<^verbatim>\<open>listdir\<close>, a file store (association list in listing order)
    and the \<open>config\<close> record all three scripts return.
  \<^item> Pipeline: \<^verbatim>\<open>config\<close>, \<^verbatim>\<open>parse_text_file\<close>, \<^verbatim>\<open>parse_text_files\<close>, \<^verbatim>\<open>run\<close>
    (95-146, 279-298) over a world record (store, directories, ledgers, log); the edl
    ledger (\<^verbatim>\<open>state.new_files\<close>, \<^verbatim>\<open>state.update\<close>) is modelled from the spec.
  \<^item> Runner: the pass of \<^verbatim>\<open>run\<close> as the step relation \<open>pipe_step\<close> with phases
    Discover, Process, Commit, Done.
  \<^item> Down: 10_down.py (\<^verbatim>\<open>config\<close>, \<^verbatim>\<open>run\<close>, 49-157) over a world with permission bits
    and zip member lists; \<^verbatim>\<open>web.download\<close> from the spec, the URL generator a parameter.
  \<^item> Unzip: 20_unzp.py.
  \<^item> Ledger: the ledger as the newline-delimited state file the spec describes
    (\<open>ledger_text\<close>, \<open>ledger_read\<close>, \<open>state_update_file\<close>, modelled from the spec
    since \<^verbatim>\<open>edl.resources.state\<close> is outside the repository), related to the abstract
    \<open>ledgers\<close> of the world record.
  \<^item> Entry: the three \<^verbatim>\<open>__main__\<close> blocks (30_pars.py 303-318, 10_down.py 161-176,
    20_unzp.py 68-83): the log level from \<^verbatim>\<open>sys.argv\<close> with \<^verbatim>\<open>setLevel\<close>'s
    \<open>ValueError\<close>, reading \<^verbatim>\<open>manifest.json\<close> of the current directory, \<^verbatim>\<open>json.load\<close> as
    a parameter, then each script's \<^verbatim>\<open>run\<close>.

  \<^bold>\<open>What is proved.\<close>
  The per-component properties are in each theory; this one holds those across the scripts.
  Parsing: \<^verbatim>\<open>extract_table\<close> keys each row by its own hour, last wins, with at most 24
  rows, drops and logs the rows whose hour is not an integer (the float fallback always
  raises \<open>NameError\<close>), and fails only without a line break; \<^verbatim>\<open>read_data\<close> needs exactly
  three segments; the date line reads back.  Emission: both generators equal a reference
  written from the schema rule, their \<^verbatim>\<open>INSERT\<close> keys \<open>(date, hour)\<close> are distinct, and
  short rows are skipped and logged.  Pipeline: the ledger grows by exactly the files that
  went through; every recorded file has its output written with exactly its SQL
  (write-then-record, also as an invariant of every reachable state of the machine); the
  next run rediscovers exactly the failures; a second parse of a file rewrites the same
  bytes; \<^verbatim>\<open>run\<close> is the final state of the machine, which always terminates; a run
  keeps the store free of duplicate paths (the type invariant \<open>wf_store\<close>) and the ledger
  free of duplicate names; the \<^verbatim>\<open>.sql\<close> text of a report is at most 52 statements, one
  per line.  Archiver: for the absolute paths glob returns, nothing is copied to
  \<^verbatim>\<open>txt\<close>, the archive holds only itself, and the report is removed; without a
  \<^verbatim>\<open>zip/state.txt\<close> the final \<^verbatim>\<open>chmod\<close> raises and the downloads are never recorded;
  a run keeps its store free of duplicate paths and its ledger free of duplicate URLs; a
  report downloaded again after an unrecorded run cannot be archived, since its archive was
  left read-only (\<open>mode_ro AND S_IWRITE = 0\<close>); the manifest's missing keys and
  ill-typed or out-of-range start date (\<open>TypeError\<close>,
  \<open>OverflowError\<close> beyond the C \<^verbatim>\<open>int\<close> range) end the run before anything changes, and a valid start date reads
  back from its JSON list.  Ledger file: the file reads back to the
  names written; appending to it refines Pipeline's \<open>state_update\<close>, and a whole run
  followed by the append keeps the file and the abstract ledger in step.  Across the scripts (this theory, over
  \<open>pars_view\<close>, the download world as 30_pars.py sees the same directory tree): after a
  10_down.py run, 30_pars.py discovers in \<^verbatim>\<open>txt\<close> exactly what it discovered before, so
  no downloaded report reaches the parser.
  Entry points: an unknown log level or a missing manifest ends each script with an
  exception before anything changes; without arguments 30_pars.py runs the pipeline on
  the configuration of the current directory.  Concrete runs on lines of \<^verbatim>\<open>EXAMPLE\<close> fix the
  exact output.

  \<^bold>\<open>Bounds and parameters.\<close>
  The hours probed are 1 to 25 (\<^verbatim>\<open>range(1,26)\<close>), the data lines read at most 24
  (\<^verbatim>\<open>[:24]\<close>); both are in the definitions, not assumptions.  The current year
  \<open>now\<close> is a parameter (the witnesses use 2026); the date theorems hold for years within
  fifty of it, the window dateutil itself uses.  No loop needs fuel: every loop of the code
  runs over a finite list and is structural recursion.

  \<^bold>\<open>Not modelled.\<close>
  Logging (\<^verbatim>\<open>log.debug\<close> has no effect on the state; \<^verbatim>\<open>log.error\<close> is an event of the
  log), \<^verbatim>\<open>log.configure_logging\<close>, the JSON decoder (a parameter of the entry
  points), the network side of \<^verbatim>\<open>web.download\<close>
  (delay, retries), the URL generator (\<^verbatim>\<open>xtime.day_range_to_today\<close>,
  \<^verbatim>\<open>xtime.range_pairs\<close>, \<^verbatim>\<open>web.generate_urls\<close>: edl code outside the repository
  that the spec does not describe, so it is the parameter \<open>urls_for\<close> of \<open>down_run\<close>),
  the bytes of zip archives, dateutil's other input formats, and characters beyond
  Latin-1.  The edl ledger calls are modelled from the spec and cannot raise: a missing
  \<^verbatim>\<open>txt\<close> directory gives no new files and \<^verbatim>\<open>state.update\<close> always appends, whatever
  edl does on a missing directory.  The only lines of src/ no definition translates are
  the import statements.  The handlers' use of the global \<^verbatim>\<open>logger\<close> is taken to
  succeed, as it does when the scripts run as programs.
\<close>

section \<open>The scripts on one file system\<close>

text \<open>10_down.py and 30_pars.py act on the same directory tree: the world 30_pars.py sees
  after 10_down.py is the download world's store, directories and ledgers, with an empty
  log.\<close>

definition pars_view :: "down_world \<Rightarrow> world" where
  "pars_view w = \<lparr>files = dfiles w, dirs = ddirs w, ledgers = dledgers w, log = []\<rparr>"

section \<open>Properties across the scripts\<close>

lemma path_join_rel:
  "\<not> prefix ''/'' b \<Longrightarrow> \<exists>p. path_join a b = p @ b \<and> (p = a \<or> p = a @ ''/'')"
  by (auto simp: path_join_def)

text \<open>
  The configurations of the three scripts name the same directories: the \<^verbatim>\<open>txt\<close>
  directory 10_down.py is configured to copy to is the one 30_pars.py reads, 20_unzp.py's
  source is the \<^verbatim>\<open>zip\<close> directory 10_down.py downloads into, and the three state files
  are distinct.  (Whether anything reaches \<^verbatim>\<open>txt\<close> is the matter of
  \<open>down_then_pars_nothing_new\<close> below: nothing does.)
\<close>

lemma scripts_configs:
  "source_dir (down_config cwd) = source_dir (pars_config cwd)
   \<and> source_dir (unzp_config cwd) = working_dir (down_config cwd)
   \<and> distinct [state_file (down_config cwd), state_file (unzp_config cwd), state_file (pars_config cwd)]"
  by (auto simp: down_config_def unzp_config_def pars_config_def path_join_def)

lemma pars_state_not_down:
  "state_file (pars_config cwd) \<noteq> state_file (down_config cwd)"
  by (simp add: pars_config_def down_config_def path_join_def)

text \<open>
  C13: running 10_down.py gives 30_pars.py nothing new to parse: in an absolute working
  directory, whatever it downloads (under plain file names) and whatever succeeds or fails,
  the files 30_pars.py then discovers in \<^verbatim>\<open>txt\<close> are those it discovered before, since
  the reports stay in \<^verbatim>\<open>zip\<close> or are removed there, and 30_pars.py's ledger is untouched.
\<close>

theorem down_then_pars_nothing_new:
  assumes "prefix ''/'' cwd" and "\<forall>u n s. fetch u = Some (n, s) \<longrightarrow> \<not> prefix ''/'' n"
  shows "new_files rn (state_file (pars_config cwd)) (source_dir (pars_config cwd)) report_ending
           (pars_view (fst (down_run urls_for fetch m (down_config cwd) w))) =
         new_files rn (state_file (pars_config cwd)) (source_dir (pars_config cwd)) report_ending
           (pars_view w)"
  using down_run_txt_listdir [OF assms, of urls_for m w]
    down_run_dledgers_other [OF pars_state_not_down, of urls_for fetch m cwd w]
  by (simp add: new_files_def pars_view_def pars_config_def)

theorem down_then_pars_nothing_new_witness:
  "prefix ''/'' ''/data'' \<and>
   new_files ''data-oasis-daily-renewables-output'' (state_file (pars_config ''/data''))
     (source_dir (pars_config ''/data'')) report_ending
     (pars_view (fst (down_run (\<lambda>_ _. [sample_url]) sample_fetch sample_down_manifest
        (down_config ''/data'') sample_down_world))) =
   new_files ''data-oasis-daily-renewables-output'' (state_file (pars_config ''/data''))
     (source_dir (pars_config ''/data'')) report_ending (pars_view sample_down_world)"
proof -
  have h: "prefix ''/'' ''/data''" "\<forall>u n s. sample_fetch u = Some (n, s) \<longrightarrow> \<not> prefix ''/'' n"
    by (simp_all add: sample_fetch_def)
  show ?thesis
    using down_then_pars_nothing_new [OF h, of "''data-oasis-daily-renewables-output''"
        "\<lambda>_ _. [sample_url]" sample_down_manifest sample_down_world] h
    by blast
qed

end
